(* ===== verification/Prelude.thy ===== *)
theory Prelude
  imports Complex_Main "HOL-Library.Sublist"
begin

text \<open>
  Shared vocabulary of the development. Python's exceptions become the values of
  \<open>py_error\<close> and a fallible call returns \<open>py_error + 'a\<close> (\<open>Inl\<close> the exception).
  A one-dimensional tensor of floats is a \<open>real list\<close> (rounding is not modelled).
  The two tensor reductions the notebooks call everywhere are defined here once:
  \<open>tensor_max\<close> (\<^verbatim>\<open>p.max(dim=-1)\<close>, value and first index of the maximum, and
  with it \<^verbatim>\<open>argmax\<close>) and \<open>argsort_desc\<close>, a stable sort of indices by a descending key
  (\<^verbatim>\<open>argsort(descending=True)\<close>, and the objectness order of NMS).
  The lemmas about them are collected in \<open>tensor_simps\<close>.
\<close>

named_theorems tensor_simps "evaluation and characterisation of the shared tensor reductions"

datatype py_error = IndexError | ValueError | ZeroDivisionError | RuntimeError | AssertionError
  | TypeError | StopIteration | UnboundLocalError | AttributeError | KeyError

type_synonym 'a result = "py_error + 'a"
type_synonym tensor = "real list"

text \<open>A float that may be NaN (\<open>None\<close>): the result of \<open>0 / 0\<close> in a rescaling, or
  whatever uninitialised memory holds. Every comparison with NaN is false.\<close>

type_synonym fval = "real option"

subsection \<open>Maximum and first index of the maximum\<close>

fun list_max :: "real list \<Rightarrow> real" where
  "list_max [] = 0"
| "list_max [x] = x"
| "list_max (x # y # ys) = max x (list_max (y # ys))"

fun first_index :: "'a \<Rightarrow> 'a list \<Rightarrow> nat" where
  "first_index x [] = 0"
| "first_index x (y # ys) = (if x = y then 0 else Suc (first_index x ys))"

text \<open>\<^verbatim>\<open>torch.max(p, dim=-1)\<close> on a non-empty vector: the maximum and the index of its
  first occurrence; on an empty one the reduction has no element and the call raises
  \<^verbatim>\<open>IndexError\<close> (torch 2: "Expected reduction dim 0 to have non-zero size").\<close>

definition tensor_max :: "tensor \<Rightarrow> (real \<times> nat) result" where
  "tensor_max p = (if p = [] then Inl IndexError
                   else Inr (list_max p, first_index (list_max p) p))"

definition argsort_desc :: "('i \<Rightarrow> real) \<Rightarrow> 'i list \<Rightarrow> 'i list" where
  "argsort_desc f xs = sort_key (\<lambda>i. - f i) xs"

lemma list_max_Cons [tensor_simps]: "xs \<noteq> [] \<Longrightarrow> list_max (x # xs) = max x (list_max xs)"
  by (cases xs) auto

lemma list_max_in [tensor_simps]: "xs \<noteq> [] \<Longrightarrow> list_max xs \<in> set xs"
  by (induction xs rule: list_max.induct) (auto simp: max_def)

lemma list_max_ge [tensor_simps]: "x \<in> set xs \<Longrightarrow> x \<le> list_max xs"
  by (induction xs rule: list_max.induct) auto

lemma first_index_less [tensor_simps]: "x \<in> set xs \<Longrightarrow> first_index x xs < length xs"
  by (induction xs) auto

lemma nth_first_index [tensor_simps]: "x \<in> set xs \<Longrightarrow> xs ! first_index x xs = x"
  by (induction xs) auto

lemma first_index_first [tensor_simps]: "j < first_index x xs \<Longrightarrow> xs ! j \<noteq> x"
proof (induction xs arbitrary: j)
  case Nil
  then show ?case by simp
next
  case (Cons y ys)
  then show ?case by (cases j) (auto split: if_splits)
qed

lemma tensor_max_Inr [tensor_simps]:
  assumes "tensor_max p = Inr (s, k)"
  shows "k < length p \<and> p ! k = s \<and> (\<forall>x\<in>set p. x \<le> s) \<and> (\<forall>j<k. p ! j < s)"
proof -
  from assms have ne: "p \<noteq> []" and s: "s = list_max p" and k: "k = first_index s p"
    by (auto simp: tensor_max_def split: if_splits)
  have mem: "s \<in> set p" using ne s by (simp add: list_max_in)
  have "\<forall>j<k. p ! j < s"
  proof (intro allI impI)
    fix j assume j: "j < k"
    then have "j < length p" using k mem first_index_less by fastforce
    then have "p ! j \<le> s" using s list_max_ge nth_mem by blast
    moreover have "p ! j \<noteq> s" using first_index_first [of j s p] j k by simp
    ultimately show "p ! j < s" by simp
  qed
  then show ?thesis
    using mem s k by (simp add: first_index_less nth_first_index list_max_ge)
qed

subsection \<open>Softmax and probability vectors\<close>

text \<open>\<^verbatim>\<open>torch.nn.functional.softmax\<close> along one vector.\<close>

definition softmax :: "tensor \<Rightarrow> tensor" where
  "softmax xs = map (\<lambda>x. exp x / sum_list (map exp xs)) xs"

definition prob_vec :: "tensor \<Rightarrow> bool" where
  "prob_vec p \<longleftrightarrow> p \<noteq> [] \<and> list_all (\<lambda>x. 0 \<le> x) p \<and> sum_list p = 1"

lemma sum_list_exp_nonneg: "0 \<le> sum_list (map exp (xs :: real list))"
  by (induction xs) (simp_all add: add_nonneg_nonneg)

lemma sum_list_exp_pos: "xs \<noteq> [] \<Longrightarrow> 0 < sum_list (map exp (xs :: real list))"
  by (cases xs) (simp_all add: add_pos_nonneg sum_list_exp_nonneg)

lemma sum_list_map_div: "sum_list (map (\<lambda>x. f x / c) xs) = sum_list (map f xs) / (c :: real)"
  by (induction xs) (simp_all add: add_divide_distrib)

lemma softmax_pos [tensor_simps]: "x \<in> set (softmax xs) \<Longrightarrow> 0 < x"
proof -
  assume "x \<in> set (softmax xs)"
  then obtain y where y: "y \<in> set xs" "x = exp y / sum_list (map exp xs)"
    by (auto simp: softmax_def)
  then have "xs \<noteq> []" by auto
  then have "0 < sum_list (map exp xs)" by (rule sum_list_exp_pos)
  with y show ?thesis by simp
qed

lemma softmax_length [tensor_simps]: "length (softmax xs) = length xs"
  by (simp add: softmax_def)

lemma softmax_sum [tensor_simps]: "xs \<noteq> [] \<Longrightarrow> sum_list (softmax xs) = 1"
proof -
  assume ne: "xs \<noteq> []"
  have "sum_list (softmax xs) = sum_list (map exp xs) / sum_list (map exp xs)"
    by (simp add: softmax_def sum_list_map_div)
  then show ?thesis using sum_list_exp_pos [OF ne] by simp
qed

lemma softmax_prob_vec [tensor_simps]: "xs \<noteq> [] \<Longrightarrow> prob_vec (softmax xs)"
proof -
  assume ne: "xs \<noteq> []"
  have "softmax xs \<noteq> []" using ne by (simp add: softmax_def)
  moreover have "list_all (\<lambda>x. 0 \<le> x) (softmax xs)"
    unfolding list_all_iff using softmax_pos less_imp_le by blast
  ultimately show ?thesis using softmax_sum [OF ne] by (simp add: prob_vec_def)
qed

text \<open>Two different entries of a probability vector sum to at most 1.\<close>

lemma prob_vec_two_le:
  assumes "prob_vec p" "i < length p" "j < length p" "i \<noteq> j"
  shows "p ! i + p ! j \<le> 1"
proof -
  have nn: "\<forall>k\<in>{0..<length p}. 0 \<le> p ! k"
    using assms(1) by (auto simp: prob_vec_def list_all_iff)
  have "p ! i + p ! j = (\<Sum>k\<in>{i, j}. p ! k)" using assms(4) by simp
  also have "\<dots> \<le> (\<Sum>k = 0..<length p. p ! k)"
    by (rule sum_mono2) (use assms(2,3) nn in auto)
  also have "\<dots> = sum_list p" by (simp add: sum_list_sum_nth)
  finally show ?thesis using assms(1) by (simp add: prob_vec_def)
qed

subsection \<open>Stable descending argsort\<close>

lemma argsort_desc_sorted [tensor_simps]:
  "sorted_wrt (\<lambda>i j. f j \<le> f i) (argsort_desc f xs)"
proof -
  have "sorted (map (\<lambda>i. - f i) (sort_key (\<lambda>i. - f i) xs))" by simp
  then show ?thesis by (simp add: argsort_desc_def sorted_map)
qed

lemma argsort_desc_set [tensor_simps]: "set (argsort_desc f xs) = set xs"
  and argsort_desc_length [tensor_simps]: "length (argsort_desc f xs) = length xs"
  and argsort_desc_distinct [tensor_simps]: "distinct (argsort_desc f xs) = distinct xs"
  by (simp_all add: argsort_desc_def)

text \<open>Equal keys keep their input order: the tie-break is the input order.\<close>

lemma argsort_desc_stable [tensor_simps]:
  "filter (\<lambda>i. f i = c) (argsort_desc f xs) = filter (\<lambda>i. f i = c) xs"
proof -
  have "filter (\<lambda>i. - f i = - c) (sort_key (\<lambda>i. - f i) xs) = filter (\<lambda>i. - f i = - c) xs"
    by (rule sort_key_stable)
  then show ?thesis by (simp add: argsort_desc_def)
qed

lemma argsort_desc_id [tensor_simps]:
  "sorted_wrt (\<lambda>i j. f j \<le> f i) xs \<Longrightarrow> argsort_desc f xs = xs"
  unfolding argsort_desc_def
  by (rule sort_key_id_if_sorted) (simp add: sorted_map)

text \<open>On indices in input order, the descending sort breaks ties by the index:
  the order is "greater key first, then smaller index first".\<close>

definition desc_then_index :: "(nat \<Rightarrow> real) \<Rightarrow> nat \<Rightarrow> nat \<Rightarrow> bool" where
  "desc_then_index f i j \<longleftrightarrow> f j < f i \<or> (f j = f i \<and> i < j)"

lemma insort_key_desc_then_index:
  assumes "sorted_wrt (desc_then_index f) ys" "\<forall>y\<in>set ys. x < y"
  shows "sorted_wrt (desc_then_index f) (insort_key (\<lambda>i. - f i) x ys)"
  using assms
proof (induction ys)
  case Nil
  then show ?case by simp
next
  case (Cons y ys)
  show ?case
  proof (cases "- f x \<le> - f y")
    case True
    have "desc_then_index f x z" if "z \<in> set (y # ys)" for z
    proof -
      have "z = y \<or> desc_then_index f y z" using that Cons.prems(1) by auto
      then show ?thesis
        using True that Cons.prems(2) by (auto simp: desc_then_index_def)
    qed
    with True Cons.prems(1) show ?thesis by auto
  next
    case False
    then have "desc_then_index f y x" by (simp add: desc_then_index_def)
    with False Cons show ?thesis by (auto simp: set_insort_key)
  qed
qed

lemma argsort_desc_desc_then_index [tensor_simps]:
  "sorted_wrt (<) xs \<Longrightarrow> sorted_wrt (desc_then_index f) (argsort_desc f xs)"
proof (induction xs)
  case Nil
  then show ?case by (simp add: argsort_desc_def)
next
  case (Cons x xs)
  then have "sorted_wrt (desc_then_index f) (sort_key (\<lambda>i. - f i) xs)" and "\<forall>y\<in>set xs. x < y"
    by (simp_all add: argsort_desc_def)
  then show ?case
    by (simp add: argsort_desc_def insort_key_desc_then_index)
qed

lemma sorted_wrt_upt_nth [tensor_simps]:
  "sorted_wrt R xs \<Longrightarrow> sorted_wrt (\<lambda>i j. R (xs ! i) (xs ! j)) [0..<length xs]"
proof -
  assume "sorted_wrt R xs"
  then have "sorted_wrt R (map ((!) xs) [0..<length xs])" by (simp add: map_nth)
  then show ?thesis by (simp only: sorted_wrt_map)
qed

subsection \<open>Subsequences\<close>

named_theorems subseq_facts "what a subsequence inherits from its list"

lemma subseq_set [subseq_facts]: "subseq xs ys \<Longrightarrow> set xs \<subseteq> set ys"
  by (induction rule: list_emb.induct) auto

lemma subseq_sorted_wrt [subseq_facts]: "subseq xs ys \<Longrightarrow> sorted_wrt R ys \<Longrightarrow> sorted_wrt R xs"
  by (induction rule: list_emb.induct) (auto dest: subseq_set)

lemma subseq_distinct [subseq_facts]: "subseq xs ys \<Longrightarrow> distinct ys \<Longrightarrow> distinct xs"
  by (induction rule: list_emb.induct) (auto dest: subseq_set)

end
