(* ===== verification/Boxes.thy ===== *)
theory Boxes
  imports Prelude
begin

text \<open>
  Box-overlap evaluator of the detection notebook (\<^verbatim>\<open>src/unnamed/part_000\<close>).
  A box is the record of its four corner coordinates in the notebook's
  \<^verbatim>\<open>(left, upper, right, bottom)\<close> order. The notebook leaves the body of
  \<^verbatim>\<open>batch_iou\<close> as an exercise (\<^verbatim>\<open>...\<close>), so \<open>iou\<close> follows the formula of the
  notebook's assignment text (intersection over union, the union being the sum of the
  areas minus the intersection), \<open>batch_iou\<close> the docstring (one IoU per box), and
  \<open>area\<close>, \<open>inter_area\<close> and the zero-union rule the spec (section 4.1), while the code that is written, the
  fixture \<^verbatim>\<open>check_batch_iou\<close> and the stub as shipped (\<^verbatim>\<open>torch.empty\<close> returned
  unfilled, its floats possibly NaN), are translated from the source. Lemmas: symmetry,
  bounds, self-overlap, disjointness, and when the fixture accepts the stub.
\<close>

named_theorems box_simps "definitions unfolded to evaluate box geometry"

record box =
  left :: real
  upper :: real
  right :: real
  bottom :: real

definition valid_box :: "box \<Rightarrow> bool" where
  "valid_box b \<longleftrightarrow> left b \<le> right b \<and> upper b \<le> bottom b"

definition area :: "box \<Rightarrow> real" where
  "area b = (right b - left b) * (bottom b - upper b)"

definition inter_area :: "box \<Rightarrow> box \<Rightarrow> real" where
  "inter_area a b =
     max 0 (min (right a) (right b) - max (left a) (left b)) *
     max 0 (min (bottom a) (bottom b) - max (upper a) (upper b))"

definition iou :: "box \<Rightarrow> box \<Rightarrow> real" where
  "iou a b = (let i = inter_area a b; u = area a + area b - i in if 0 < u then i / u else 0)"

definition batch_iou :: "box \<Rightarrow> box list \<Rightarrow> tensor" where
  "batch_iou reference boxes = map (iou reference) boxes"

declare area_def [box_simps] inter_area_def [box_simps] iou_def [box_simps]
  batch_iou_def [box_simps] valid_box_def [box_simps]

subsection \<open>The notebook's fixture and the shipped stub\<close>

definition mk_box :: "real \<Rightarrow> real \<Rightarrow> real \<Rightarrow> real \<Rightarrow> box" where
  "mk_box l u r b = \<lparr>left = l, upper = u, right = r, bottom = b\<rparr>"

definition check_reference :: box where
  "check_reference = mk_box 0 0 4 6"

definition check_boxes :: "box list" where
  "check_boxes = [mk_box 0 0 4 4, mk_box (-2) (-2) 2 2, mk_box (-4) (-4) 0 0, mk_box (-6) (-6) (-2) (-2)]"

definition iou_gt :: tensor where
  "iou_gt = [2 / 3, 1 / 9, 0, 0]"

text \<open>\<^verbatim>\<open>check_batch_iou(fn)\<close>: a result of the wrong shape fails, then the loop
  returns \<^verbatim>\<open>False\<close> at the first entry further than \<^verbatim>\<open>1e-6\<close> from the ground truth.
  The result's entries are floats that may be NaN; \<^verbatim>\<open>abs(nan - g) > 1e-6\<close> is false, so
  a NaN entry passes the test.\<close>

fun check_entries :: "fval list \<Rightarrow> tensor \<Rightarrow> bool" where
  "check_entries (r # rs) (g # gs) =
     (case r of
        None \<Rightarrow> check_entries rs gs
      | Some v \<Rightarrow> if \<bar>v - g\<bar> > 1 / 1000000 then False else check_entries rs gs)"
| "check_entries _ _ = True"

definition check_batch_iou :: "(box \<Rightarrow> box list \<Rightarrow> fval list) \<Rightarrow> bool" where
  "check_batch_iou fn =
     (let result = fn check_reference check_boxes in
      if length result \<noteq> 4 then False else check_entries result iou_gt)"

text \<open>\<^verbatim>\<open>torch.empty(n)\<close> returns \<open>n\<close> floats of uninitialised memory, here the
  function \<open>mem\<close> from positions to whatever the allocator left there, NaN included.\<close>

definition torch_empty :: "(nat \<Rightarrow> fval) \<Rightarrow> nat \<Rightarrow> fval list" where
  "torch_empty mem n = map mem [0..<n]"

definition batch_iou_stub :: "(nat \<Rightarrow> fval) \<Rightarrow> box \<Rightarrow> box list \<Rightarrow> fval list" where
  "batch_iou_stub mem reference boxes = torch_empty mem (length boxes)"

subsection \<open>Scaling to pixel coordinates\<close>

definition scale_box :: "real \<Rightarrow> real \<Rightarrow> box \<Rightarrow> box" where
  "scale_box w h b = mk_box (left b * w) (upper b * h) (right b * w) (bottom b * h)"

subsection \<open>Lemmas\<close>

lemma inter_area_sym: "inter_area a b = inter_area b a"
  by (simp add: inter_area_def max.commute min.commute)

lemma inter_area_nonneg: "0 \<le> inter_area a b"
  by (simp add: inter_area_def)

lemma max0_le_side: "0 \<le> y - x \<Longrightarrow> max 0 (min y y' - max x x') \<le> (y - x :: real)"
  by (auto simp: max_def min_def)

lemma inter_area_le_area: "valid_box a \<Longrightarrow> inter_area a b \<le> area a"
  unfolding inter_area_def area_def valid_box_def
  by (rule mult_mono) (auto intro: max0_le_side)

lemma area_nonneg: "valid_box a \<Longrightarrow> 0 \<le> area a"
  by (simp add: area_def valid_box_def)

lemma iou_union_ge:
  assumes "valid_box a" "valid_box b"
  shows "inter_area a b \<le> area a + area b - inter_area a b"
  using inter_area_le_area [OF assms(1), of b] inter_area_le_area [OF assms(2), of a]
    area_nonneg [OF assms(1)] inter_area_sym [of a b] by linarith

lemma scale_inter_area:
  "0 < w \<Longrightarrow> 0 < h \<Longrightarrow> inter_area (scale_box w h a) (scale_box w h b) = w * h * inter_area a b"
proof -
  assume w: "0 < w" and h: "0 < h"
  have mx: "max (x * c) (y * c) = max x y * c" and mn: "min (x * c) (y * c) = min x y * c"
    if "0 < c" for x y c :: real
    using that by (simp_all add: max_def min_def)
  have m0: "max 0 (x * c) = max 0 x * c" if "0 < c" for x c :: real
    using that by (simp add: max_def zero_le_mult_iff)
  have dw: "min (right a * w) (right b * w) - max (left a * w) (left b * w)
      = (min (right a) (right b) - max (left a) (left b)) * w"
    using w by (simp add: mx mn left_diff_distrib)
  have dh: "min (bottom a * h) (bottom b * h) - max (upper a * h) (upper b * h)
      = (min (bottom a) (bottom b) - max (upper a) (upper b)) * h"
    using h by (simp add: mx mn left_diff_distrib)
  have "inter_area (scale_box w h a) (scale_box w h b)
      = max 0 ((min (right a) (right b) - max (left a) (left b)) * w)
        * max 0 ((min (bottom a) (bottom b) - max (upper a) (upper b)) * h)"
    by (simp add: inter_area_def scale_box_def mk_box_def dw dh)
  also have "\<dots> = w * h * inter_area a b"
    unfolding m0 [OF w] m0 [OF h] inter_area_def by (simp add: mult_ac)
  finally show ?thesis .
qed

lemma scale_area: "area (scale_box w h a) = w * h * area a"
  by (simp add: area_def scale_box_def mk_box_def algebra_simps)

lemma iou_eq_ratio:
  "iou a b = (if 0 < area a + area b - inter_area a b
              then inter_area a b / (area a + area b - inter_area a b) else 0)"
  by (simp add: iou_def Let_def)

lemma iou_commute: "iou a b = iou b a"
  by (simp add: iou_eq_ratio inter_area_sym add.commute)

lemma iou_scale:
  assumes "0 < w" "0 < h"
  shows "iou (scale_box w h a) (scale_box w h b) = iou a b"
proof -
  have wh: "0 < w * h" using assms by simp
  let ?U = "area a + area b - inter_area a b"
  have u: "area (scale_box w h a) + area (scale_box w h b) - w * h * inter_area a b = w * h * ?U"
    by (simp add: scale_area algebra_simps)
  have pos: "0 < w * h * ?U \<longleftrightarrow> 0 < ?U"
    using wh by (meson mult_pos_pos zero_less_mult_pos)
  have q: "w * h * inter_area a b / (w * h * ?U) = inter_area a b / ?U"
    using assms by simp
  show ?thesis
    unfolding iou_eq_ratio scale_inter_area [OF assms] u pos q ..
qed

subsection \<open>Properties of the evaluator\<close>

text \<open>C9: for boxes with \<open>left \<le> right\<close> and \<open>upper \<le> bottom\<close>, the IoU lies in
  \<open>[0, 1]\<close>.\<close>

theorem iou_bounds:
  assumes "valid_box a" "valid_box b"
  shows "0 \<le> iou a b \<and> iou a b \<le> 1"
proof -
  have i0: "0 \<le> inter_area a b" by (rule inter_area_nonneg)
  have iu: "inter_area a b \<le> area a + area b - inter_area a b"
    using assms by (rule iou_union_ge)
  show ?thesis
    using i0 iu by (simp add: iou_eq_ratio divide_le_eq_1)
qed

theorem iou_bounds_witness:
  "valid_box check_reference \<and> valid_box (mk_box (-2) (-2) 2 2)
   \<and> 0 \<le> iou check_reference (mk_box (-2) (-2) 2 2) \<and> iou check_reference (mk_box (-2) (-2) 2 2) \<le> 1"
proof -
  have v: "valid_box check_reference" "valid_box (mk_box (-2) (-2) 2 2)"
    by (simp_all add: valid_box_def check_reference_def mk_box_def)
  show ?thesis using v iou_bounds [OF v] by simp
qed

text \<open>A box with positive width and height has IoU exactly 1 with itself.\<close>

theorem iou_self:
  assumes "left b < right b" "upper b < bottom b"
  shows "iou b b = 1"
proof -
  have "inter_area b b = area b" using assms by (simp add: inter_area_def area_def)
  moreover have "0 < area b" using assms by (simp add: area_def)
  ultimately show ?thesis by (simp add: iou_eq_ratio)
qed

theorem iou_self_witness: "(0::real) < 4 \<and> (0::real) < 6 \<and> iou check_reference check_reference = 1"
  using iou_self [of check_reference] by (simp add: check_reference_def mk_box_def)

text \<open>Boxes separated by a vertical or a horizontal line (touching allowed) have
  IoU 0: their intersection is clipped to zero area and no division by zero occurs.\<close>

theorem iou_disjoint:
  assumes "right a \<le> left b \<or> right b \<le> left a \<or> bottom a \<le> upper b \<or> bottom b \<le> upper a"
  shows "iou a b = 0"
proof -
  have "inter_area a b = 0"
    using assms by (auto simp: inter_area_def max_def min_def)
  then show ?thesis by (simp add: iou_eq_ratio)
qed

theorem iou_disjoint_witness:
  "right (mk_box (-6) (-6) (-2) (-2)) \<le> left check_reference
   \<and> iou check_reference (mk_box (-6) (-6) (-2) (-2)) = 0"
  using iou_disjoint [of check_reference "mk_box (-6) (-6) (-2) (-2)"]
  by (simp add: check_reference_def mk_box_def)

text \<open>The stub as shipped returns \<^verbatim>\<open>torch.empty(len(boxes))\<close> unfilled, so the
  notebook's \<^verbatim>\<open>assert check_batch_iou(batch_iou)\<close> holds exactly when each of the four
  uninitialised floats is NaN or already within \<^verbatim>\<open>1e-6\<close> of the expected value.\<close>

lemma check_batch_iou_stub:
  "check_batch_iou (batch_iou_stub mem) \<longleftrightarrow>
     (\<forall>i<4. case mem i of None \<Rightarrow> True | Some v \<Rightarrow> \<bar>v - iou_gt ! i\<bar> \<le> 1 / 1000000)"
proof -
  have q: "(\<forall>i<4. P i) \<longleftrightarrow> P 0 \<and> P 1 \<and> P 2 \<and> P 3" for P :: "nat \<Rightarrow> bool"
    by (auto simp: less_Suc_eq numeral_2_eq_2 numeral_3_eq_3 numeral_Bit0)
  show ?thesis
    unfolding q
    by (auto simp: check_batch_iou_def batch_iou_stub_def torch_empty_def check_boxes_def iou_gt_def
        upt_rec not_less numeral_2_eq_2 numeral_3_eq_3 split: option.split)
qed

end
