(* ===== verification/NMS.thy ===== *)
theory NMS
  imports Boxes
begin

text \<open>
  Greedy suppressor of the detection notebook (\<^verbatim>\<open>src/unnamed/part_000\<close>).
  \<open>objectness\<close> is the notebook's \<^verbatim>\<open>obj_probs = 1 - probs[:, :, -1]\<close>. The body of
  \<^verbatim>\<open>non_maximum_suppression\<close> is an exercise in the notebook (\<^verbatim>\<open>nms_boxes = ...\<close>),
  so the suppressor follows the algorithm of the notebook's assignment text and the spec
  (section 4.2): indices sorted by descending objectness with a stable tie-break
  (\<open>nms_order\<close>), then the greedy loop \<open>nms_loop\<close> that keeps the head of the
  worklist and drops every remaining index whose IoU with it exceeds the threshold.
  \<open>nms_scan\<close> is the index-array formulation of the spec's design notes: one pass in
  objectness order that keeps a candidate when no kept box overlaps it; it computes the
  same list. The input checks of the spec's contract (lengths, threshold in
  \<open>(0, 1]\<close>, a background slot in every probability vector) raise \<^verbatim>\<open>ValueError\<close>.
\<close>

definition objectness :: "tensor \<Rightarrow> real" where
  "objectness p = 1 - last p"

definition nms_order :: "tensor list \<Rightarrow> nat list" where
  "nms_order probs = argsort_desc (\<lambda>i. objectness (probs ! i)) [0..<length probs]"

fun nms_loop :: "box list \<Rightarrow> real \<Rightarrow> nat list \<Rightarrow> nat list" where
  "nms_loop bs thr [] = []"
| "nms_loop bs thr (i # rest) =
     i # nms_loop bs thr (filter (\<lambda>j. \<not> thr < iou (bs ! i) (bs ! j)) rest)"

definition nms_keep :: "box list \<Rightarrow> tensor list \<Rightarrow> real \<Rightarrow> nat list" where
  "nms_keep boxes probs thr = nms_loop boxes thr (nms_order probs)"

definition nms_input_ok :: "box list \<Rightarrow> tensor list \<Rightarrow> real \<Rightarrow> bool" where
  "nms_input_ok boxes probs thr \<longleftrightarrow>
     length boxes = length probs \<and> 0 < thr \<and> thr \<le> 1 \<and> [] \<notin> set probs"

definition non_maximum_suppression ::
  "box list \<Rightarrow> tensor list \<Rightarrow> real \<Rightarrow> (box list \<times> tensor list) result" where
  "non_maximum_suppression boxes probs thr =
     (if \<not> nms_input_ok boxes probs thr then Inl ValueError
      else let kept = nms_keep boxes probs thr
           in Inr (map ((!) boxes) kept, map ((!) probs) kept))"

subsection \<open>The one-pass index formulation\<close>

fun nms_scan :: "box list \<Rightarrow> real \<Rightarrow> nat list \<Rightarrow> nat list \<Rightarrow> nat list" where
  "nms_scan bs thr kept [] = kept"
| "nms_scan bs thr kept (j # js) =
     nms_scan bs thr
       (if list_all (\<lambda>k. iou (bs ! k) (bs ! j) \<le> thr) kept then kept @ [j] else kept) js"

definition non_maximum_suppression_scan ::
  "box list \<Rightarrow> tensor list \<Rightarrow> real \<Rightarrow> (box list \<times> tensor list) result" where
  "non_maximum_suppression_scan boxes probs thr =
     (if \<not> nms_input_ok boxes probs thr then Inl ValueError
      else let kept = nms_scan boxes thr [] (nms_order probs)
           in Inr (map ((!) boxes) kept, map ((!) probs) kept))"

subsection \<open>The spec's end-to-end scenario\<close>

text \<open>Four tightly overlapping "ship" boxes with objectness 0.9, 0.8, 0.7, 0.6 and one
  isolated "cat" box with objectness 0.95, given in a shuffled input order; each
  probability vector is (ship, cat, no object).\<close>

definition ship1 :: box where "ship1 = mk_box 0.1 0.1 0.5 0.5"
definition ship2 :: box where "ship2 = mk_box 0.1 0.1 0.5 0.45"
definition ship3 :: box where "ship3 = mk_box 0.12 0.1 0.5 0.5"
definition ship4 :: box where "ship4 = mk_box 0.1 0.12 0.48 0.5"
definition cat_box :: box where "cat_box = mk_box 0.6 0.6 0.9 0.9"

definition scene_boxes :: "box list" where
  "scene_boxes = [ship3, ship1, cat_box, ship4, ship2]"

definition scene_probs :: "tensor list" where
  "scene_probs = [[0.65, 0.05, 0.3], [0.85, 0.05, 0.1], [0.05, 0.9, 0.05], [0.55, 0.05, 0.4],
                  [0.75, 0.05, 0.2]]"

lemmas scene_defs = scene_boxes_def scene_probs_def ship1_def ship2_def ship3_def ship4_def
  cat_box_def mk_box_def

subsection \<open>The greedy loop\<close>

named_theorems nms_loop_facts "properties of the greedy loop on any worklist"

lemma nms_loop_subseq [nms_loop_facts]: "subseq (nms_loop bs thr xs) xs"
  by (induction bs thr xs rule: nms_loop.induct)
    (auto intro: subseq_order.trans [OF _ subseq_filter_left])

lemma nms_loop_set [nms_loop_facts]: "set (nms_loop bs thr xs) \<subseteq> set xs"
  by (rule subseq_set [OF nms_loop_subseq])

lemma nms_loop_length [nms_loop_facts]: "length (nms_loop bs thr xs) \<le> length xs"
  by (rule list_emb_length [OF nms_loop_subseq])

lemma nms_loop_pairwise [nms_loop_facts]:
  "sorted_wrt (\<lambda>i j. iou (bs ! i) (bs ! j) \<le> thr) (nms_loop bs thr xs)"
proof (induction bs thr xs rule: nms_loop.induct)
  case (1 bs thr)
  then show ?case by simp
next
  case (2 bs thr i rest)
  let ?rest = "filter (\<lambda>j. \<not> thr < iou (bs ! i) (bs ! j)) rest"
  have "\<forall>j\<in>set (nms_loop bs thr ?rest). iou (bs ! i) (bs ! j) \<le> thr"
    using nms_loop_set [of bs thr ?rest] by auto
  with "2.IH" show ?case by simp
qed

text \<open>A dropped index overlaps, above the threshold, a kept index that came earlier
  in the worklist; "earlier" is any order the worklist is sorted by.\<close>

lemma nms_loop_covers [nms_loop_facts]:
  "sorted_wrt R xs \<Longrightarrow> j \<in> set xs \<Longrightarrow> j \<notin> set (nms_loop bs thr xs) \<Longrightarrow>
   \<exists>i\<in>set (nms_loop bs thr xs). thr < iou (bs ! i) (bs ! j) \<and> R i j"
proof (induction bs thr xs rule: nms_loop.induct)
  case (1 bs thr)
  then show ?case by simp
next
  case (2 bs thr i rest)
  let ?rest = "filter (\<lambda>j. \<not> thr < iou (bs ! i) (bs ! j)) rest"
  from "2.prems" have j: "j \<in> set rest" "j \<noteq> i" and Rij: "R i j" by auto
  show ?case
  proof (cases "thr < iou (bs ! i) (bs ! j)")
    case True
    with Rij show ?thesis by simp
  next
    case False
    with j have "j \<in> set ?rest" by simp
    moreover have "sorted_wrt R ?rest" using "2.prems"(1) by (simp add: sorted_wrt_filter)
    moreover have "j \<notin> set (nms_loop bs thr ?rest)" using "2.prems"(3) by simp
    ultimately show ?thesis using "2.IH" by fastforce
  qed
qed

lemma nms_loop_id [nms_loop_facts]:
  "sorted_wrt (\<lambda>i j. iou (bs ! i) (bs ! j) \<le> thr) xs \<Longrightarrow> nms_loop bs thr xs = xs"
proof (induction xs)
  case Nil
  then show ?case by simp
next
  case (Cons i rest)
  then have "filter (\<lambda>j. \<not> thr < iou (bs ! i) (bs ! j)) rest = rest"
    by (auto simp: not_less)
  with Cons show ?case by simp
qed

lemma nms_scan_loop:
  "nms_scan bs thr K xs =
     K @ nms_loop bs thr (filter (\<lambda>j. list_all (\<lambda>k. iou (bs ! k) (bs ! j) \<le> thr) K) xs)"
proof (induction xs arbitrary: K)
  case Nil
  then show ?case by simp
next
  case (Cons x xs)
  show ?case
  proof (cases "list_all (\<lambda>k. iou (bs ! k) (bs ! x) \<le> thr) K")
    case True
    have "filter (\<lambda>j. list_all (\<lambda>k. iou (bs ! k) (bs ! j) \<le> thr) (K @ [x])) xs
        = filter (\<lambda>j. \<not> thr < iou (bs ! x) (bs ! j))
            (filter (\<lambda>j. list_all (\<lambda>k. iou (bs ! k) (bs ! j) \<le> thr) K) xs)"
      by (simp add: filter_filter not_less conj_commute)
    with True Cons.IH [of "K @ [x]"] show ?thesis by simp
  next
    case False
    with Cons.IH [of K] show ?thesis by simp
  qed
qed

corollary nms_scan_eq_loop: "nms_scan bs thr [] xs = nms_loop bs thr xs"
  using nms_scan_loop [of bs thr "[]" xs] by simp

subsection \<open>The suppressor\<close>

lemma nms_order_set: "set (nms_order probs) = {..<length probs}"
  and nms_order_distinct: "distinct (nms_order probs)"
  by (auto simp: nms_order_def tensor_simps)

lemma nms_order_length: "length (nms_order probs) = length probs"
  by (simp add: nms_order_def tensor_simps)

lemma nms_order_desc: "sorted_wrt (\<lambda>i j. objectness (probs ! j) \<le> objectness (probs ! i)) (nms_order probs)"
  unfolding nms_order_def by (rule argsort_desc_sorted)

lemma nms_keep_facts:
  shows "subseq (nms_keep boxes probs thr) (nms_order probs)"
    and "set (nms_keep boxes probs thr) \<subseteq> {..<length probs}"
    and "distinct (nms_keep boxes probs thr)"
  using nms_loop_subseq [of boxes thr "nms_order probs"] nms_order_distinct [of probs]
    nms_loop_set [of boxes thr "nms_order probs"] nms_order_set [of probs]
  by (auto simp: nms_keep_def dest: subseq_distinct)

lemma non_maximum_suppression_Inr:
  "non_maximum_suppression boxes probs thr = Inr (kb, kp) \<longleftrightarrow>
     nms_input_ok boxes probs thr \<and> kb = map ((!) boxes) (nms_keep boxes probs thr)
     \<and> kp = map ((!) probs) (nms_keep boxes probs thr)"
  by (auto simp: non_maximum_suppression_def Let_def)

lemma nms_kept_pairwise:
  "non_maximum_suppression boxes probs thr = Inr (kb, kp) \<Longrightarrow> sorted_wrt (\<lambda>a b. iou a b \<le> thr) kb"
  using nms_loop_pairwise [of boxes thr "nms_order probs"]
  by (simp add: non_maximum_suppression_Inr nms_keep_def sorted_wrt_map)

lemma scene_result:
  "non_maximum_suppression scene_boxes scene_probs (1 / 2)
     = Inr ([cat_box, ship1], [[0.05, 0.9, 0.05], [0.85, 0.05, 0.1]])"
  by (simp add: non_maximum_suppression_def nms_input_ok_def nms_keep_def nms_order_def
      argsort_desc_def objectness_def scene_defs iou_eq_ratio inter_area_def area_def upt_rec)

text \<open>C1: no two detections that NMS keeps overlap by more than the threshold: for any
  two distinct positions of the kept boxes, their IoU is at most \<open>iou_threshold\<close>.\<close>

theorem nms_no_overlap:
  assumes "non_maximum_suppression boxes probs thr = Inr (kb, kp)"
    and "i < length kb" "j < length kb" "i \<noteq> j"
  shows "iou (kb ! i) (kb ! j) \<le> thr"
proof -
  have ab: "iou (kb ! a) (kb ! b) \<le> thr" if "a < b" "b < length kb" for a b
    using sorted_wrt_nth_less [OF nms_kept_pairwise [OF assms(1)] that] .
  show ?thesis
  proof (cases "i < j")
    case True
    then show ?thesis using ab assms(3) by blast
  next
    case False
    then have "j < i" using assms(4) by simp
    then have "iou (kb ! j) (kb ! i) \<le> thr" using ab assms(2) by blast
    then show ?thesis by (simp only: iou_commute)
  qed
qed

theorem nms_no_overlap_witness:
  "non_maximum_suppression scene_boxes scene_probs (1 / 2) = Inr ([cat_box, ship1], [[0.05, 0.9, 0.05], [0.85, 0.05, 0.1]])
   \<and> (0::nat) < length [cat_box, ship1] \<and> (1::nat) < length [cat_box, ship1] \<and> (0::nat) \<noteq> 1
   \<and> iou cat_box ship1 \<le> 1 / 2"
  using nms_no_overlap [OF scene_result, of 0 1] scene_result by simp

text \<open>C2: every input detection is either kept or suppressed by a kept detection whose
  IoU with it exceeds the threshold and whose objectness is at least its own.\<close>

theorem nms_suppressed_covered:
  assumes "non_maximum_suppression boxes probs thr = Inr (kb, kp)" "k < length boxes"
  shows "(\<exists>i<length kb. kb ! i = boxes ! k \<and> kp ! i = probs ! k) \<or>
         (\<exists>i<length kb. thr < iou (kb ! i) (boxes ! k) \<and> objectness (probs ! k) \<le> objectness (kp ! i))"
proof -
  let ?K = "nms_keep boxes probs thr"
  from assms(1) have ok: "nms_input_ok boxes probs thr"
    and kb: "kb = map ((!) boxes) ?K" and kp: "kp = map ((!) probs) ?K"
    by (simp_all add: non_maximum_suppression_Inr)
  have kin: "k \<in> set (nms_order probs)"
    using assms(2) ok by (simp add: nms_order_set nms_input_ok_def)
  show ?thesis
  proof (cases "k \<in> set ?K")
    case True
    then obtain i where "i < length ?K" "?K ! i = k" by (auto simp: in_set_conv_nth)
    then show ?thesis using kb kp by auto
  next
    case False
    then obtain i where i: "i \<in> set ?K" "thr < iou (boxes ! i) (boxes ! k)"
        "objectness (probs ! k) \<le> objectness (probs ! i)"
      using nms_loop_covers [OF nms_order_desc kin] by (auto simp: nms_keep_def)
    then obtain n where "n < length ?K" "?K ! n = i" by (auto simp: in_set_conv_nth)
    then show ?thesis using i kb kp by auto
  qed
qed

theorem nms_suppressed_covered_witness:
  "non_maximum_suppression scene_boxes scene_probs (1 / 2) = Inr ([cat_box, ship1], [[0.05, 0.9, 0.05], [0.85, 0.05, 0.1]])
   \<and> (3::nat) < length scene_boxes
   \<and> ((\<exists>i<length [cat_box, ship1]. [cat_box, ship1] ! i = scene_boxes ! 3
          \<and> [[0.05, 0.9, 0.05], [0.85, 0.05, 0.1]] ! i = scene_probs ! 3) \<or>
      (\<exists>i<length [cat_box, ship1]. 1 / 2 < iou ([cat_box, ship1] ! i) (scene_boxes ! 3)
          \<and> objectness (scene_probs ! 3) \<le> objectness ([[0.05, 0.9, 0.05], [0.85, 0.05, 0.1]] ! i)))"
  using nms_suppressed_covered [OF scene_result, of 3] scene_result by (simp add: scene_boxes_def)

text \<open>C3: the kept detections come out in descending objectness, and among equal
  objectness in input order (the stable tie-break): the kept index list is sorted by
  "higher objectness first, then smaller input index first".\<close>

theorem nms_order_kept:
  assumes "non_maximum_suppression boxes probs thr = Inr (kb, kp)"
  shows "sorted_wrt (\<lambda>p q. objectness q \<le> objectness p) kp
         \<and> sorted_wrt (desc_then_index (\<lambda>i. objectness (probs ! i))) (nms_keep boxes probs thr)"
proof -
  let ?K = "nms_keep boxes probs thr"
  have kp: "kp = map ((!) probs) ?K" using assms by (simp add: non_maximum_suppression_Inr)
  have sub: "subseq ?K (nms_order probs)" by (rule nms_keep_facts(1))
  have lex: "sorted_wrt (desc_then_index (\<lambda>i. objectness (probs ! i))) (nms_order probs)"
    unfolding nms_order_def by (rule argsort_desc_desc_then_index) simp
  have "sorted_wrt (\<lambda>i j. objectness (probs ! j) \<le> objectness (probs ! i)) ?K"
    using subseq_sorted_wrt [OF sub nms_order_desc] .
  then have "sorted_wrt (\<lambda>p q. objectness q \<le> objectness p) kp"
    by (simp add: kp sorted_wrt_map)
  with subseq_sorted_wrt [OF sub lex] show ?thesis by simp
qed

theorem nms_order_kept_witness:
  "non_maximum_suppression scene_boxes scene_probs (1 / 2) = Inr ([cat_box, ship1], [[0.05, 0.9, 0.05], [0.85, 0.05, 0.1]])
   \<and> sorted_wrt (\<lambda>p q. objectness q \<le> objectness p) [[0.05, 0.9, 0.05], [0.85, 0.05, 0.1] :: tensor]"
  using nms_order_kept [OF scene_result] scene_result by simp

text \<open>C4: the one-pass index formulation (keep a candidate when no kept box overlaps it
  above the threshold) and the greedy suppression loop give the same result on every
  input, errors included.\<close>

theorem nms_scan_equiv:
  "non_maximum_suppression_scan boxes probs thr = non_maximum_suppression boxes probs thr"
  by (simp add: non_maximum_suppression_scan_def non_maximum_suppression_def nms_keep_def
      nms_scan_eq_loop)

text \<open>C5: NMS is idempotent: running it again on its own output with the same threshold
  returns that output unchanged.\<close>

theorem nms_idempotent:
  assumes "non_maximum_suppression boxes probs thr = Inr (kb, kp)"
  shows "non_maximum_suppression kb kp thr = Inr (kb, kp)"
proof -
  let ?K = "nms_keep boxes probs thr"
  from assms have ok: "nms_input_ok boxes probs thr"
    and kb: "kb = map ((!) boxes) ?K" and kp: "kp = map ((!) probs) ?K"
    by (simp_all add: non_maximum_suppression_Inr)
  have lt: "\<forall>i\<in>set ?K. i < length probs" using nms_keep_facts(2) by auto
  have ok': "nms_input_ok kb kp thr"
    using ok lt by (auto simp: nms_input_ok_def kb kp) (metis nth_mem)
  have desc: "sorted_wrt (\<lambda>p q. objectness q \<le> objectness p) kp"
    using nms_order_kept [OF assms] by simp
  have ord: "nms_order kp = [0..<length kp]"
    unfolding nms_order_def
    by (rule argsort_desc_id [OF sorted_wrt_upt_nth [OF desc]])
  have pw: "sorted_wrt (\<lambda>i j. iou (kb ! i) (kb ! j) \<le> thr) [0..<length kb]"
    by (rule sorted_wrt_upt_nth [OF nms_kept_pairwise [OF assms]])
  have len: "length kb = length kp" using kb kp by simp
  have "nms_keep kb kp thr = [0..<length kb]"
    using ord len nms_loop_id [OF pw] by (simp add: nms_keep_def)
  then show ?thesis
    using ok' len map_nth [of kb] map_nth [of kp] by (simp add: non_maximum_suppression_def)
qed

theorem nms_idempotent_witness:
  "non_maximum_suppression scene_boxes scene_probs (1 / 2) = Inr ([cat_box, ship1], [[0.05, 0.9, 0.05], [0.85, 0.05, 0.1]])
   \<and> non_maximum_suppression [cat_box, ship1] [[0.05, 0.9, 0.05], [0.85, 0.05, 0.1]] (1 / 2)
     = Inr ([cat_box, ship1], [[0.05, 0.9, 0.05], [0.85, 0.05, 0.1]])"
  using nms_idempotent [OF scene_result] scene_result by simp

text \<open>C6: a cluster of boxes that pairwise overlap above the threshold collapses to
  exactly one detection, the one of highest objectness.\<close>

theorem nms_cluster_single:
  assumes ok: "nms_input_ok boxes probs thr" and ne: "boxes \<noteq> []"
    and overlap: "\<forall>i<length boxes. \<forall>j<length boxes. i \<noteq> j \<longrightarrow> thr < iou (boxes ! i) (boxes ! j)"
  shows "\<exists>k<length boxes. non_maximum_suppression boxes probs thr = Inr ([boxes ! k], [probs ! k])
           \<and> (\<forall>j<length probs. objectness (probs ! j) \<le> objectness (probs ! k))"
proof -
  have n: "length boxes = length probs" using ok by (simp add: nms_input_ok_def)
  have "nms_order probs \<noteq> []"
    using ne n nms_order_length [of probs] by auto
  then obtain k rest where O: "nms_order probs = k # rest" by (cases "nms_order probs") auto
  have setO: "set (k # rest) = {..<length probs}" and dO: "distinct (k # rest)"
    using nms_order_set [of probs] nms_order_distinct [of probs] O by simp_all
  have k: "k < length boxes" using setO n by auto
  have "filter (\<lambda>j. \<not> thr < iou (boxes ! k) (boxes ! j)) rest = []"
    using overlap setO dO k n by (auto simp: filter_empty_conv)
  then have keep: "nms_keep boxes probs thr = [k]" by (simp add: nms_keep_def O)
  have "\<forall>j\<in>set rest. objectness (probs ! j) \<le> objectness (probs ! k)"
    using nms_order_desc [of probs] O by simp
  then have "\<forall>j<length probs. objectness (probs ! j) \<le> objectness (probs ! k)"
    using setO by auto
  with k keep ok show ?thesis by (auto simp: non_maximum_suppression_def)
qed

theorem nms_cluster_single_witness:
  "nms_input_ok [ship1, ship2, ship3, ship4] [[0.85, 0.05, 0.1], [0.75, 0.05, 0.2], [0.65, 0.05, 0.3], [0.55, 0.05, 0.4]] (1 / 2)
   \<and> (\<exists>k<length [ship1, ship2, ship3, ship4].
        non_maximum_suppression [ship1, ship2, ship3, ship4]
          [[0.85, 0.05, 0.1], [0.75, 0.05, 0.2], [0.65, 0.05, 0.3], [0.55, 0.05, 0.4]] (1 / 2)
        = Inr ([[ship1, ship2, ship3, ship4] ! k],
               [[[0.85, 0.05, 0.1], [0.75, 0.05, 0.2], [0.65, 0.05, 0.3], [0.55, 0.05, 0.4 :: real]] ! k]))"
proof -
  have ok: "nms_input_ok [ship1, ship2, ship3, ship4] [[0.85, 0.05, 0.1], [0.75, 0.05, 0.2], [0.65, 0.05, 0.3], [0.55, 0.05, 0.4]] (1 / 2)"
    by (simp add: nms_input_ok_def)
  have ov: "\<forall>i<length [ship1, ship2, ship3, ship4]. \<forall>j<length [ship1, ship2, ship3, ship4].
        i \<noteq> j \<longrightarrow> 1 / 2 < iou ([ship1, ship2, ship3, ship4] ! i) ([ship1, ship2, ship3, ship4] ! j)"
    by (simp add: All_less_Suc scene_defs iou_eq_ratio inter_area_def area_def numeral_eq_Suc)
  show ?thesis using nms_cluster_single [OF ok _ ov] ok by blast
qed

text \<open>C7: the removal test is strict: two boxes whose IoU equals the threshold are both
  kept, the one of higher objectness first (input order on a tie).\<close>

theorem nms_threshold_boundary:
  assumes "iou a b = thr" "0 < thr" "thr \<le> 1" "p \<noteq> []" "q \<noteq> []"
  shows "non_maximum_suppression [a, b] [p, q] thr
         = Inr (if objectness p < objectness q then ([b, a], [q, p]) else ([a, b], [p, q]))"
proof -
  have ba: "iou b a = thr" using assms(1) iou_commute by metis
  have ord: "nms_order [p, q] = (if objectness p < objectness q then [1, 0] else [0, 1])"
    by (simp add: nms_order_def argsort_desc_def upt_rec)
  have ok: "nms_input_ok [a, b] [p, q] thr" using assms by (simp add: nms_input_ok_def)
  show ?thesis
    using ok assms(1) ba
    by (simp add: non_maximum_suppression_def nms_keep_def ord)
qed

theorem nms_threshold_boundary_witness:
  "iou (mk_box 0 0 2 1) (mk_box 0 0 1 1) = 1 / 2 \<and> (0::real) < 1 / 2 \<and> (1 / 2 :: real) \<le> 1
   \<and> [0.8, 0.2 :: real] \<noteq> [] \<and> [0.7, 0.3 :: real] \<noteq> []
   \<and> non_maximum_suppression [mk_box 0 0 2 1, mk_box 0 0 1 1] [[0.8, 0.2], [0.7, 0.3]] (1 / 2)
     = Inr ([mk_box 0 0 2 1, mk_box 0 0 1 1], [[0.8, 0.2], [0.7, 0.3]])"
proof -
  have i: "iou (mk_box 0 0 2 1) (mk_box 0 0 1 1) = 1 / 2"
    by (simp add: iou_eq_ratio inter_area_def area_def mk_box_def)
  show ?thesis
    using nms_threshold_boundary [OF i, of "[0.8, 0.2]" "[0.7, 0.3]"] i
    by (simp add: objectness_def)
qed

text \<open>C8: NMS only selects: it keeps as many boxes as probability vectors, never more
  detections than it was given, each kept pair is an input pair, and a non-empty input
  keeps at least one detection.\<close>

theorem nms_kept_subset:
  assumes "non_maximum_suppression boxes probs thr = Inr (kb, kp)"
  shows "length kb = length kp \<and> length kb \<le> length boxes
         \<and> set (zip kb kp) \<subseteq> set (zip boxes probs) \<and> (boxes \<noteq> [] \<longrightarrow> kb \<noteq> [])"
proof -
  let ?K = "nms_keep boxes probs thr"
  from assms have ok: "nms_input_ok boxes probs thr"
    and kb: "kb = map ((!) boxes) ?K" and kp: "kp = map ((!) probs) ?K"
    by (simp_all add: non_maximum_suppression_Inr)
  have n: "length boxes = length probs" using ok by (simp add: nms_input_ok_def)
  have len: "length ?K \<le> length boxes"
    using nms_loop_length [of boxes thr "nms_order probs"] n
    by (simp add: nms_keep_def nms_order_def tensor_simps)
  have "set (zip kb kp) = (\<lambda>i. (boxes ! i, probs ! i)) ` set ?K"
    by (simp add: kb kp zip_map_map zip_same_conv_map image_image)
  also have "\<dots> \<subseteq> set (zip boxes probs)"
    using nms_keep_facts(2) n by (force simp: set_zip)
  finally have sub: "set (zip kb kp) \<subseteq> set (zip boxes probs)" .
  have "boxes \<noteq> [] \<longrightarrow> ?K \<noteq> []"
    using n nms_order_length [of probs] by (cases "nms_order probs") (auto simp: nms_keep_def)
  with len sub show ?thesis by (simp add: kb kp)
qed

theorem nms_kept_subset_witness:
  "non_maximum_suppression scene_boxes scene_probs (1 / 2) = Inr ([cat_box, ship1], [[0.05, 0.9, 0.05], [0.85, 0.05, 0.1]])
   \<and> length [cat_box, ship1] \<le> length scene_boxes"
  using nms_kept_subset [OF scene_result] scene_result by simp

end
