(* ===== verification/Torch.thy ===== *)
theory Torch
  imports Prelude
begin

text \<open>
  The Python built-ins and the PyTorch tensor primitives the notebooks call, with the
  semantics of the library documentation: true division of two Python ints
  (\<open>py_div\<close>, \<^verbatim>\<open>ZeroDivisionError\<close> on a zero divisor), \<^verbatim>\<open>range(start, stop, step)\<close>
  (\<open>py_range\<close>, \<^verbatim>\<open>ValueError\<close> on a zero step), \<^verbatim>\<open>str.split(sep)\<close> and \<^verbatim>\<open>sep.join\<close>
  for a one-character separator (\<open>py_split\<close>, \<open>py_join\<close>), the minimum of a tensor, the
  min-max rescaling \<^verbatim>\<open>t -= t.min(); t /= t.max()\<close> (\<open>minmax_normalise\<close>, whose
  entries are \<open>None\<close> where the division is the NaN \<open>0 / 0\<close>), \<^verbatim>\<open>logits.argmax(1)\<close>
  (\<open>argmax_rows\<close>), \<^verbatim>\<open>(predictions == labels).sum().item()\<close> with broadcasting
  (\<open>eq_count\<close>) and the batch accuracy the three training notebooks compute from them
  (\<open>batch_accuracy\<close>). These model library calls, not repository code; the theories of the
  notebooks map their own definitions to the lines that call them.
\<close>

named_theorems torch_simps "characterisation of the Python and PyTorch primitives"

subsection \<open>Python built-ins\<close>

definition py_div :: "nat \<Rightarrow> nat \<Rightarrow> real result" where
  "py_div a b = (if b = 0 then Inl ZeroDivisionError else Inr (real a / real b))"

definition py_range :: "nat \<Rightarrow> nat \<Rightarrow> nat \<Rightarrow> nat list result" where
  "py_range start stop step =
     (if step = 0 then Inl ValueError
      else Inr (map (\<lambda>k. start + k * step) [0..<(stop - start + step - 1) div step]))"

fun py_split :: "char \<Rightarrow> string \<Rightarrow> string list" where
  "py_split c [] = [[]]"
| "py_split c (x # xs) = (let r = py_split c xs in if x = c then [] # r else (x # hd r) # tl r)"

fun py_join :: "char \<Rightarrow> string list \<Rightarrow> string" where
  "py_join c [] = []"
| "py_join c [w] = w"
| "py_join c (w # v # ws) = w @ c # py_join c (v # ws)"

subsection \<open>Tensor reductions\<close>

fun list_min :: "real list \<Rightarrow> real" where
  "list_min [] = 0"
| "list_min [x] = x"
| "list_min (x # y # ys) = min x (list_min (y # ys))"

definition minmax_normalise :: "tensor \<Rightarrow> fval list result" where
  "minmax_normalise xs =
     (if xs = [] then Inl RuntimeError
      else (let ys = map (\<lambda>v. v - list_min xs) xs; m = list_max ys
            in Inr (map (\<lambda>v. if m = 0 then None else Some (v / m)) ys)))"

definition argmax_rows :: "real list list \<Rightarrow> nat list result" where
  "argmax_rows logits =
     (if [] \<in> set logits then Inl RuntimeError
      else Inr (map (\<lambda>r. first_index (list_max r) r) logits))"

definition eq_count :: "nat list \<Rightarrow> nat list \<Rightarrow> nat result" where
  "eq_count xs ys =
     (if length xs = length ys then Inr (length (filter id (map2 (=) xs ys)))
      else if length xs = 1 then Inr (length (filter ((=) (hd xs)) ys))
      else if length ys = 1 then Inr (length (filter ((=) (hd ys)) xs))
      else Inl RuntimeError)"

definition batch_accuracy :: "real list list \<Rightarrow> nat list \<Rightarrow> (nat \<times> real) result" where
  "batch_accuracy logits labels =
     (case argmax_rows logits of
        Inl e \<Rightarrow> Inl e
      | Inr predictions \<Rightarrow>
          (case eq_count predictions labels of
             Inl e \<Rightarrow> Inl e
           | Inr correct \<Rightarrow>
               (case py_div correct (length labels) of
                  Inl e \<Rightarrow> Inl e
                | Inr accuracy \<Rightarrow> Inr (correct, accuracy))))"

subsection \<open>Tensors of a given shape\<close>

text \<open>A tensor whose shape the code inspects: its shape and its entries in row-major order.
  \<open>permute_120\<close> is \<^verbatim>\<open>x.permute(1, 2, 0)\<close> of a \<open>(C, H, W)\<close> image, \<open>index0\<close> is
  \<^verbatim>\<open>x[0]\<close> along the first dimension.\<close>

record ndarray =
  shape :: "nat list"
  vals :: "real list"

definition ndim :: "ndarray \<Rightarrow> nat" where
  "ndim a = length (shape a)"

definition wf_nd :: "ndarray \<Rightarrow> bool" where
  "wf_nd a \<longleftrightarrow> length (vals a) = prod_list (shape a)"

definition permute_120 :: "ndarray \<Rightarrow> ndarray" where
  "permute_120 a =
     (let c = shape a ! 0; h = shape a ! 1; w = shape a ! 2
      in \<lparr>shape = [h, w, c],
          vals = [vals a ! (k * (h * w) + i * w + j). i \<leftarrow> [0..<h], j \<leftarrow> [0..<w], k \<leftarrow> [0..<c]]\<rparr>)"

definition index0 :: "ndarray \<Rightarrow> ndarray result" where
  "index0 a =
     (if shape a = [] then Inl IndexError
      else if hd (shape a) = 0 then Inl IndexError
      else Inr \<lparr>shape = tl (shape a), vals = take (prod_list (tl (shape a))) (vals a)\<rparr>)"

subsection \<open>Lemmas on the built-ins\<close>

lemma py_div_Inr [torch_simps]: "py_div a b = Inr r \<longleftrightarrow> b \<noteq> 0 \<and> r = real a / real b"
  by (auto simp: py_div_def)

lemma py_div_bounds [torch_simps]: "a \<le> b \<Longrightarrow> py_div a b = Inr r \<Longrightarrow> 0 \<le> r \<and> r \<le> 1"
  by (auto simp: py_div_def divide_le_eq_1 split: if_splits)

lemma less_div_ceil [torch_simps]:
  "0 < (s :: nat) \<Longrightarrow> k < (n + s - 1) div s \<longleftrightarrow> k * s < n"
proof -
  assume s: "0 < s"
  have "k < (n + s - 1) div s \<longleftrightarrow> Suc k \<le> (n + s - 1) div s" by auto
  also have "\<dots> \<longleftrightarrow> Suc k * s \<le> n + s - 1" using s by (rule less_eq_div_iff_mult_less_eq)
  also have "\<dots> \<longleftrightarrow> k * s < n" using s by auto
  finally show ?thesis .
qed

lemma py_range_Inr [torch_simps]:
  assumes "py_range a b s = Inr r"
  shows "0 < s \<and> length r = (b - a + s - 1) div s \<and> (\<forall>k<length r. r ! k = a + k * s)
         \<and> (\<forall>i\<in>set r. a \<le> i \<and> i < b)"
proof -
  have s: "0 < s" and r: "r = map (\<lambda>k. a + k * s) [0..<(b - a + s - 1) div s]"
    using assms by (auto simp: py_range_def split: if_splits)
  have "\<forall>i\<in>set r. a \<le> i \<and> i < b" using less_div_ceil [OF s] by (auto simp: r)
  then show ?thesis using s by (simp add: r)
qed

lemma py_split_ne [torch_simps]: "py_split c s \<noteq> []"
  by (induction s) (auto simp: Let_def)

lemma py_join_Cons [torch_simps]: "ws \<noteq> [] \<Longrightarrow> py_join c (w # ws) = w @ c # py_join c ws"
  by (cases ws) auto

lemma py_join_split [torch_simps]: "py_join c (py_split c s) = s"
proof (induction s)
  case Nil
  then show ?case by simp
next
  case (Cons x xs)
  have ne: "py_split c xs \<noteq> []" by (rule py_split_ne)
  show ?case
  proof (cases "x = c")
    case True
    then show ?thesis using Cons ne by (simp add: py_join_Cons)
  next
    case False
    then obtain w ws where r: "py_split c xs = w # ws" using ne by (cases "py_split c xs") auto
    then show ?thesis using Cons False by (cases ws) auto
  qed
qed

lemma py_split_no_sep [torch_simps]: "w \<in> set (py_split c s) \<Longrightarrow> c \<notin> set w"
proof (induction s arbitrary: w)
  case Nil
  then show ?case by simp
next
  case (Cons x xs)
  have ne: "py_split c xs \<noteq> []" by (rule py_split_ne)
  then obtain v vs where r: "py_split c xs = v # vs" by (cases "py_split c xs") auto
  show ?case using Cons.prems Cons.IH r by (auto simp: Let_def split: if_splits)
qed

lemma hd_py_split [torch_simps]: "hd (py_split c s) = takeWhile (\<lambda>x. x \<noteq> c) s"
proof (induction s)
  case Nil
  then show ?case by simp
next
  case (Cons x xs)
  then show ?case by (simp add: Let_def)
qed

lemma py_split_join [torch_simps]:
  "ws \<noteq> [] \<Longrightarrow> (\<forall>w\<in>set ws. c \<notin> set w) \<Longrightarrow> py_split c (py_join c ws) = ws"
proof (induction ws rule: py_join.induct)
  case (1 c)
  then show ?case by simp
next
  case (2 c w)
  then show ?case
  proof (induction w)
    case Nil
    then show ?case by simp
  next
    case (Cons x xs)
    then show ?case by (auto simp: Let_def)
  qed
next
  case (3 c w v ws)
  have IH: "py_split c (py_join c (v # ws)) = v # ws" using 3 by simp
  have "c \<notin> set w" using "3.prems" by simp
  then show ?case
  proof (induction w)
    case Nil
    then show ?case using IH by (simp add: Let_def)
  next
    case (Cons x xs)
    then show ?case by (auto simp: Let_def)
  qed
qed

subsection \<open>Lemmas on the reductions\<close>

lemma list_min_le [torch_simps]: "x \<in> set xs \<Longrightarrow> list_min xs \<le> x"
  by (induction xs rule: list_min.induct) auto

lemma list_min_in [torch_simps]: "xs \<noteq> [] \<Longrightarrow> list_min xs \<in> set xs"
  by (induction xs rule: list_min.induct) (auto simp: min_def)

lemma list_max_le_iff [torch_simps]: "xs \<noteq> [] \<Longrightarrow> list_max xs \<le> m \<longleftrightarrow> (\<forall>x\<in>set xs. x \<le> m)"
  using list_max_in list_max_ge by fastforce

lemma minmax_normalise_Inr [torch_simps]:
  assumes "minmax_normalise xs = Inr ys"
  shows "length ys = length xs \<and> xs \<noteq> []
         \<and> ((\<forall>x\<in>set xs. x = list_min xs) \<longrightarrow> (\<forall>y\<in>set ys. y = None))
         \<and> ((\<exists>x\<in>set xs. x \<noteq> list_min xs) \<longrightarrow>
              (\<forall>y\<in>set ys. \<exists>v. y = Some v \<and> 0 \<le> v \<and> v \<le> 1) \<and> Some 0 \<in> set ys \<and> Some 1 \<in> set ys)"
proof -
  let ?mn = "list_min xs"
  let ?d = "map (\<lambda>v. v - ?mn) xs"
  let ?m = "list_max ?d"
  have ne: "xs \<noteq> []" and ys: "ys = map (\<lambda>v. if ?m = 0 then None else Some (v / ?m)) ?d"
    using assms by (auto simp: minmax_normalise_def Let_def split: if_splits)
  have dne: "?d \<noteq> []" using ne by simp
  have d0: "\<forall>v\<in>set ?d. 0 \<le> v" using list_min_le by auto
  have dm: "\<forall>v\<in>set ?d. v \<le> ?m" using list_max_ge by blast
  have min_in: "?mn \<in> set xs" using list_min_in [OF ne] .
  have max_in: "?m \<in> set ?d" using list_max_in [OF dne] .
  have const: "(\<forall>x\<in>set xs. x = ?mn) \<longrightarrow> (\<forall>y\<in>set ys. y = None)"
  proof
    assume c: "\<forall>x\<in>set xs. x = ?mn"
    then have "\<forall>v\<in>set ?d. v = 0" by auto
    then have "?m = 0" using max_in by blast
    then show "\<forall>y\<in>set ys. y = None" by (simp add: ys)
  qed
  have nonconst: "(\<exists>x\<in>set xs. x \<noteq> ?mn) \<longrightarrow>
      (\<forall>y\<in>set ys. \<exists>v. y = Some v \<and> 0 \<le> v \<and> v \<le> 1) \<and> Some 0 \<in> set ys \<and> Some 1 \<in> set ys"
  proof
    assume "\<exists>x\<in>set xs. x \<noteq> ?mn"
    then obtain x where x: "x \<in> set xs" "x \<noteq> ?mn" by blast
    have "?mn \<le> x" using list_min_le [OF x(1)] .
    then have "0 < x - ?mn" using x(2) by simp
    moreover have "x - ?mn \<le> ?m" using dm x(1) by auto
    ultimately have pos: "0 < ?m" by linarith
    have b: "\<forall>y\<in>set ys. \<exists>v. y = Some v \<and> 0 \<le> v \<and> v \<le> 1"
      using pos d0 dm by (auto simp: ys)
    have "Some ((?mn - ?mn) / ?m) \<in> set ys" using min_in pos by (auto simp: ys)
    moreover have "Some (?m / ?m) \<in> set ys" using max_in pos by (force simp: ys)
    ultimately show "(\<forall>y\<in>set ys. \<exists>v. y = Some v \<and> 0 \<le> v \<and> v \<le> 1) \<and> Some 0 \<in> set ys \<and> Some 1 \<in> set ys"
      using b pos by simp
  qed
  show ?thesis using ne const nonconst by (simp add: ys)
qed

lemma argmax_rows_Inr [torch_simps]:
  "argmax_rows logits = Inr ps \<Longrightarrow>
   length ps = length logits \<and> (\<forall>i<length ps. tensor_max (logits ! i) = Inr (list_max (logits ! i), ps ! i))"
  using nth_mem by (fastforce simp: argmax_rows_def tensor_max_def split: if_splits)

lemma eq_count_same_length [torch_simps]:
  assumes "length xs = length ys"
  shows "eq_count xs ys = Inr (length (filter id (map2 (=) xs ys)))
     \<and> length (filter id (map2 (=) xs ys)) \<le> length ys"
proof -
  have "length (filter id (map2 (=) xs ys)) \<le> length (map2 (=) xs ys)" by (rule length_filter_le)
  then show ?thesis using assms by (simp add: eq_count_def)
qed

subsection \<open>Lemmas on tensors of a given shape\<close>

lemma index_chw_less [torch_simps]:
  "k < c \<Longrightarrow> i < h \<Longrightarrow> j < w \<Longrightarrow> k * (h * w) + i * w + j < c * h * (w :: nat)"
proof -
  assume k: "k < c" and i: "i < h" and j: "j < w"
  have "i * w + j < Suc i * w" using j by simp
  also have "\<dots> \<le> h * w" using i by (intro mult_le_mono1) simp
  finally have "k * (h * w) + i * w + j < k * (h * w) + h * w" by simp
  also have "\<dots> = Suc k * (h * w)" by simp
  also have "\<dots> \<le> c * (h * w)" using k by (intro mult_le_mono1) simp
  finally show ?thesis by (simp add: mult.assoc)
qed

lemma index_chw_split [torch_simps]:
  assumes "t < c * h * (w :: nat)"
  shows "\<exists>k i j. k < c \<and> i < h \<and> j < w \<and> t = k * (h * w) + i * w + j"
proof -
  have hw: "0 < h * w" using assms by (cases "h * w = 0") auto
  then have w: "0 < w" by simp
  let ?k = "t div (h * w)" and ?r = "t mod (h * w)"
  have k: "?k < c" using assms hw by (simp add: div_less_iff_less_mult mult_ac)
  have r: "?r < h * w" using hw by simp
  have i: "?r div w < h" using r w by (simp add: div_less_iff_less_mult)
  have j: "?r mod w < w" using w by simp
  have e1: "?r div w * w + ?r mod w = ?r" by (rule div_mult_mod_eq)
  have e2: "?k * (h * w) + ?r = t" by (rule div_mult_mod_eq)
  have "t = ?k * (h * w) + (?r div w * w + ?r mod w)" using e1 e2 by simp
  then have "t = ?k * (h * w) + ?r div w * w + ?r mod w" by (simp add: add.assoc)
  then show ?thesis using k i j by blast
qed

lemma permute_120_vals [torch_simps]:
  assumes "wf_nd x" and "shape x = [c, h, w]"
  shows "shape (permute_120 x) = [h, w, c] \<and> length (vals (permute_120 x)) = c * h * w
         \<and> set (vals (permute_120 x)) = set (vals x)"
proof -
  let ?f = "\<lambda>i j k. vals x ! (k * (h * w) + i * w + j)"
  have v: "vals (permute_120 x) = [?f i j k. i \<leftarrow> [0..<h], j \<leftarrow> [0..<w], k \<leftarrow> [0..<c]]"
    using assms(2) by (simp add: permute_120_def)
  have len: "length (vals x) = c * h * w" using assms by (simp add: wf_nd_def)
  have l: "length [?f i j k. i \<leftarrow> [0..<h], j \<leftarrow> [0..<w], k \<leftarrow> [0..<c]] = c * h * w"
    by (simp add: length_concat comp_def sum_list_triv)
  have "set [?f i j k. i \<leftarrow> [0..<h], j \<leftarrow> [0..<w], k \<leftarrow> [0..<c]] = {?f i j k | i j k. i < h \<and> j < w \<and> k < c}"
    by fastforce
  also have "\<dots> = set (vals x)"
  proof
    show "{?f i j k | i j k. i < h \<and> j < w \<and> k < c} \<subseteq> set (vals x)"
      using index_chw_less len by auto
    show "set (vals x) \<subseteq> {?f i j k | i j k. i < h \<and> j < w \<and> k < c}"
    proof
      fix v assume "v \<in> set (vals x)"
      then obtain t where t: "t < c * h * w" "v = vals x ! t" using len by (auto simp: in_set_conv_nth)
      then obtain k i j where "k < c" "i < h" "j < w" "t = k * (h * w) + i * w + j"
        using index_chw_split by blast
      then show "v \<in> {?f i j k | i j k. i < h \<and> j < w \<and> k < c}" using t by blast
    qed
  qed
  finally show ?thesis using v l by (simp add: permute_120_def assms(2))
qed

lemma minmax_nonconst [torch_simps]:
  "\<exists>a\<in>set xs. \<exists>b\<in>set xs. a \<noteq> b \<Longrightarrow> \<exists>v\<in>set xs. v \<noteq> list_min xs"
  by metis

lemma minmax_unit_range [torch_simps]:
  assumes "\<exists>a\<in>set xs. \<exists>b\<in>set xs. a \<noteq> b"
  shows "\<exists>ys. minmax_normalise xs = Inr ys \<and> length ys = length xs
           \<and> (\<forall>y\<in>set ys. \<exists>v. y = Some v \<and> 0 \<le> v \<and> v \<le> 1)"
proof -
  have ne: "xs \<noteq> []" using assms by auto
  then obtain ys where ys: "minmax_normalise xs = Inr ys"
    by (simp add: minmax_normalise_def Let_def)
  then show ?thesis using minmax_normalise_Inr [OF ys] minmax_nonconst [OF assms] by blast
qed

lemma minmax_length [torch_simps]:
  "xs \<noteq> [] \<Longrightarrow> \<exists>ys. minmax_normalise xs = Inr ys \<and> length ys = length xs"
  by (simp add: minmax_normalise_def Let_def)

end
