(* ===== verification/Detection.thy ===== *)
theory Detection
  imports NMS Torch
begin

text \<open>
  The detection notebook's glue around the suppressor (\<^verbatim>\<open>src/unnamed/part_000\<close>,
  the cell that applies YOLOS and defines \<^verbatim>\<open>draw_boxes\<close>):
  \<^item> \<open>center_to_corners\<close>: the conversion \<^verbatim>\<open>center_to_corners_format\<close> the notebook
    calls on the model's \<^verbatim>\<open>(center_x, center_y, width, height)\<close> boxes, as its comment
    states it; \<open>corners_to_center\<close> is its inverse, used for the round trip;
  \<^item> \<open>draw_boxes\<close>: the loop over \<^verbatim>\<open>zip(probs, boxes)\<close>. Its effects are the trace of
    \<open>draw_event\<close>s it produces (one \<^verbatim>\<open>print\<close> and one \<^verbatim>\<open>add_patch\<close> per drawn
    detection, in order) and the exception that stops the loop, if any; a detection is
    skipped when its top probability is below \<^verbatim>\<open>CONFIDENCE_THRESHOLD\<close> or its label is
    the hard-coded \<^verbatim>\<open>91\<close>; \<^verbatim>\<open>p.max\<close> on an empty vector raises \<^verbatim>\<open>IndexError\<close> and the
    lookup \<^verbatim>\<open>model.config.id2label[label]\<close> raises \<^verbatim>\<open>KeyError\<close> for a label it lacks.
  \<^item> \<open>detect_and_draw\<close>: the last code cell, NMS then \<^verbatim>\<open>draw_boxes\<close> on its output;
    \<open>non_maximum_suppression_shipped\<close> and \<open>nms_cell_shipped\<close> are that cell with the body
    as shipped (\<^verbatim>\<open>...\<close>), where \<^verbatim>\<open>len(nms_boxes)\<close> raises \<^verbatim>\<open>TypeError\<close>.
  \<^item> \<open>yolos_preprocessed\<close>: the preprocessing cell's rescaled view of the first image.
  \<^item> \<open>detection_cell\<close>: the post-processing lines after the model call: the boxes
    converted to corners, \<^verbatim>\<open>softmax\<close> over each row of logits, \<^verbatim>\<open>obj_probs = 1 - probs[..., -1]\<close>.
\<close>

definition center_to_corners :: "real \<Rightarrow> real \<Rightarrow> real \<Rightarrow> real \<Rightarrow> box" where
  "center_to_corners cx cy w h = mk_box (cx - w / 2) (cy - h / 2) (cx + w / 2) (cy + h / 2)"

definition corners_to_center :: "box \<Rightarrow> real \<times> real \<times> real \<times> real" where
  "corners_to_center b =
     ((left b + right b) / 2, (upper b + bottom b) / 2, right b - left b, bottom b - upper b)"

definition CONFIDENCE_THRESHOLD :: real where
  "CONFIDENCE_THRESHOLD = 0.5"

definition no_object_label :: nat where
  "no_object_label = 91"

datatype draw_event =
    Detected nat real box
  | Patch real real real real

text \<open>One iteration's effect: the printed detection, then the rectangle patch at the box
  scaled to pixels, of width \<open>r - l\<close> and height \<open>b - u\<close>.\<close>

definition patch_of :: "real \<Rightarrow> real \<Rightarrow> box \<Rightarrow> real \<times> real \<times> real \<times> real" where
  "patch_of image_width image_height b =
     (let s = scale_box image_width image_height b
      in (left s, upper s, right s - left s, bottom s - upper s))"

definition draw_one :: "real \<Rightarrow> real \<Rightarrow> nat \<Rightarrow> real \<Rightarrow> box \<Rightarrow> draw_event list" where
  "draw_one image_width image_height label score b =
     (case patch_of image_width image_height b of
        (l, u, w, h) \<Rightarrow> [Detected label score b, Patch l u w h])"

text \<open>The loop body: \<^verbatim>\<open>p.max(dim=-1)\<close>, the two \<^verbatim>\<open>continue\<close> guards, then the
  f-string of the \<^verbatim>\<open>print\<close>, which looks the label up in \<^verbatim>\<open>model.config.id2label\<close>
  (\<open>id2label\<close>, a dict from labels to class names) and raises \<^verbatim>\<open>KeyError\<close> for a label
  it does not hold; the printed event records the label whose name is printed and the
  score itself, which the f-string prints rounded to three digits.\<close>

fun draw_loop ::
  "real \<Rightarrow> real \<Rightarrow> (nat \<Rightarrow> string option) \<Rightarrow> (tensor \<times> box) list \<Rightarrow> draw_event list \<times> py_error option" where
  "draw_loop W H id2label [] = ([], None)"
| "draw_loop W H id2label ((p, b) # rest) =
     (case tensor_max p of
        Inl e \<Rightarrow> ([], Some e)
      | Inr (score, label) \<Rightarrow>
          if score < CONFIDENCE_THRESHOLD then draw_loop W H id2label rest
          else if label = no_object_label then draw_loop W H id2label rest
          else (case id2label label of
                  None \<Rightarrow> ([], Some KeyError)
                | Some name \<Rightarrow>
                    (let (evs, err) = draw_loop W H id2label rest in (draw_one W H label score b @ evs, err))))"

definition draw_boxes ::
  "real \<Rightarrow> real \<Rightarrow> (nat \<Rightarrow> string option) \<Rightarrow> box list \<Rightarrow> tensor list \<Rightarrow> draw_event list \<times> py_error option" where
  "draw_boxes image_width image_height id2label boxes probs =
     draw_loop image_width image_height id2label (zip probs boxes)"

definition detect_and_draw ::
  "real \<Rightarrow> real \<Rightarrow> (nat \<Rightarrow> string option) \<Rightarrow> box list \<Rightarrow> tensor list \<Rightarrow> real \<Rightarrow> draw_event list \<times> py_error option" where
  "detect_and_draw W H id2label boxes probs thr =
     (case non_maximum_suppression boxes probs thr of
        Inl e \<Rightarrow> ([], Some e)
      | Inr (nms_boxes, nms_probs) \<Rightarrow> draw_boxes W H id2label nms_boxes nms_probs)"

fun patches :: "draw_event list \<Rightarrow> (real \<times> real \<times> real \<times> real) list" where
  "patches [] = []"
| "patches (Patch x y w h # evs) = (x, y, w, h) # patches evs"
| "patches (Detected _ _ _ # evs) = patches evs"

subsection \<open>The cells as shipped\<close>

text \<open>\<^verbatim>\<open>IOU_THRESHOLD\<close> is defined at the top of the notebook; the NMS cell calls
  \<^verbatim>\<open>non_maximum_suppression(boxes[0], probs[0])\<close> with the default
  \<^verbatim>\<open>iou_threshold=0.5\<close>, the same value. The shipped body assigns \<^verbatim>\<open>...\<close> (Python's
  \<^verbatim>\<open>Ellipsis\<close>) to both results; \<^verbatim>\<open>len\<close> of it raises \<^verbatim>\<open>TypeError\<close>.\<close>

definition IOU_THRESHOLD :: real where
  "IOU_THRESHOLD = 0.5"

datatype pyobj = PyEllipsis | PyBoxes "box list" | PyProbs "tensor list"

definition py_len :: "pyobj \<Rightarrow> nat result" where
  "py_len v = (case v of PyEllipsis \<Rightarrow> Inl TypeError | PyBoxes bs \<Rightarrow> Inr (length bs) | PyProbs ps \<Rightarrow> Inr (length ps))"

definition non_maximum_suppression_shipped :: "box list \<Rightarrow> tensor list \<Rightarrow> real \<Rightarrow> pyobj \<times> pyobj" where
  "non_maximum_suppression_shipped boxes probs iou_threshold =
     (let nms_boxes = PyEllipsis; nms_probs = PyEllipsis in (nms_boxes, nms_probs))"

definition nms_cell_shipped ::
  "real \<Rightarrow> real \<Rightarrow> (nat \<Rightarrow> string option) \<Rightarrow> box list \<Rightarrow> tensor list \<Rightarrow> draw_event list \<times> py_error option" where
  "nms_cell_shipped W H id2label boxes probs =
     (case non_maximum_suppression_shipped boxes probs 0.5 of
        (nms_boxes, nms_probs) \<Rightarrow>
          (case py_len nms_boxes of
             Inl e \<Rightarrow> ([], Some e)
           | Inr _ \<Rightarrow>
               (case (nms_boxes, nms_probs) of
                  (PyBoxes bs, PyProbs ps) \<Rightarrow> draw_boxes W H id2label bs ps
                | _ \<Rightarrow> ([], Some TypeError))))"

text \<open>The preprocessing cell: the first image of the processor's \<^verbatim>\<open>pixel_values\<close> batch
  as \<open>(H, W, C)\<close>, shifted to minimum 0 and divided by its maximum.\<close>

definition yolos_preprocessed :: "ndarray \<Rightarrow> fval list result" where
  "yolos_preprocessed pixel_values =
     (case index0 pixel_values of
        Inl e \<Rightarrow> Inl e
      | Inr v \<Rightarrow> minmax_normalise (vals (permute_120 v)))"

text \<open>The cell that post-processes the model's outputs for one image of the batch (the
  notebook's tensors carry a leading batch dimension of one): boxes converted to corners,
  class probabilities by softmax, and \<^verbatim>\<open>obj_probs = 1 - probs[:, :, -1]\<close>.\<close>

definition detection_cell ::
  "real list list \<Rightarrow> (real \<times> real \<times> real \<times> real) list \<Rightarrow> box list \<times> tensor list \<times> real list" where
  "detection_cell logits pred_boxes =
     (let boxes = map (\<lambda>(cx, cy, w, h). center_to_corners cx cy w h) pred_boxes;
          probs = map softmax logits;
          no_obj_probs = map last probs;
          obj_probs = map (\<lambda>q. 1 - q) no_obj_probs
      in (boxes, probs, obj_probs))"

subsection \<open>Lemmas on the drawing loop\<close>

named_theorems draw_facts "what every event of the drawing loop satisfies"

lemma patches_append [draw_facts]: "patches (xs @ ys) = patches xs @ patches ys"
  by (induction xs rule: patches.induct) auto

lemma draw_loop_Cons [draw_facts]:
  "draw_loop W H id2label ((p, b) # rest) =
     (case tensor_max p of
        Inl e \<Rightarrow> ([], Some e)
      | Inr (score, label) \<Rightarrow>
          if score < CONFIDENCE_THRESHOLD \<or> label = no_object_label then draw_loop W H id2label rest
          else if id2label label = None then ([], Some KeyError)
          else (draw_one W H label score b @ fst (draw_loop W H id2label rest), snd (draw_loop W H id2label rest)))"
  by (auto split: sum.split prod.split option.split)

declare draw_loop.simps(2) [simp del]

lemma patches_draw_one [draw_facts]: "patches (draw_one W H k s b) = [patch_of W H b]"
  by (simp add: draw_one_def split: prod.split)

lemma draw_loop_detected [draw_facts]:
  "Detected k s b \<in> set (fst (draw_loop W H id2label xs)) \<Longrightarrow>
   \<exists>p. (p, b) \<in> set xs \<and> tensor_max p = Inr (s, k) \<and> CONFIDENCE_THRESHOLD \<le> s \<and> k \<noteq> no_object_label"
proof (induction xs)
  case Nil
  then show ?case by simp
next
  case (Cons pb rest)
  obtain p b' where pb: "pb = (p, b')" by fastforce
  show ?case
    using Cons.prems Cons.IH
    by (auto simp: pb draw_loop_Cons draw_one_def not_less split: sum.splits if_splits prod.splits)
qed

lemma draw_loop_patch [draw_facts]:
  "r \<in> set (patches (fst (draw_loop W H id2label xs))) \<Longrightarrow> \<exists>p b. (p, b) \<in> set xs \<and> r = patch_of W H b"
proof (induction xs)
  case Nil
  then show ?case by simp
next
  case (Cons pb rest)
  obtain p b' where pb: "pb = (p, b')" by fastforce
  show ?case
    using Cons.prems Cons.IH
    by (auto simp: pb draw_loop_Cons patches_append patches_draw_one split: sum.splits if_splits; blast)
qed

lemma patches_length_le [draw_facts]:
  "length (patches (fst (draw_loop W H id2label xs))) \<le> length xs"
proof (induction xs)
  case Nil
  then show ?case by simp
next
  case (Cons pb rest)
  obtain p b' where pb: "pb = (p, b')" by fastforce
  show ?case
    using Cons.IH
    by (auto simp: pb draw_loop_Cons patches_append patches_draw_one split: sum.splits)
qed

text \<open>A pair of the loop is harmless when its vector is not empty and, if it passes both
  guards, its label is a key of \<open>id2label\<close>.\<close>

lemma draw_loop_error [draw_facts]:
  "(snd (draw_loop W H id2label xs) = None \<longleftrightarrow>
      (\<forall>(p, b)\<in>set xs. \<exists>s k. tensor_max p = Inr (s, k)
          \<and> (CONFIDENCE_THRESHOLD \<le> s \<and> k \<noteq> no_object_label \<longrightarrow> k \<in> dom id2label)))
   \<and> snd (draw_loop W H id2label xs) \<in> {None, Some IndexError, Some KeyError}"
proof (induction xs)
  case Nil
  then show ?case by simp
next
  case (Cons pb rest)
  obtain p b' where pb: "pb = (p, b')" by fastforce
  show ?case
    using Cons.IH
    by (auto simp: pb draw_loop_Cons tensor_max_def not_less split: sum.splits if_splits)
qed

lemma tensor_max_label_lt: "tensor_max p = Inr (s, k) \<Longrightarrow> k < length p \<and> p ! k = s"
  using tensor_max_Inr by blast

lemma list_max_zeros: "0 \<le> a \<Longrightarrow> 0 \<le> b \<Longrightarrow> list_max (replicate n 0 @ [a, b]) = max a b"
  by (induction n) (auto simp: list_max_Cons max_def)

lemma first_index_zeros: "0 < (a :: real) \<Longrightarrow> first_index a (replicate n 0 @ [a, b]) = n"
  by (induction n) auto

lemma draw_one_simp [draw_facts]:
  "draw_one W H k s b = [Detected k s b,
     Patch (left b * W) (upper b * H) ((right b - left b) * W) ((bottom b - upper b) * H)]"
  by (simp add: draw_one_def patch_of_def scale_box_def mk_box_def left_diff_distrib)

lemma scene_draw:
  "draw_boxes 640 480 [0 \<mapsto> ''ship'', 1 \<mapsto> ''cat''] [cat_box, ship1] [[0.05, 0.9, 0.05], [0.85, 0.05, 0.1]]
   = ([Detected 1 0.9 cat_box, Patch 384 288 192 144, Detected 0 0.85 ship1, Patch 64 48 256 192], None)"
  by (simp add: draw_boxes_def draw_loop_Cons tensor_max_def draw_one_simp
      CONFIDENCE_THRESHOLD_def no_object_label_def scene_defs)

subsection \<open>Properties of the visualisation\<close>

text \<open>C24: \<^verbatim>\<open>draw_boxes\<close> prints a detection only for a pair of its input whose top
  class probability is at least \<^verbatim>\<open>CONFIDENCE_THRESHOLD\<close> and whose top class is not
  the label 91; the printed score and label are that maximum and its first index.\<close>

theorem draw_boxes_shows_confident:
  assumes "Detected k s b \<in> set (fst (draw_boxes W H id2label boxes probs))"
  shows "\<exists>p. (p, b) \<in> set (zip probs boxes) \<and> tensor_max p = Inr (s, k)
           \<and> CONFIDENCE_THRESHOLD \<le> s \<and> k \<noteq> no_object_label"
  using draw_loop_detected assms by (simp add: draw_boxes_def)

theorem draw_boxes_shows_confident_witness:
  "Detected 1 0.9 cat_box \<in> set (fst (draw_boxes 640 480 [0 \<mapsto> ''ship'', 1 \<mapsto> ''cat''] [cat_box, ship1] [[0.05, 0.9, 0.05], [0.85, 0.05, 0.1]]))
   \<and> tensor_max [0.05, 0.9, 0.05] = Inr (0.9, 1) \<and> CONFIDENCE_THRESHOLD \<le> 0.9"
  using draw_boxes_shows_confident [of 1 "0.9" cat_box 640 480 "[0 \<mapsto> ''ship'', 1 \<mapsto> ''cat'']" "[cat_box, ship1]" "[[0.05, 0.9, 0.05], [0.85, 0.05, 0.1]]"]
  unfolding scene_draw by (simp add: tensor_max_def CONFIDENCE_THRESHOLD_def)

text \<open>C25: for YOLOS-shaped probability vectors (92 entries summing to 1, the last one
  "no object" at index 91), every detection \<^verbatim>\<open>draw_boxes\<close> prints has objectness
  \<open>1 - p[-1]\<close> at least its score, hence at least \<^verbatim>\<open>CONFIDENCE_THRESHOLD\<close>.\<close>

theorem draw_boxes_objectness:
  assumes "\<forall>p\<in>set probs. prob_vec p \<and> length p = Suc no_object_label"
    and "Detected k s b \<in> set (fst (draw_boxes W H id2label boxes probs))"
  shows "\<exists>p. (p, b) \<in> set (zip probs boxes) \<and> CONFIDENCE_THRESHOLD \<le> s \<and> s \<le> objectness p"
proof -
  obtain p where p: "(p, b) \<in> set (zip probs boxes)" and tm: "tensor_max p = Inr (s, k)"
    and conf: "CONFIDENCE_THRESHOLD \<le> s" and k91: "k \<noteq> no_object_label"
    using draw_loop_detected assms(2) by (fastforce simp: draw_boxes_def)
  have pv: "prob_vec p" and len: "length p = Suc no_object_label"
    using assms(1) set_zip_leftD [OF p] by auto
  have k: "k < length p" "p ! k = s" using tensor_max_label_lt [OF tm] by auto
  have "p \<noteq> []" using len by auto
  then have last: "last p = p ! no_object_label"
    using len by (simp add: last_conv_nth)
  have "p ! k + p ! no_object_label \<le> 1"
    using prob_vec_two_le [OF pv k(1) _ k91] len by simp
  then have "s \<le> objectness p" using k(2) last by (simp add: objectness_def)
  with p conf show ?thesis by blast
qed

theorem draw_boxes_objectness_witness:
  "prob_vec (replicate 90 0 @ [4 / 5, 1 / 5]) \<and> length (replicate 90 (0::real) @ [4 / 5, 1 / 5]) = Suc no_object_label
   \<and> Detected 90 (4 / 5) cat_box \<in> set (fst (draw_boxes 640 480 (\<lambda>k. Some ''obj'') [cat_box] [replicate 90 0 @ [4 / 5, 1 / 5]]))
   \<and> CONFIDENCE_THRESHOLD \<le> 4 / 5 \<and> (4 / 5 :: real) \<le> objectness (replicate 90 0 @ [4 / 5, 1 / 5])"
proof -
  have pv: "prob_vec (replicate 90 0 @ [4 / 5, 1 / 5])"
    by (simp add: prob_vec_def list_all_iff sum_list_replicate)
  have tm: "tensor_max (replicate 90 0 @ [4 / 5, 1 / 5]) = Inr (4 / 5, 90)"
    by (simp add: tensor_max_def list_max_zeros first_index_zeros)
  have d: "Detected 90 (4 / 5) cat_box \<in> set (fst (draw_boxes 640 480 (\<lambda>k. Some ''obj'') [cat_box] [replicate 90 0 @ [4 / 5, 1 / 5]]))"
    by (simp add: draw_boxes_def draw_loop_Cons tm draw_one_simp CONFIDENCE_THRESHOLD_def
        no_object_label_def)
  show ?thesis
    using draw_boxes_objectness [of "[replicate 90 0 @ [4 / 5, 1 / 5]]", OF _ d] pv d
    by (simp add: no_object_label_def objectness_def CONFIDENCE_THRESHOLD_def)
qed

text \<open>C26: each drawn rectangle is an input box scaled to pixels: anchored at
  \<open>(l * width, u * height)\<close>, of width \<open>(r - l) * width\<close> and height
  \<open>(b - u) * height\<close>, hence of non-negative size for valid boxes.\<close>

theorem draw_boxes_patch_geometry:
  assumes "0 \<le> W" "0 \<le> H" "\<forall>b\<in>set boxes. valid_box b"
    and "(x, y, w, h) \<in> set (patches (fst (draw_boxes W H id2label boxes probs)))"
  shows "0 \<le> w \<and> 0 \<le> h \<and> (\<exists>b\<in>set boxes. mk_box x y (x + w) (y + h) = scale_box W H b)"
proof -
  obtain p b where pb: "(p, b) \<in> set (zip probs boxes)" and r: "(x, y, w, h) = patch_of W H b"
    using draw_loop_patch assms(4) by (fastforce simp: draw_boxes_def)
  have b: "b \<in> set boxes" using set_zip_rightD [OF pb] .
  have v: "left b \<le> right b" "upper b \<le> bottom b" using assms(3) b by (auto simp: valid_box_def)
  have wh: "w = (right b - left b) * W" "h = (bottom b - upper b) * H" "x = left b * W" "y = upper b * H"
    using r by (simp_all add: patch_of_def scale_box_def mk_box_def left_diff_distrib)
  have "mk_box x y (x + w) (y + h) = scale_box W H b"
    using wh by (simp add: scale_box_def mk_box_def algebra_simps)
  with b wh v assms(1,2) show ?thesis by auto
qed

theorem draw_boxes_patch_geometry_witness:
  "(0::real) \<le> 640 \<and> (0::real) \<le> 480 \<and> valid_box cat_box \<and> valid_box ship1
   \<and> (384, 288, 192, 144) \<in> set (patches (fst (draw_boxes 640 480 [0 \<mapsto> ''ship'', 1 \<mapsto> ''cat''] [cat_box, ship1] [[0.05, 0.9, 0.05], [0.85, 0.05, 0.1]])))
   \<and> mk_box 384 288 (384 + 192) (288 + 144) = scale_box 640 480 cat_box"
proof -
  have v: "\<forall>b\<in>set [cat_box, ship1]. valid_box b" by (simp add: valid_box_def scene_defs)
  have r: "(384, 288, 192, 144) \<in> set (patches (fst (draw_boxes 640 480 [0 \<mapsto> ''ship'', 1 \<mapsto> ''cat''] [cat_box, ship1] [[0.05, 0.9, 0.05], [0.85, 0.05, 0.1]])))"
    unfolding scene_draw by simp
  show ?thesis
    using draw_boxes_patch_geometry [OF _ _ v r] v r
    by (simp add: scale_box_def scene_defs)
qed

text \<open>\<^verbatim>\<open>draw_boxes\<close> draws at most one rectangle per pair of \<^verbatim>\<open>zip(probs, boxes)\<close>,
  so never more than there are boxes or probability vectors.\<close>

lemma draw_boxes_count:
  "length (patches (fst (draw_boxes W H id2label boxes probs))) \<le> min (length boxes) (length probs)"
  using patches_length_le [of W H id2label "zip probs boxes"] by (simp add: draw_boxes_def)

text \<open>C27: \<^verbatim>\<open>draw_boxes\<close> raises nothing exactly when every probability vector it
  visits (the first \<open>len(boxes)\<close>) is non-empty and every label that passes the
  confidence and "no object" guards is a key of \<^verbatim>\<open>model.config.id2label\<close>; otherwise
  it stops with the \<^verbatim>\<open>IndexError\<close> of \<^verbatim>\<open>p.max(dim=-1)\<close> or the \<^verbatim>\<open>KeyError\<close> of the lookup,
  and with no other exception.\<close>

theorem draw_boxes_error:
  "(snd (draw_boxes W H id2label boxes probs) = None \<longleftrightarrow>
      (\<forall>p\<in>set (take (length boxes) probs). \<exists>s k. tensor_max p = Inr (s, k)
          \<and> (CONFIDENCE_THRESHOLD \<le> s \<and> k \<noteq> no_object_label \<longrightarrow> k \<in> dom id2label)))
   \<and> snd (draw_boxes W H id2label boxes probs) \<in> {None, Some IndexError, Some KeyError}"
proof -
  have "fst ` set (zip probs boxes) = set (map fst (zip probs boxes))"
    by (simp only: set_map)
  also have "\<dots> = set (take (length boxes) probs)"
    by (cases "length probs \<le> length boxes") (simp_all add: map_fst_zip_take min_def)
  finally have f: "fst ` set (zip probs boxes) = set (take (length boxes) probs)" .
  let ?Q = "\<lambda>p. \<exists>s k. tensor_max p = Inr (s, k)
              \<and> (CONFIDENCE_THRESHOLD \<le> s \<and> k \<noteq> no_object_label \<longrightarrow> k \<in> dom id2label)"
  have eq: "(\<forall>(p, b)\<in>set (zip probs boxes). ?Q p) \<longleftrightarrow> (\<forall>p\<in>set (take (length boxes) probs). ?Q p)"
  proof -
    have g: "(\<forall>(p, b)\<in>A. Q p) \<longleftrightarrow> (\<forall>p\<in>fst ` A. Q p)" for A :: "('p \<times> 'b) set" and Q
      by force
    show ?thesis using g [of "set (zip probs boxes)" ?Q] unfolding f .
  qed
  show ?thesis
    using draw_loop_error [of W H id2label "zip probs boxes"] unfolding draw_boxes_def eq .
qed

theorem draw_boxes_error_witness:
  "snd (draw_boxes 640 480 [0 \<mapsto> ''ship'', 1 \<mapsto> ''cat''] [cat_box, ship1] [[0.05, 0.9, 0.05], [0.85, 0.05, 0.1]]) = None
   \<and> snd (draw_boxes 640 480 Map.empty [cat_box] [[0.05, 0.9, 0.05]]) \<noteq> None"
proof -
  have t1: "tensor_max [0.05, 0.9, 0.05] = Inr (0.9, 1)" and t2: "tensor_max [0.85, 0.05, 0.1] = Inr (0.85, 0)"
    by (simp_all add: tensor_max_def max_def)
  have e1: "\<exists>s k. tensor_max [0.05, 0.9, 0.05] = Inr (s, k)
      \<and> (CONFIDENCE_THRESHOLD \<le> s \<and> k \<noteq> no_object_label \<longrightarrow> k \<in> dom [0 \<mapsto> ''ship'', 1 \<mapsto> ''cat''])"
    by (rule exI [of _ "0.9"], rule exI [of _ 1], rule conjI [OF t1]) simp
  have e2: "\<exists>s k. tensor_max [0.85, 0.05, 0.1] = Inr (s, k)
      \<and> (CONFIDENCE_THRESHOLD \<le> s \<and> k \<noteq> no_object_label \<longrightarrow> k \<in> dom [0 \<mapsto> ''ship'', 1 \<mapsto> ''cat''])"
    by (rule exI [of _ "0.85"], rule exI [of _ 0], rule conjI [OF t2]) simp
  have ok: "\<forall>p\<in>set (take (length [cat_box, ship1]) [[0.05, 0.9, 0.05], [0.85, 0.05, 0.1 :: real]]). \<exists>s k. tensor_max p = Inr (s, k)
      \<and> (CONFIDENCE_THRESHOLD \<le> s \<and> k \<noteq> no_object_label \<longrightarrow> k \<in> dom [0 \<mapsto> ''ship'', 1 \<mapsto> ''cat''])"
    using e1 e2 by simp
  have bad: "\<not> (\<forall>p\<in>set (take (length [cat_box]) [[0.05, 0.9, 0.05 :: real]]). \<exists>s k. tensor_max p = Inr (s, k)
      \<and> (CONFIDENCE_THRESHOLD \<le> s \<and> k \<noteq> no_object_label \<longrightarrow> k \<in> dom (Map.empty :: nat \<Rightarrow> string option)))"
    by (simp add: tensor_max_def CONFIDENCE_THRESHOLD_def no_object_label_def)
  show ?thesis
    using draw_boxes_error [of 640 480 "[0 \<mapsto> ''ship'', 1 \<mapsto> ''cat'']" "[cat_box, ship1]" "[[0.05, 0.9, 0.05], [0.85, 0.05, 0.1]]"]
      draw_boxes_error [of 640 480 Map.empty "[cat_box]" "[[0.05, 0.9, 0.05]]"] ok bad
    by blast
qed

text \<open>the box-format conversion round-trips: converting a center box to corners and
  back gives the center box, and converting corners to a center box and back gives the
  corners.\<close>

theorem center_corners_roundtrip:
  "corners_to_center (center_to_corners cx cy w h) = (cx, cy, w, h)
   \<and> (case corners_to_center b of (cx', cy', w', h') \<Rightarrow> center_to_corners cx' cy' w' h') = b"
  by (simp add: corners_to_center_def center_to_corners_def mk_box_def field_simps)

text \<open>The converted box is valid (left <= right, upper <= bottom) exactly when the
  width and height are non-negative, and its area is width times height.\<close>

lemma center_to_corners_valid:
  "(valid_box (center_to_corners cx cy w h) \<longleftrightarrow> 0 \<le> w \<and> 0 \<le> h)
   \<and> area (center_to_corners cx cy w h) = w * h"
  by (simp add: valid_box_def area_def center_to_corners_def mk_box_def)

lemma nms_cell_shipped_TypeError: "nms_cell_shipped W H id2label boxes probs = ([], Some TypeError)"
  by (simp add: nms_cell_shipped_def non_maximum_suppression_shipped_def py_len_def)

lemma yolos_preprocessed_range:
  assumes "wf_nd pv" and "shape pv = [1, c, h, w]" and "\<exists>a\<in>set (vals pv). \<exists>b\<in>set (vals pv). a \<noteq> b"
  shows "\<exists>ys. yolos_preprocessed pv = Inr ys \<and> length ys = c * h * w
           \<and> (\<forall>y\<in>set ys. \<exists>v. y = Some v \<and> 0 \<le> v \<and> v \<le> 1)"
proof -
  let ?v = "\<lparr>shape = [c, h, w], vals = vals pv\<rparr>"
  have l: "length (vals pv) = c * h * w" using assms(1,2) by (simp add: wf_nd_def)
  then have i: "index0 pv = Inr ?v" using assms(2) by (simp add: index0_def)
  have "wf_nd ?v" using l by (simp add: wf_nd_def)
  then have p: "length (vals (permute_120 ?v)) = c * h * w \<and> set (vals (permute_120 ?v)) = set (vals pv)"
    using permute_120_vals [of ?v c h w] by simp
  then have "\<exists>a\<in>set (vals (permute_120 ?v)). \<exists>b\<in>set (vals (permute_120 ?v)). a \<noteq> b"
    using assms(3) by simp
  then show ?thesis using minmax_unit_range [of "vals (permute_120 ?v)"] i p
    by (simp add: yolos_preprocessed_def)
qed

end
