(* ===== verification/Detection_Notebook.thy ===== *)
theory Detection_Notebook
  imports Detection
begin

text \<open>
  The detection notebook (\<^verbatim>\<open>src/unnamed/part_000\<close>) run from top to bottom, cell by
  cell, as "Run All" does: each cell emits its output events, and the first exception
  stops the run (\<open>then_cell\<close>). The image, the processor's \<^verbatim>\<open>pixel_values\<close> and YOLOS's
  outputs \<^verbatim>\<open>logits\<close> and \<^verbatim>\<open>pred_boxes\<close> are inputs: the pretrained networks are not
  modelled. The tensors are \<open>ndarray\<close>s, their shape and row-major entries.
  \<^item> \<open>input_cell\<close>: \<^verbatim>\<open>plt.title("Input image"); plt.imshow(image)\<close>;
  \<^item> \<open>preprocess_cell\<close>: the rescaled first image (\<open>yolos_preprocessed\<close>), then its title,
    \<^verbatim>\<open>imshow\<close> and \<^verbatim>\<open>show\<close>; matplotlib's \<^verbatim>\<open>imshow\<close> takes a three-dimensional
    array only with 3 (RGB) or 4 (RGBA) channels last and raises \<^verbatim>\<open>TypeError\<close> otherwise;
  \<^item> \<open>model_cell\<close>: the two shape prints, then \<^verbatim>\<open>center_to_corners_format\<close> (which unbinds
    the last dimension into four, so any other size raises \<^verbatim>\<open>ValueError\<close>) and
    \<^verbatim>\<open>probs[:, :, -1]\<close> (\<^verbatim>\<open>IndexError\<close> unless the logits have three dimensions and
    at least one class);
  \<^item> \<open>draw_cell\<close>: \<^verbatim>\<open>draw_boxes(image, boxes[0], probs[0])\<close>, with YOLOS's
    \<^verbatim>\<open>model.config.id2label\<close> the dict \<open>id2label\<close>. Softmax and the box
    conversion act row by row, so the first image of the batched results is
    \<open>detection_cell\<close> applied to the first image's rows (\<open>rows_of\<close>, \<open>box_rows\<close>);
  \<^item> \<open>iou_cell\<close>: the first exercise cell, \<^verbatim>\<open>assert check_batch_iou(batch_iou)\<close>; the fixture's
    \<^verbatim>\<open>OK!\<close> is printed when it passes (its diagnostics on failure are not modelled);
    the specified \<^verbatim>\<open>batch_iou\<close> returns numbers, never NaN; \<open>run_all_shipped\<close> runs
    it on the shipped stub, whose \<^verbatim>\<open>torch.empty\<close> memory (NaN included) is the
    parameter \<open>mem\<close>;
  \<^item> \<open>nms_cell\<close>: the last cell with the specified suppressor, \<^verbatim>\<open>non_maximum_suppression(boxes[0],
    probs[0])\<close>, the printed count and the second drawing; \<open>run_all_shipped\<close> ends with
    the shipped cell instead (\<open>nms_cell_shipped\<close>).
\<close>

named_theorems notebook_simps "evaluation of the detection notebook's cells"

datatype 'img nb_event =
    Title string
  | ImShow 'img
  | ImShowView "fval list"
  | Show
  | PrintShape string "nat list"
  | PrintCount string nat
  | PrintText string
  | Draw draw_event

type_synonym 'img cell_out = "'img nb_event list \<times> py_error option"

definition then_cell :: "'img cell_out \<Rightarrow> 'img cell_out \<Rightarrow> 'img cell_out" where
  "then_cell a b = (case a of (evs, None) \<Rightarrow> (evs @ fst b, snd b) | (evs, Some e) \<Rightarrow> (evs, Some e))"

definition rows_of :: "ndarray \<Rightarrow> real list list" where
  "rows_of a = (let n = last (shape a) in [take n (drop (i * n) (vals a)). i \<leftarrow> [0..<prod_list (butlast (shape a))]])"

definition box_rows :: "ndarray \<Rightarrow> (real \<times> real \<times> real \<times> real) list" where
  "box_rows a = map (\<lambda>r. (r ! 0, r ! 1, r ! 2, r ! 3)) (rows_of a)"

definition input_cell :: "'img \<Rightarrow> 'img cell_out" where
  "input_cell img = ([Title ''Input image'', ImShow img], None)"

definition preprocess_cell :: "ndarray \<Rightarrow> 'img cell_out" where
  "preprocess_cell pixel_values =
     (case yolos_preprocessed pixel_values of
        Inl e \<Rightarrow> ([], Some e)
      | Inr value \<Rightarrow>
          if shape pixel_values ! 1 \<in> {3, 4} then ([Title ''Preprocessed'', ImShowView value, Show], None)
          else ([Title ''Preprocessed''], Some TypeError))"

definition model_cell :: "ndarray \<Rightarrow> ndarray \<Rightarrow> 'img cell_out" where
  "model_cell logits boxes =
     ([PrintShape ''Logits:'' (shape logits), PrintShape ''Boxes:'' (shape boxes)],
      if shape boxes = [] \<or> last (shape boxes) \<noteq> 4 then Some ValueError
      else if length (shape logits) \<noteq> 3 \<or> last (shape logits) = 0 then Some IndexError
      else None)"

definition first_image :: "ndarray \<Rightarrow> ndarray \<Rightarrow> (box list \<times> tensor list) result" where
  "first_image logits boxes =
     (case index0 boxes of
        Inl e \<Rightarrow> Inl e
      | Inr b0 \<Rightarrow>
          (case index0 logits of
             Inl e \<Rightarrow> Inl e
           | Inr l0 \<Rightarrow> (case detection_cell (rows_of l0) (box_rows b0) of (bs, ps, _) \<Rightarrow> Inr (bs, ps))))"

definition draw_cell :: "real \<Rightarrow> real \<Rightarrow> (nat \<Rightarrow> string option) \<Rightarrow> ndarray \<Rightarrow> ndarray \<Rightarrow> 'img cell_out" where
  "draw_cell W H id2label logits boxes =
     (case first_image logits boxes of
        Inl e \<Rightarrow> ([], Some e)
      | Inr (bs, ps) \<Rightarrow> (case draw_boxes W H id2label bs ps of (evs, err) \<Rightarrow> (map Draw evs, err)))"

definition nms_cell :: "real \<Rightarrow> real \<Rightarrow> (nat \<Rightarrow> string option) \<Rightarrow> ndarray \<Rightarrow> ndarray \<Rightarrow> 'img cell_out" where
  "nms_cell W H id2label logits boxes =
     (case first_image logits boxes of
        Inl e \<Rightarrow> ([], Some e)
      | Inr (bs, ps) \<Rightarrow>
          (case non_maximum_suppression bs ps IOU_THRESHOLD of
             Inl e \<Rightarrow> ([], Some e)
           | Inr (nms_boxes, nms_probs) \<Rightarrow>
               (case draw_boxes W H id2label nms_boxes nms_probs of
                  (evs, err) \<Rightarrow> (PrintCount ''Boxes after NMS:'' (length nms_boxes) # map Draw evs, err))))"

definition nms_cell_shipped_nb :: "real \<Rightarrow> real \<Rightarrow> (nat \<Rightarrow> string option) \<Rightarrow> ndarray \<Rightarrow> ndarray \<Rightarrow> 'img cell_out" where
  "nms_cell_shipped_nb W H id2label logits boxes =
     (case first_image logits boxes of
        Inl e \<Rightarrow> ([], Some e)
      | Inr (bs, ps) \<Rightarrow> (case nms_cell_shipped W H id2label bs ps of (evs, err) \<Rightarrow> (map Draw evs, err)))"

definition iou_cell :: "(box \<Rightarrow> box list \<Rightarrow> fval list) \<Rightarrow> 'img cell_out" where
  "iou_cell fn = (if check_batch_iou fn then ([PrintText ''OK!''], None) else ([], Some AssertionError))"

definition run_prefix :: "real \<Rightarrow> real \<Rightarrow> (nat \<Rightarrow> string option) \<Rightarrow> 'img \<Rightarrow> ndarray \<Rightarrow> ndarray \<Rightarrow> ndarray \<Rightarrow> 'img cell_out" where
  "run_prefix W H id2label img pixel_values logits boxes =
     then_cell (input_cell img)
       (then_cell (preprocess_cell pixel_values)
         (then_cell (model_cell logits boxes) (draw_cell W H id2label logits boxes)))"

definition run_all :: "real \<Rightarrow> real \<Rightarrow> (nat \<Rightarrow> string option) \<Rightarrow> 'img \<Rightarrow> ndarray \<Rightarrow> ndarray \<Rightarrow> ndarray \<Rightarrow> 'img cell_out" where
  "run_all W H id2label img pixel_values logits boxes =
     then_cell (run_prefix W H id2label img pixel_values logits boxes)
       (then_cell (iou_cell (\<lambda>reference boxes. map Some (batch_iou reference boxes)))
         (nms_cell W H id2label logits boxes))"

definition run_all_shipped ::
  "(nat \<Rightarrow> fval) \<Rightarrow> real \<Rightarrow> real \<Rightarrow> (nat \<Rightarrow> string option) \<Rightarrow> 'img \<Rightarrow> ndarray \<Rightarrow> ndarray \<Rightarrow> ndarray \<Rightarrow> 'img cell_out" where
  "run_all_shipped mem W H id2label img pixel_values logits boxes =
     then_cell (run_prefix W H id2label img pixel_values logits boxes)
       (then_cell (iou_cell (batch_iou_stub mem)) (nms_cell_shipped_nb W H id2label logits boxes))"

subsection \<open>Lemmas\<close>

lemma then_cell_None [notebook_simps]: "then_cell (evs, None) b = (evs @ fst b, snd b)"
  by (simp add: then_cell_def)

lemma then_cell_Some [notebook_simps]: "then_cell (evs, Some e) b = (evs, Some e)"
  by (simp add: then_cell_def)

lemma rows_of_2d [notebook_simps]:
  assumes "wf_nd a" and "shape a = [n, c]"
  shows "length (rows_of a) = n \<and> (\<forall>r\<in>set (rows_of a). length r = c)"
proof -
  have l: "length (vals a) = n * c" using assms by (simp add: wf_nd_def)
  have "length (take c (drop (i * c) (vals a))) = c" if "i < n" for i
  proof -
    have "i * c + c \<le> n * c" using that by (metis add.commute mult_Suc less_eq_Suc_le mult_le_mono1)
    then show ?thesis using l by simp
  qed
  then show ?thesis using assms(2) by (auto simp: rows_of_def)
qed

lemma index0_3d [notebook_simps]:
  assumes "wf_nd a" and "shape a = [b, n, c]" and "0 < b"
  shows "\<exists>a0. index0 a = Inr a0 \<and> wf_nd a0 \<and> shape a0 = [n, c]"
proof -
  have "n * c \<le> length (vals a)" using assms by (simp add: wf_nd_def)
  then have "length (take (n * c) (vals a)) = n * c" by simp
  then show ?thesis using assms by (simp add: index0_def wf_nd_def)
qed


lemma first_image_ok [notebook_simps]:
  assumes "wf_nd logits" and "shape logits = [b, n, c]" and "0 < b" and "2 \<le> c"
    and "wf_nd boxes" and "shape boxes = [b, n, 4]"
  shows "\<exists>bs ps. first_image logits boxes = Inr (bs, ps) \<and> length bs = n \<and> length ps = n
           \<and> (\<forall>p\<in>set ps. length p = c)"
proof -
  obtain l0 where l0: "index0 logits = Inr l0" "wf_nd l0" "shape l0 = [n, c]"
    using index0_3d [OF assms(1,2,3)] by blast
  obtain b0 where b0: "index0 boxes = Inr b0" "wf_nd b0" "shape b0 = [n, 4]"
    using index0_3d [OF assms(5,6,3)] by blast
  have rl: "length (rows_of l0) = n" "\<forall>r\<in>set (rows_of l0). length r = c"
    using rows_of_2d [OF l0(2,3)] by simp_all
  have rb: "length (box_rows b0) = n"
    using rows_of_2d [OF b0(2,3)] by (simp add: box_rows_def)
  have "\<forall>p\<in>set (map softmax (rows_of l0)). length p = c"
    using rl(2) by (auto simp: softmax_length)
  then show ?thesis using l0(1) b0(1) rl(1) rb
    by (simp add: first_image_def detection_cell_def Let_def)
qed

lemma nms_kept_from_input [notebook_simps]:
  "non_maximum_suppression bs ps thr = Inr (kb, kp) \<Longrightarrow> set kp \<subseteq> set ps"
  unfolding non_maximum_suppression_def nms_keep_def
  using nms_loop_set [of bs thr "nms_order ps"] nms_order_set [of ps]
  by (auto simp: Let_def split: if_splits) (meson lessThan_iff nth_mem subsetD)

text \<open>The drawing loop raises nothing on non-empty probability vectors whose every label
  but the "no object" one is a key of \<open>id2label\<close>.\<close>

lemma draw_boxes_no_error [notebook_simps]:
  assumes "\<forall>p\<in>set ps. p \<noteq> [] \<and> {..<length p} - {no_object_label} \<subseteq> dom id2label"
  shows "snd (draw_boxes W H id2label bs ps) = None"
proof -
  have "\<exists>s k. tensor_max p = Inr (s, k) \<and> (CONFIDENCE_THRESHOLD \<le> s \<and> k \<noteq> no_object_label \<longrightarrow> k \<in> dom id2label)"
    if "p \<in> set ps" for p
  proof -
    have ne: "p \<noteq> []" and d: "{..<length p} - {no_object_label} \<subseteq> dom id2label" using assms that by auto
    obtain s k where t: "tensor_max p = Inr (s, k)" using ne by (simp add: tensor_max_def)
    have "k < length p" using tensor_max_Inr [OF t] by blast
    then show ?thesis using t d by blast
  qed
  then show ?thesis using draw_loop_error [of W H id2label "zip ps bs"]
    by (auto simp: draw_boxes_def dest: set_zip_leftD)
qed

lemma iou_cell_specified [notebook_simps]:
  "iou_cell (\<lambda>reference boxes. map Some (batch_iou reference boxes)) = ([PrintText ''OK!''], None)"
  by (simp add: iou_cell_def check_batch_iou_def check_reference_def check_boxes_def iou_gt_def
      mk_box_def batch_iou_def iou_eq_ratio inter_area_def area_def)

text \<open>C28: "Run All" of the detection notebook. For a pixel batch of one non-constant
  RGB or RGBA image, YOLOS outputs of one or more images with the same number \<open>n\<close> of
  queries, at least two classes per query and four box coordinates, and an
  \<^verbatim>\<open>id2label\<close> that names every class but the "no object" label 91, every cell runs: the
  input and preprocessed images are shown, the two shapes printed, the first image's
  detections drawn, the IoU fixture prints \<^verbatim>\<open>OK!\<close>, and the last cell prints the number
  of boxes NMS keeps and draws exactly those. The notebook as shipped never completes:
  after the same first drawing it stops at the IoU cell with \<^verbatim>\<open>AssertionError\<close>, or, when
  the uninitialised memory happens to pass the fixture (NaN or the expected values), at
  the last cell with \<^verbatim>\<open>TypeError\<close>.\<close>

theorem run_all_completes:
  assumes pv: "wf_nd pv" "shape pv = [1, ch, h, w]" "\<exists>x\<in>set (vals pv). \<exists>y\<in>set (vals pv). x \<noteq> y"
    and rgb: "ch = 3 \<or> ch = 4"
    and lg: "wf_nd logits" "shape logits = [b, n, c]" "0 < b" "2 \<le> c"
    and bx: "wf_nd boxes" "shape boxes = [b, n, 4]"
    and names: "{..<c} - {no_object_label} \<subseteq> dom id2label"
  shows "\<exists>v bs ps kb kp.
     first_image logits boxes = Inr (bs, ps) \<and> non_maximum_suppression bs ps IOU_THRESHOLD = Inr (kb, kp)
     \<and> run_all W H id2label img pv logits boxes =
         ([Title ''Input image'', ImShow img, Title ''Preprocessed'', ImShowView v, Show,
           PrintShape ''Logits:'' [b, n, c], PrintShape ''Boxes:'' [b, n, 4]]
          @ map Draw (fst (draw_boxes W H id2label bs ps)) @ PrintText ''OK!''
          # PrintCount ''Boxes after NMS:'' (length kb) # map Draw (fst (draw_boxes W H id2label kb kp)), None)
     \<and> run_all_shipped mem W H id2label img pv logits boxes =
         ([Title ''Input image'', ImShow img, Title ''Preprocessed'', ImShowView v, Show,
           PrintShape ''Logits:'' [b, n, c], PrintShape ''Boxes:'' [b, n, 4]]
          @ map Draw (fst (draw_boxes W H id2label bs ps)) @ (if check_batch_iou (batch_iou_stub mem) then [PrintText ''OK!''] else []),
          Some (if check_batch_iou (batch_iou_stub mem) then TypeError else AssertionError))"
proof -
  obtain v where v: "yolos_preprocessed pv = Inr v"
    using yolos_preprocessed_range [OF pv] by blast
  obtain bs ps where f: "first_image logits boxes = Inr (bs, ps)" "length bs = n" "length ps = n"
      "\<forall>p\<in>set ps. length p = c"
    using first_image_ok [OF lg bx] by blast
  have pok: "\<forall>p\<in>set ps. p \<noteq> [] \<and> {..<length p} - {no_object_label} \<subseteq> dom id2label"
    using f(4) lg(4) names by auto
  have ok: "nms_input_ok bs ps IOU_THRESHOLD"
    using f(2,3) pok by (auto simp: nms_input_ok_def IOU_THRESHOLD_def)
  obtain kb kp where k: "non_maximum_suppression bs ps IOU_THRESHOLD = Inr (kb, kp)"
    using ok by (simp add: non_maximum_suppression_def Let_def)
  obtain evs1 where d1: "draw_boxes W H id2label bs ps = (evs1, None)"
    using draw_boxes_no_error [OF pok, of W H bs] by (metis prod.collapse)
  obtain evs2 where d2: "draw_boxes W H id2label kb kp = (evs2, None)"
    using draw_boxes_no_error [of kp id2label W H kb] pok nms_kept_from_input [OF k]
    by (metis prod.collapse subsetD)
  let ?pre = "[Title ''Input image'', ImShow img, Title ''Preprocessed'', ImShowView v, Show,
        PrintShape ''Logits:'' [b, n, c], PrintShape ''Boxes:'' [b, n, 4]] @ map Draw evs1"
  have m: "model_cell logits boxes =
      ([PrintShape ''Logits:'' [b, n, c], PrintShape ''Boxes:'' [b, n, 4]], None)"
    using lg bx by (simp add: model_cell_def)
  have dc: "draw_cell W H id2label logits boxes = (map Draw evs1, None)"
    using f(1) d1 by (simp add: draw_cell_def)
  have pc: "preprocess_cell pv = ([Title ''Preprocessed'', ImShowView v, Show], None)"
    using v pv(2) rgb by (auto simp: preprocess_cell_def)
  have p: "run_prefix W H id2label img pv logits boxes = (?pre, None)"
    by (simp add: run_prefix_def input_cell_def pc m dc then_cell_None)
  have nc: "nms_cell W H id2label logits boxes = (PrintCount ''Boxes after NMS:'' (length kb) # map Draw evs2, None)"
    using f(1) k d2 by (simp add: nms_cell_def)
  have ra: "run_all W H id2label img pv logits boxes =
      (?pre @ PrintText ''OK!'' # PrintCount ''Boxes after NMS:'' (length kb) # map Draw evs2, None)"
    by (simp add: run_all_def p nc iou_cell_specified then_cell_None)
  have ns: "nms_cell_shipped_nb W H id2label logits boxes = ([], Some TypeError)"
    using f(1) by (simp add: nms_cell_shipped_nb_def nms_cell_shipped_TypeError)
  have rs: "run_all_shipped mem W H id2label img pv logits boxes =
      (?pre @ (if check_batch_iou (batch_iou_stub mem) then [PrintText ''OK!''] else []),
       Some (if check_batch_iou (batch_iou_stub mem) then TypeError else AssertionError))"
    by (simp add: run_all_shipped_def p ns iou_cell_def then_cell_def)
  show ?thesis using ra rs f(1) k d1 d2 by auto
qed

theorem run_all_completes_witness:
  "\<exists>v bs ps kb kp.
     first_image \<lparr>shape = [1, 1, 2], vals = [0, 0]\<rparr> \<lparr>shape = [1, 1, 4], vals = [1 / 2, 1 / 2, 1, 1]\<rparr> = Inr (bs, ps)
     \<and> non_maximum_suppression bs ps IOU_THRESHOLD = Inr (kb, kp)
     \<and> run_all 640 480 [0 \<mapsto> ''ship'', 1 \<mapsto> ''cat''] (0 :: nat) \<lparr>shape = [1, 3, 1, 1], vals = [0, 1, 0]\<rparr>
         \<lparr>shape = [1, 1, 2], vals = [0, 0]\<rparr> \<lparr>shape = [1, 1, 4], vals = [1 / 2, 1 / 2, 1, 1]\<rparr> =
         ([Title ''Input image'', ImShow 0, Title ''Preprocessed'', ImShowView v, Show,
           PrintShape ''Logits:'' [1, 1, 2], PrintShape ''Boxes:'' [1, 1, 4]]
          @ map Draw (fst (draw_boxes 640 480 [0 \<mapsto> ''ship'', 1 \<mapsto> ''cat''] bs ps)) @ PrintText ''OK!''
          # PrintCount ''Boxes after NMS:'' (length kb)
          # map Draw (fst (draw_boxes 640 480 [0 \<mapsto> ''ship'', 1 \<mapsto> ''cat''] kb kp)), None)
     \<and> run_all_shipped (\<lambda>i. Some 0) 640 480 [0 \<mapsto> ''ship'', 1 \<mapsto> ''cat''] (0 :: nat)
         \<lparr>shape = [1, 3, 1, 1], vals = [0, 1, 0]\<rparr>
         \<lparr>shape = [1, 1, 2], vals = [0, 0]\<rparr> \<lparr>shape = [1, 1, 4], vals = [1 / 2, 1 / 2, 1, 1]\<rparr> =
         ([Title ''Input image'', ImShow 0, Title ''Preprocessed'', ImShowView v, Show,
           PrintShape ''Logits:'' [1, 1, 2], PrintShape ''Boxes:'' [1, 1, 4]]
          @ map Draw (fst (draw_boxes 640 480 [0 \<mapsto> ''ship'', 1 \<mapsto> ''cat''] bs ps)), Some AssertionError)"
proof -
  have pv: "wf_nd \<lparr>shape = [1, 3, 1, 1], vals = [0, 1, 0 :: real]\<rparr>"
    "shape \<lparr>shape = [1, 3, 1, 1], vals = [0, 1, 0 :: real]\<rparr> = [1, 3, 1, 1]"
    "\<exists>x\<in>set (vals \<lparr>shape = [1, 3, 1, 1], vals = [0, 1, 0 :: real]\<rparr>). \<exists>y\<in>set (vals \<lparr>shape = [1, 3, 1, 1], vals = [0, 1, 0 :: real]\<rparr>). x \<noteq> y"
    by (auto simp: wf_nd_def)
  have rgb: "(3 :: nat) = 3 \<or> (3 :: nat) = 4" by simp
  have lg: "wf_nd \<lparr>shape = [1, 1, 2], vals = [0, 0 :: real]\<rparr>" "shape \<lparr>shape = [1, 1, 2], vals = [0, 0 :: real]\<rparr> = [1, 1, 2]"
    "0 < (1 :: nat)" "2 \<le> (2 :: nat)"
    by (simp_all add: wf_nd_def)
  have bx: "wf_nd \<lparr>shape = [1, 1, 4], vals = [1 / 2, 1 / 2, 1, 1 :: real]\<rparr>"
    "shape \<lparr>shape = [1, 1, 4], vals = [1 / 2, 1 / 2, 1, 1 :: real]\<rparr> = [1, 1, 4]"
    by (simp_all add: wf_nd_def)
  have nm: "{..<2} - {no_object_label} \<subseteq> dom [0 \<mapsto> ''ship'', 1 \<mapsto> ''cat'']"
    by (auto simp: lessThan_def less_2_cases_iff)
  have st: "\<not> check_batch_iou (batch_iou_stub (\<lambda>i. Some 0))"
    by (simp add: check_batch_iou_def batch_iou_stub_def torch_empty_def check_boxes_def iou_gt_def upt_rec)
  show ?thesis
    using run_all_completes [OF pv rgb lg bx nm, where W = 640 and H = 480 and img = "0 :: nat" and mem = "\<lambda>i. Some 0"] st
    by simp
qed

end
