(* ===== verification/Loader.thy ===== *)
theory Loader
  imports Torch
begin

text \<open>
  Data loading in the training notebooks. A \<^verbatim>\<open>torch.utils.data.DataLoader\<close> is the record
  of the arguments it is built from (\<open>dataset\<close>, \<open>batch_size\<close>, \<open>drop_last\<close>); building
  one with a zero batch size raises \<^verbatim>\<open>ValueError\<close>; iterating it yields \<open>batches\<close>,
  consecutive slices of \<open>batch_size\<close> samples, the last one truncated or dropped
  (\<open>chunks\<close>). \<^verbatim>\<open>num_workers\<close> and \<^verbatim>\<open>pin_memory\<close> change neither the batches nor their
  order and are not modelled. A sample is a pair of an image and a label; a dataset
  (CIFAR10, CIFAR100, read from disk) is a parameter, and so is the HuggingFace image
  processor that the fine-tuning notebook's \<^verbatim>\<open>Data\<close> applies.
  \<^item> \<open>ft_Data\<close>, \<open>ft_train_dataloader\<close>, \<open>ft_val_dataloader\<close>, \<open>ft_check_data\<close>: class
    \<^verbatim>\<open>Data\<close> and \<^verbatim>\<open>check_data\<close> of \<^verbatim>\<open>src/05-foundation/01-finetuning.ipynb\<close>;
  \<^item> \<open>pl_Data\<close>, \<open>pl_train_dataloader\<close>, \<open>pl_test_dataloader\<close>: class \<^verbatim>\<open>Data\<close> of the
    Lightning notebook (the second notebook of \<^verbatim>\<open>src/05-foundation/02-clip.ipynb\<close>);
  \<^item> \<open>get_cifar10_loader\<close> and the cells that use it, of the PyTorch notebook (the third
    notebook of that file). \<^verbatim>\<open>ToTensor\<close> then \<^verbatim>\<open>Normalize(0.5, 0.5)\<close> is
    \<open>cifar_transform\<close> on the bytes of an image, in the channel-first order \<^verbatim>\<open>ToTensor\<close>
    produces; without the transform a sample stays a PIL image, and collating a batch of
    PIL images raises \<^verbatim>\<open>TypeError\<close> (\<open>collate\<close>).
\<close>

named_theorems loader_simps "batches of a data loader"

record 'a data_loader =
  dataset :: "'a list"
  batch_size :: nat
  drop_last :: bool

fun chunks :: "nat \<Rightarrow> bool \<Rightarrow> 'a list \<Rightarrow> 'a list list" where
  "chunks n d xs =
     (if n = 0 \<or> xs = [] then []
      else if d \<and> length xs < n then []
      else take n xs # chunks n d (drop n xs))"

declare chunks.simps [simp del]

definition DataLoader :: "'a list \<Rightarrow> nat \<Rightarrow> bool \<Rightarrow> 'a data_loader result" where
  "DataLoader ds bs dl =
     (if bs = 0 then Inl ValueError else Inr \<lparr>dataset = ds, batch_size = bs, drop_last = dl\<rparr>)"

definition batches :: "'a data_loader \<Rightarrow> 'a list list" where
  "batches l = chunks (batch_size l) (drop_last l) (dataset l)"

definition next_iter :: "'a data_loader \<Rightarrow> 'a list result" where
  "next_iter l = (case batches l of [] \<Rightarrow> Inl StopIteration | b # _ \<Rightarrow> Inr b)"

subsection \<open>The fine-tuning notebook's data module\<close>

record ft_data =
  ft_num_workers :: nat
  ft_batch_size :: nat

definition ft_Data :: "nat \<Rightarrow> nat \<Rightarrow> ('i \<Rightarrow> 'x) option \<Rightarrow> ft_data" where
  "ft_Data workers bsize transform = \<lparr>ft_num_workers = workers, ft_batch_size = bsize\<rparr>"

definition ft_transform :: "('i \<Rightarrow> 'x) \<Rightarrow> ('i \<times> nat) list \<Rightarrow> ('x \<times> nat) list" where
  "ft_transform image_processor ds = map (\<lambda>(img, y). (image_processor img, y)) ds"

definition ft_train_dataloader ::
  "('i \<Rightarrow> 'x) \<Rightarrow> ('i \<times> nat) list \<Rightarrow> ft_data \<Rightarrow> ('x \<times> nat) data_loader result" where
  "ft_train_dataloader image_processor cifar100_train self =
     DataLoader (ft_transform image_processor cifar100_train) (ft_batch_size self) True"

definition ft_val_dataloader ::
  "('i \<Rightarrow> 'x) \<Rightarrow> ('i \<times> nat) list \<Rightarrow> ft_data \<Rightarrow> ('x \<times> nat) data_loader result" where
  "ft_val_dataloader image_processor cifar100_val self =
     DataLoader (ft_transform image_processor cifar100_val) (ft_batch_size self) False"

definition ft_check_data :: "('i \<Rightarrow> 'x) \<Rightarrow> ('i \<times> nat) list \<Rightarrow> ('x \<times> nat) list result" where
  "ft_check_data image_processor cifar100_val =
     (case ft_val_dataloader image_processor cifar100_val (ft_Data 4 16 None) of
        Inl e \<Rightarrow> Inl e
      | Inr l \<Rightarrow> next_iter l)"

subsection \<open>The PyTorch notebook's loader\<close>

datatype image = PILImage "nat list" | ImageTensor "real list"

definition cifar_transform :: "nat list \<Rightarrow> real list" where
  "cifar_transform img = map (\<lambda>p. (real p / 255 - 0.5) / 0.5) img"

definition get_cifar10_loader ::
  "(nat list \<times> nat) list \<Rightarrow> (nat list \<times> nat) list \<Rightarrow> string \<Rightarrow> bool \<Rightarrow> (image \<times> nat) data_loader result" where
  "get_cifar10_loader cifar10_train cifar10_test part transform =
     (case (if part = ''train'' then Some True else if part = ''test'' then Some False else None) of
        None \<Rightarrow> Inl ValueError
      | Some train \<Rightarrow>
          (let to_image = (if transform then (\<lambda>img. ImageTensor (cifar_transform img)) else PILImage);
               ds = map (\<lambda>(img, y). (to_image img, y)) (if train then cifar10_train else cifar10_test)
           in DataLoader ds 32 train))"

definition collate :: "(image \<times> nat) list \<Rightarrow> (real list list \<times> nat list) result" where
  "collate batch =
     (if \<exists>(img, y)\<in>set batch. \<not> (case img of ImageTensor _ \<Rightarrow> True | PILImage _ \<Rightarrow> False)
      then Inl TypeError
      else (let xs = map (\<lambda>(img, y). case img of ImageTensor x \<Rightarrow> x | PILImage _ \<Rightarrow> []) batch
            in if \<exists>x\<in>set xs. length x \<noteq> length (hd xs) then Inl RuntimeError
               else Inr (xs, map snd batch)))"

definition first_batch :: "(nat list \<times> nat) list \<Rightarrow> (nat list \<times> nat) list \<Rightarrow> (real list list \<times> nat list) result" where
  "first_batch cifar10_train cifar10_test =
     (case get_cifar10_loader cifar10_train cifar10_test ''test'' True of
        Inl e \<Rightarrow> Inl e
      | Inr loader \<Rightarrow> (case next_iter loader of Inl e \<Rightarrow> Inl e | Inr b \<Rightarrow> collate b))"

definition example_image :: "(nat list \<times> nat) list \<Rightarrow> (nat list \<times> nat) list \<Rightarrow> (image \<times> nat) result" where
  "example_image cifar10_train cifar10_test =
     (case get_cifar10_loader cifar10_train cifar10_test ''test'' False of
        Inl e \<Rightarrow> Inl e
      | Inr l \<Rightarrow> if 10 < length (dataset l) then Inr (dataset l ! 10) else Inl IndexError)"

subsection \<open>The Lightning notebook's data module\<close>

record pl_data =
  pl_num_workers :: nat
  pl_batch_size :: nat

definition pl_Data :: "nat \<Rightarrow> nat \<Rightarrow> pl_data" where
  "pl_Data workers bsize = \<lparr>pl_num_workers = workers, pl_batch_size = bsize\<rparr>"

definition pl_transform :: "(nat list \<times> nat) list \<Rightarrow> (real list \<times> nat) list" where
  "pl_transform ds = map (\<lambda>(img, y). (cifar_transform img, y)) ds"

definition pl_train_dataloader :: "(nat list \<times> nat) list \<Rightarrow> pl_data \<Rightarrow> (real list \<times> nat) data_loader result" where
  "pl_train_dataloader cifar10_train self = DataLoader (pl_transform cifar10_train) (pl_batch_size self) True"

definition pl_test_dataloader :: "(nat list \<times> nat) list \<Rightarrow> pl_data \<Rightarrow> (real list \<times> nat) data_loader result" where
  "pl_test_dataloader cifar10_test self = DataLoader (pl_transform cifar10_test) (pl_batch_size self) False"

definition pl_check_batch :: "(nat list \<times> nat) list \<Rightarrow> (real list \<times> nat) list result" where
  "pl_check_batch cifar10_test =
     (let data_module = pl_Data 4 32
      in case pl_test_dataloader cifar10_test data_module of
           Inl e \<Rightarrow> Inl e
         | Inr l \<Rightarrow> next_iter l)"

subsection \<open>Lemmas on batching\<close>

lemma chunks_stop [loader_simps]:
  "n = 0 \<or> xs = [] \<or> d \<and> length xs < n \<Longrightarrow> chunks n d xs = []"
  by (subst chunks.simps) auto

lemma chunks_Cons [loader_simps]:
  "0 < n \<Longrightarrow> xs \<noteq> [] \<Longrightarrow> \<not> (d \<and> length xs < n) \<Longrightarrow>
   chunks n d xs = take n xs # chunks n d (drop n xs)"
  by (subst chunks.simps) auto

lemma concat_chunks [loader_simps]: "0 < n \<Longrightarrow> \<not> d \<Longrightarrow> concat (chunks n d xs) = xs"
proof (induction n d xs rule: chunks.induct)
  case (1 n d xs)
  show ?case
  proof (cases "xs = []")
    case True
    then show ?thesis by (simp add: chunks_stop)
  next
    case False
    then show ?thesis using "1.IH" "1.prems" by (simp add: chunks_Cons)
  qed
qed

lemma concat_chunks_drop [loader_simps]:
  "0 < n \<Longrightarrow> d \<Longrightarrow> concat (chunks n d xs) = take (n * (length xs div n)) xs"
proof (induction n d xs rule: chunks.induct)
  case (1 n d xs)
  show ?case
  proof (cases "length xs < n")
    case True
    then show ?thesis using "1.prems" by (simp add: chunks_stop)
  next
    case False
    then have ne: "xs \<noteq> []" using "1.prems" by auto
    have IH: "concat (chunks n d (drop n xs)) = take (n * ((length xs - n) div n)) (drop n xs)"
      using "1.IH" "1.prems" ne False by simp
    have dv: "length xs div n = Suc ((length xs - n) div n)"
      using False "1.prems" by (simp add: div_if)
    have "take n xs @ take (n * ((length xs - n) div n)) (drop n xs) = take (n * (length xs div n)) xs"
      unfolding dv by (simp add: take_add)
    then show ?thesis using "1.prems" ne False IH by (simp add: chunks_Cons)
  qed
qed

lemma chunks_length [loader_simps]:
  "0 < n \<Longrightarrow> length (chunks n d xs) = (if d then length xs div n else (length xs + n - 1) div n)"
proof (induction n d xs rule: chunks.induct)
  case (1 n d xs)
  show ?case
  proof (cases "xs = [] \<or> d \<and> length xs < n")
    case True
    then show ?thesis using "1.prems" by (auto simp: chunks_stop)
  next
    case False
    then have step: "chunks n d xs = take n xs # chunks n d (drop n xs)"
      using "1.prems" by (simp add: chunks_Cons)
    have IH: "length (chunks n d (drop n xs)) =
        (if d then (length xs - n) div n else (length xs - n + n - 1) div n)"
      using "1.IH" "1.prems" False by simp
    show ?thesis
    proof (cases "length xs < n")
      case True
      then have "\<not> d" "drop n xs = []" using False by auto
      moreover have "0 < length xs" using False by simp
      then have e: "length xs + n - 1 = n + (length xs - 1)" by arith
      have "(length xs + n - 1) div n = 1" unfolding e using True "1.prems" by (simp add: div_less)
      ultimately show ?thesis using step by (simp add: chunks_stop)
    next
      case ge: False
      have "(length xs - n + n - 1) div n = (length xs + n - 1) div n - 1"
        using ge "1.prems" by (simp add: div_if)
      moreover have "0 < (length xs + n - 1) div n" using ge "1.prems" by (simp add: div_if)
      moreover have "(length xs - n) div n = length xs div n - 1" using ge "1.prems" by (simp add: div_if)
      moreover have "0 < length xs div n" using ge "1.prems" by (simp add: div_if)
      ultimately show ?thesis using step IH by simp
    qed
  qed
qed

lemma chunks_sizes [loader_simps]:
  "0 < n \<Longrightarrow> b \<in> set (chunks n d xs) \<Longrightarrow> b \<noteq> [] \<and> length b \<le> n \<and> (d \<longrightarrow> length b = n)"
proof (induction n d xs rule: chunks.induct)
  case (1 n d xs)
  show ?case
  proof (cases "xs = [] \<or> d \<and> length xs < n")
    case True
    then show ?thesis using "1.prems" by (simp add: chunks_stop)
  next
    case False
    then have step: "chunks n d xs = take n xs # chunks n d (drop n xs)"
      using "1.prems" by (simp add: chunks_Cons)
    show ?thesis using "1.IH" "1.prems" False step by (auto simp: min_def)
  qed
qed

lemma chunks_butlast_full [loader_simps]:
  "0 < n \<Longrightarrow> i + 1 < length (chunks n d xs) \<Longrightarrow> length (chunks n d xs ! i) = n"
proof (induction n d xs arbitrary: i rule: chunks.induct)
  case (1 n d xs)
  show ?case
  proof (cases "xs = [] \<or> d \<and> length xs < n")
    case True
    then show ?thesis using "1.prems" by (simp add: chunks_stop)
  next
    case False
    then have step: "chunks n d xs = take n xs # chunks n d (drop n xs)"
      using "1.prems" by (simp add: chunks_Cons)
    show ?thesis
    proof (cases i)
      case 0
      have "drop n xs \<noteq> []" using "1.prems"(2) step 0 by (auto simp: chunks_stop)
      then show ?thesis using 0 step by simp
    next
      case (Suc j)
      then show ?thesis using "1.IH" [of j] "1.prems" False step by simp
    qed
  qed
qed

lemma chunks_subset [loader_simps]: "c \<in> set (chunks n d xs) \<Longrightarrow> set c \<subseteq> set xs"
proof (induction n d xs rule: chunks.induct)
  case (1 n d xs)
  show ?case
  proof (cases "n = 0 \<or> xs = [] \<or> d \<and> length xs < n")
    case True
    then show ?thesis using "1.prems" by (simp add: chunks_stop)
  next
    case False
    then have "c = take n xs \<or> c \<in> set (chunks n d (drop n xs))" using "1.prems" by (simp add: chunks_Cons)
    then show ?thesis using "1.IH" False by (auto dest: in_set_takeD in_set_dropD)
  qed
qed

lemma DataLoader_Inr [loader_simps]:
  "DataLoader ds bs dl = Inr l \<longleftrightarrow> 0 < bs \<and> l = \<lparr>dataset = ds, batch_size = bs, drop_last = dl\<rparr>"
  by (auto simp: DataLoader_def)

lemma cifar_transform_bounds [loader_simps]:
  "\<forall>p\<in>set img. p \<le> 255 \<Longrightarrow> \<forall>v\<in>set (cifar_transform img). -1 \<le> v \<and> v \<le> 1"
  by (auto simp: cifar_transform_def)

lemma next_iter_loader [loader_simps]:
  "0 < n \<Longrightarrow> next_iter \<lparr>dataset = ds, batch_size = n, drop_last = False\<rparr> =
     (if ds = [] then Inl StopIteration else Inr (take n ds))"
  by (simp add: next_iter_def batches_def chunks_stop chunks_Cons)

lemma collate_tensors [loader_simps]:
  "collate (map (\<lambda>(img, y). (ImageTensor (f img), y)) b) =
     (if \<exists>x\<in>set b. length (f (fst x)) \<noteq> length (f (fst (hd b))) then Inl RuntimeError
      else Inr (map (\<lambda>x. f (fst x)) b, map snd b))"
proof (cases b)
  case Nil
  then show ?thesis by (simp add: collate_def)
next
  case (Cons x b')
  then show ?thesis by (auto simp: collate_def case_prod_beta)
qed

lemma collate_PIL [loader_simps]: "(PILImage i, y) \<in> set b \<Longrightarrow> collate b = Inl TypeError"
  by (force simp: collate_def)

lemma get_cifar10_loader_cases [loader_simps]:
  "get_cifar10_loader train test part transform =
     (if part = ''train'' then
        Inr \<lparr>dataset = map (\<lambda>(img, y). ((if transform then (\<lambda>img. ImageTensor (cifar_transform img)) else PILImage) img, y)) train,
             batch_size = 32, drop_last = True\<rparr>
      else if part = ''test'' then
        Inr \<lparr>dataset = map (\<lambda>(img, y). ((if transform then (\<lambda>img. ImageTensor (cifar_transform img)) else PILImage) img, y)) test,
             batch_size = 32, drop_last = False\<rparr>
      else Inl ValueError)"
  by (simp add: get_cifar10_loader_def DataLoader_def Let_def)

subsection \<open>Properties of the loaders\<close>

text \<open>C15: the Lightning data module's test loader visits every test sample exactly once and
  in order, and its training loader (\<^verbatim>\<open>drop_last=True\<close>) visits exactly the longest prefix
  of the training set made of whole batches.\<close>

theorem pl_loaders_cover:
  assumes "0 < pl_batch_size self"
  shows "(\<exists>l. pl_test_dataloader test self = Inr l \<and> concat (batches l) = pl_transform test)
       \<and> (\<exists>l. pl_train_dataloader train self = Inr l \<and>
            concat (batches l) = take (pl_batch_size self * (length train div pl_batch_size self)) (pl_transform train))"
  using assms
  by (simp add: pl_test_dataloader_def pl_train_dataloader_def DataLoader_def batches_def
      concat_chunks concat_chunks_drop pl_transform_def)

theorem pl_loaders_cover_witness:
  "0 < pl_batch_size (pl_Data 4 32)
   \<and> (\<exists>l. pl_test_dataloader [([0], 1)] (pl_Data 4 32) = Inr l \<and> concat (batches l) = pl_transform [([0], 1)])
   \<and> (\<exists>l. pl_train_dataloader [([0], 1)] (pl_Data 4 32) = Inr l \<and> concat (batches l) = [])"
  using pl_loaders_cover [of "pl_Data 4 32" "[([0], 1)]" "[([0], 1)]"] by (simp add: pl_Data_def)

text \<open>C16: \<^verbatim>\<open>get_cifar10_loader\<close> accepts exactly the parts \<^verbatim>\<open>"train"\<close> and \<^verbatim>\<open>"test"\<close>;
  its loader has batches of 32, drops the truncated batch for training only, and so
  yields \<open>N div 32\<close> full batches of the training set or \<open>ceil(N / 32)\<close> non-empty
  batches of at most 32 test samples: iterating it ends.\<close>

theorem get_cifar10_loader_batches:
  assumes "get_cifar10_loader train test part transform = Inr l"
  shows "(part = ''train'' \<or> part = ''test'') \<and> batch_size l = 32 \<and> drop_last l = (part = ''train'')
    \<and> length (batches l) = (if part = ''train'' then length train div 32 else (length test + 31) div 32)
    \<and> (\<forall>b\<in>set (batches l). b \<noteq> [] \<and> length b \<le> 32 \<and> (part = ''train'' \<longrightarrow> length b = 32))"
proof -
  have part: "part = ''train'' \<or> part = ''test''"
    using assms by (auto simp: get_cifar10_loader_cases split: if_splits)
  have l: "batch_size l = 32" "drop_last l = (part = ''train'')"
    "length (dataset l) = (if part = ''train'' then length train else length test)"
    using assms by (auto simp: get_cifar10_loader_cases split: if_splits)
  have len: "length (batches l) = (if part = ''train'' then length train div 32 else (length test + 31) div 32)"
    using l by (simp add: batches_def chunks_length add.commute)
  have "\<forall>b\<in>set (batches l). b \<noteq> [] \<and> length b \<le> 32 \<and> (part = ''train'' \<longrightarrow> length b = 32)"
    using chunks_sizes [of 32 _ "drop_last l" "dataset l"] l by (simp add: batches_def)
  then show ?thesis using part l len by simp
qed

theorem get_cifar10_loader_batches_witness:
  "get_cifar10_loader [] [([0], 3)] ''test'' True =
     Inr \<lparr>dataset = [(ImageTensor [-1], 3)], batch_size = 32, drop_last = False\<rparr>
   \<and> length (batches \<lparr>dataset = [(ImageTensor [-1], 3 :: nat)], batch_size = 32, drop_last = False\<rparr>) = 1"
proof -
  have g: "get_cifar10_loader [] [([0], 3)] ''test'' True =
     Inr \<lparr>dataset = [(ImageTensor [-1], 3)], batch_size = 32, drop_last = False\<rparr>"
    by (simp add: get_cifar10_loader_cases cifar_transform_def)
  show ?thesis using get_cifar10_loader_batches [OF g] g by simp
qed

text \<open>\<^verbatim>\<open>get_cifar10_loader\<close> raises \<^verbatim>\<open>ValueError\<close> exactly for a part other than
  \<^verbatim>\<open>"train"\<close> and \<^verbatim>\<open>"test"\<close>, and raises nothing else.\<close>

theorem get_cifar10_loader_error:
  "get_cifar10_loader train test part transform = Inl e \<longleftrightarrow>
     e = ValueError \<and> part \<noteq> ''train'' \<and> part \<noteq> ''test''"
  by (auto simp: get_cifar10_loader_cases)

text \<open>C18: the first test batch the notebook prints (\<^verbatim>\<open>x, y = next(iter(loader))\<close>) holds
  the first \<open>min 32 N\<close> test samples, and for 8-bit images every input value lies in
  \<open>[-1, 1]\<close>, the range the cell prints.\<close>

theorem first_batch_range:
  assumes "\<forall>s\<in>set test. \<forall>p\<in>set (fst s). p \<le> 255"
    and "first_batch train test = Inr (xs, ys)"
  shows "length xs = min 32 (length test) \<and> ys = map snd (take 32 test)
         \<and> (\<forall>x\<in>set xs. \<forall>v\<in>set x. -1 \<le> v \<and> v \<le> 1)"
proof -
  let ?ds = "map (\<lambda>(img, y). (ImageTensor (cifar_transform img), y)) test"
  have ne: "test \<noteq> []" using assms(2) by (auto simp: first_batch_def get_cifar10_loader_cases next_iter_loader)
  have "first_batch train test = collate (take 32 ?ds)"
    using ne by (simp add: first_batch_def get_cifar10_loader_cases next_iter_loader)
  also have "take 32 ?ds = map (\<lambda>(img, y). (ImageTensor (cifar_transform img), y)) (take 32 test)"
    by (simp add: take_map)
  finally have c: "collate (map (\<lambda>(img, y). (ImageTensor (cifar_transform img), y)) (take 32 test)) = Inr (xs, ys)"
    using assms(2) by simp
  then have xs: "xs = map (\<lambda>x. cifar_transform (fst x)) (take 32 test)" and ys: "ys = map snd (take 32 test)"
    by (auto simp: collate_tensors split: if_splits)
  have b: "\<And>s. s \<in> set (take 32 test) \<Longrightarrow> \<forall>v\<in>set (cifar_transform (fst s)). -1 \<le> v \<and> v \<le> 1"
    using assms(1) by (intro cifar_transform_bounds) (auto dest: in_set_takeD)
  have "\<forall>x\<in>set xs. \<forall>v\<in>set x. -1 \<le> v \<and> v \<le> 1"
    using b by (auto simp: xs)
  then show ?thesis using xs ys by simp
qed

theorem first_batch_range_witness:
  "first_batch [] [([0, 255], 3)] = Inr ([[-1, 1]], [3])
   \<and> length [[-1, 1 :: real]] = min 32 (length [([0 :: nat, 255], 3 :: nat)])"
proof -
  have f: "first_batch [] [([0, 255], 3)] = Inr ([[-1, 1]], [3])"
    by (simp add: first_batch_def get_cifar10_loader_cases next_iter_loader collate_def cifar_transform_def)
  have "\<forall>s\<in>set [([0 :: nat, 255], 3 :: nat)]. \<forall>p\<in>set (fst s). p \<le> 255" by simp
  then show ?thesis using first_batch_range [OF _ f] f by simp
qed

end
