(* ===== verification/Architecture.thy ===== *)
theory Architecture
  imports Torch
begin

text \<open>
  The network definitions of the training notebooks, at the level the notebooks reason
  about them in their comments: tensor shapes and parameter counts. A layer is a
  \<open>layer\<close> with the constructor arguments of its \<^verbatim>\<open>torch.nn\<close> class; \<open>layer_shape\<close> is
  the shape a layer's \<^verbatim>\<open>forward\<close> produces from an input shape, or the exception it raises
  (\<^verbatim>\<open>RuntimeError\<close> on a channel or feature mismatch or a kernel larger than the input,
  \<^verbatim>\<open>ValueError\<close> for a batch-norm input of the wrong rank, \<^verbatim>\<open>IndexError\<close> for a flatten
  below rank 2); \<open>seq_shape\<close> is \<^verbatim>\<open>nn.Sequential\<close>; \<open>layer_params\<close> counts the entries
  of the layer's weights and biases.
  \<^item> \<open>SimpleCNN\<close> and \<open>cnn_forward\<close>: class \<^verbatim>\<open>SimpleCNN\<close> of the PyTorch notebook
    (third notebook of \<^verbatim>\<open>src/05-foundation/02-clip.ipynb\<close>), its four blocks and its
    \<^verbatim>\<open>forward\<close>; \<open>cifar_optimizer\<close> is the Adam optimizer of the training cell;
    \<open>pl_Module\<close>, \<open>pl_forward\<close> and \<open>pl_configure_optimizers\<close> are the Lightning notebook's
    \<^verbatim>\<open>Module\<close>: its network, its \<^verbatim>\<open>forward\<close> and its optimizer.
  \<^item> \<open>head_classifier\<close>, \<open>es_classifier\<close>: the classifier heads of \<^verbatim>\<open>finetune_head\<close> and
    \<^verbatim>\<open>early_stopping\<close>/\<^verbatim>\<open>finetune_lora\<close> in \<^verbatim>\<open>src/05-foundation/01-finetuning.ipynb\<close>.
\<close>

named_theorems shape_simps "shape inference of the layers"

datatype layer =
    Conv2d nat nat nat nat bool
  | BatchNorm2d nat
  | BatchNorm1d nat
  | ReLU
  | AdaptiveAvgPool2d nat nat
  | Flatten
  | Linear nat nat bool

text \<open>\<open>Conv2d in out k stride bias\<close> and \<open>Linear in out bias\<close> take the arguments of
  \<^verbatim>\<open>nn.Conv2d(in, out, k, stride=stride, bias=bias)\<close> and \<^verbatim>\<open>nn.Linear(in, out, bias=bias)\<close>;
  a convolution without padding maps a side \<open>h \<ge> k\<close> to \<open>(h - k) div stride + 1\<close>. A
  convolution or pooling accepts an unbatched \<open>(C, H, W)\<close> or a batched \<open>(B, C, H, W)\<close>
  input; \<^verbatim>\<open>BatchNorm2d\<close> only a batched one.\<close>

definition conv_out :: "nat \<Rightarrow> nat \<Rightarrow> nat \<Rightarrow> nat" where
  "conv_out k stride h = (h - k) div stride + 1"

fun layer_shape :: "layer \<Rightarrow> nat list \<Rightarrow> nat list result" where
  "layer_shape (Conv2d ci co k stride b) sh =
     (if length sh \<noteq> 3 \<and> length sh \<noteq> 4 then Inl RuntimeError
      else (let pre = take (length sh - 3) sh; c = sh ! (length sh - 3);
                h = sh ! (length sh - 2); w = sh ! (length sh - 1)
            in if c \<noteq> ci \<or> h < k \<or> w < k \<or> stride = 0 then Inl RuntimeError
               else Inr (pre @ [co, conv_out k stride h, conv_out k stride w])))"
| "layer_shape (BatchNorm2d c) sh =
     (if length sh \<noteq> 4 then Inl ValueError else if sh ! 1 \<noteq> c then Inl RuntimeError else Inr sh)"
| "layer_shape (BatchNorm1d c) sh =
     (if length sh \<noteq> 2 \<and> length sh \<noteq> 3 then Inl ValueError
      else if sh ! 1 \<noteq> c then Inl RuntimeError else Inr sh)"
| "layer_shape ReLU sh = Inr sh"
| "layer_shape (AdaptiveAvgPool2d oh ow) sh =
     (if length sh \<noteq> 3 \<and> length sh \<noteq> 4 then Inl RuntimeError
      else Inr (take (length sh - 2) sh @ [oh, ow]))"
| "layer_shape Flatten sh =
     (if length sh < 2 then Inl IndexError else Inr [hd sh, prod_list (tl sh)])"
| "layer_shape (Linear ni no b) sh =
     (if sh = [] \<or> last sh \<noteq> ni then Inl RuntimeError else Inr (butlast sh @ [no]))"

fun seq_shape :: "layer list \<Rightarrow> nat list \<Rightarrow> nat list result" where
  "seq_shape [] sh = Inr sh"
| "seq_shape (l # ls) sh = (case layer_shape l sh of Inl e \<Rightarrow> Inl e | Inr sh' \<Rightarrow> seq_shape ls sh')"

fun layer_params :: "layer \<Rightarrow> nat" where
  "layer_params (Conv2d ci co k stride b) = co * ci * k * k + (if b then co else 0)"
| "layer_params (BatchNorm2d c) = 2 * c"
| "layer_params (BatchNorm1d c) = 2 * c"
| "layer_params ReLU = 0"
| "layer_params (AdaptiveAvgPool2d oh ow) = 0"
| "layer_params Flatten = 0"
| "layer_params (Linear ni no b) = ni * no + (if b then no else 0)"

definition seq_params :: "layer list \<Rightarrow> nat" where
  "seq_params ls = sum_list (map layer_params ls)"

subsection \<open>The convolutional network of the PyTorch and Lightning notebooks\<close>

record cnn =
  layer1 :: "layer list"
  layer2 :: "layer list"
  layer3 :: "layer list"
  head :: "layer list"

definition SimpleCNN :: cnn where
  "SimpleCNN =
     \<lparr>layer1 = [Conv2d 3 16 3 1 False, BatchNorm2d 16, ReLU],
      layer2 = [Conv2d 16 32 3 2 False, BatchNorm2d 32, ReLU],
      layer3 = [Conv2d 32 64 3 2 False, BatchNorm2d 64, ReLU],
      head = [AdaptiveAvgPool2d 1 1, Flatten, Linear 64 10 True]\<rparr>"

definition cnn_forward :: "cnn \<Rightarrow> nat list \<Rightarrow> nat list result" where
  "cnn_forward self x =
     (case seq_shape (layer1 self) x of Inl e \<Rightarrow> Inl e | Inr x \<Rightarrow>
      case seq_shape (layer2 self) x of Inl e \<Rightarrow> Inl e | Inr x \<Rightarrow>
      case seq_shape (layer3 self) x of Inl e \<Rightarrow> Inl e | Inr x \<Rightarrow>
      seq_shape (head self) x)"

definition cnn_params :: "cnn \<Rightarrow> nat" where
  "cnn_params self = seq_params (layer1 self) + seq_params (layer2 self) + seq_params (layer3 self)
                     + seq_params (head self)"

definition pl_Module :: cnn where
  "pl_Module =
     \<lparr>layer1 = [Conv2d 3 16 3 1 False, BatchNorm2d 16, ReLU],
      layer2 = [Conv2d 16 32 3 2 False, BatchNorm2d 32, ReLU],
      layer3 = [Conv2d 32 64 3 2 False, BatchNorm2d 64, ReLU],
      head = [AdaptiveAvgPool2d 1 1, Flatten, Linear 64 10 True]\<rparr>"

text \<open>\<^verbatim>\<open>model.parameters()\<close> lists the layers of the four blocks in order; the PyTorch
  notebook hands them to \<^verbatim>\<open>torch.optim.Adam(model.parameters(), lr=0.001)\<close>, the Lightning
  \<^verbatim>\<open>Module\<close> returns the same optimizer from \<^verbatim>\<open>configure_optimizers\<close>, and its
  \<^verbatim>\<open>forward\<close> repeats SimpleCNN's.\<close>

definition cnn_parameters :: "cnn \<Rightarrow> layer list" where
  "cnn_parameters self = layer1 self @ layer2 self @ layer3 self @ head self"

definition cifar_optimizer :: "cnn \<Rightarrow> layer list \<times> real" where
  "cifar_optimizer model = (cnn_parameters model, 0.001)"

definition pl_forward :: "cnn \<Rightarrow> nat list \<Rightarrow> nat list result" where
  "pl_forward self x =
     (case seq_shape (layer1 self) x of Inl e \<Rightarrow> Inl e | Inr x \<Rightarrow>
      case seq_shape (layer2 self) x of Inl e \<Rightarrow> Inl e | Inr x \<Rightarrow>
      case seq_shape (layer3 self) x of Inl e \<Rightarrow> Inl e | Inr x \<Rightarrow>
      seq_shape (head self) x)"

definition pl_configure_optimizers :: "cnn \<Rightarrow> layer list \<times> real" where
  "pl_configure_optimizers self = (cnn_parameters self, 0.001)"

subsection \<open>The classifier heads of the fine-tuning notebook\<close>

definition head_classifier :: "layer list" where
  "head_classifier = [Linear 768 256 False, BatchNorm1d 256, ReLU, Linear 256 100 True]"

definition es_classifier :: "layer list" where
  "es_classifier = [Linear 768 100 True]"

subsection \<open>Lemmas on shapes\<close>

lemma seq_shape_append [shape_simps]:
  "seq_shape (ls @ ms) sh = (case seq_shape ls sh of Inl e \<Rightarrow> Inl e | Inr sh' \<Rightarrow> seq_shape ms sh')"
  by (induction ls arbitrary: sh) (auto split: sum.split)

lemma conv_block_batched [shape_simps]:
  "seq_shape [Conv2d ci co k s False, BatchNorm2d co, ReLU] [n, c, h, w] =
     (if c \<noteq> ci \<or> h < k \<or> w < k \<or> s = 0 then Inl RuntimeError
      else Inr [n, co, conv_out k s h, conv_out k s w])"
  by (simp add: Let_def)

lemma conv_block_unbatched [shape_simps]:
  "seq_shape [Conv2d ci co k s False, BatchNorm2d co, ReLU] [c, h, w] =
     (if c \<noteq> ci \<or> h < k \<or> w < k \<or> s = 0 then Inl RuntimeError else Inl ValueError)"
  by (simp add: Let_def)

lemma conv_block_other [shape_simps]:
  "length sh \<noteq> 3 \<Longrightarrow> length sh \<noteq> 4 \<Longrightarrow>
   seq_shape [Conv2d ci co k s False, BatchNorm2d co, ReLU] sh = Inl RuntimeError"
  by simp

lemma cnn_head_shape [shape_simps]:
  "seq_shape [AdaptiveAvgPool2d 1 1, Flatten, Linear 64 10 True] [n, c, h, w] =
     (if c = 64 then Inr [n, 10] else Inl RuntimeError)"
  by simp

lemma conv_out_chain [shape_simps]:
  "(3 \<le> h \<and> 3 \<le> h - 2 \<and> 3 \<le> (h - 2 - 3) div 2 + 1) \<longleftrightarrow> 9 \<le> (h :: nat)"
  by presburger

lemma SimpleCNN_batched [shape_simps]:
  "cnn_forward SimpleCNN [n, c, h, w] =
     (if c = 3 \<and> 9 \<le> h \<and> 9 \<le> w then Inr [n, 10] else Inl RuntimeError)"
proof -
  have "cnn_forward SimpleCNN [n, c, h, w] =
     (if c \<noteq> 3 \<or> h < 3 \<or> w < 3 then Inl RuntimeError
      else if h - 2 < 3 \<or> w - 2 < 3 then Inl RuntimeError
      else if (h - 2 - 3) div 2 + 1 < 3 \<or> (w - 2 - 3) div 2 + 1 < 3 then Inl RuntimeError
      else Inr [n, 10])"
    by (simp add: cnn_forward_def SimpleCNN_def conv_out_def Let_def)
  also have "\<dots> = (if c = 3 \<and> 9 \<le> h \<and> 9 \<le> w then Inr [n, 10] else Inl RuntimeError)"
    using conv_out_chain [of h] conv_out_chain [of w] by (auto simp: not_less)
  finally show ?thesis .
qed

lemma length_3_conv [shape_simps]: "length sh = 3 \<longleftrightarrow> (\<exists>c h w. sh = [c, h, w])"
  by (auto simp: numeral_3_eq_3 length_Suc_conv)

lemma length_4_conv [shape_simps]: "length sh = 4 \<longleftrightarrow> (\<exists>n c h w. sh = [n, c, h, w])"
  by (auto simp: eval_nat_numeral length_Suc_conv)

lemma SimpleCNN_layer1 [shape_simps]: "layer1 SimpleCNN = [Conv2d 3 16 3 1 False, BatchNorm2d 16, ReLU]"
  by (simp add: SimpleCNN_def)

lemma SimpleCNN_not_batched [shape_simps]:
  assumes "length sh \<noteq> 4"
  shows "\<exists>e. cnn_forward SimpleCNN sh = Inl e"
proof -
  have "\<exists>e. seq_shape (layer1 SimpleCNN) sh = Inl e"
  proof (cases "length sh = 3")
    case True
    then obtain c h w where "sh = [c, h, w]" by (auto simp: length_3_conv)
    then show ?thesis unfolding SimpleCNN_layer1 by (simp only: conv_block_unbatched) auto
  next
    case False
    then show ?thesis unfolding SimpleCNN_layer1 using conv_block_other [OF False assms] by blast
  qed
  then obtain e where "seq_shape (layer1 SimpleCNN) sh = Inl e" by blast
  then show ?thesis unfolding cnn_forward_def by (simp only: sum.case) blast
qed

subsection \<open>Properties of the networks\<close>

text \<open>In evaluation mode (\<open>cnn_forward\<close>) \<^verbatim>\<open>SimpleCNN.forward\<close> is defined on exactly the
  batched three-channel images of height and width at least 9, and then outputs one row of
  10 class logits per image; on every other input shape it raises.\<close>

lemma SimpleCNN_forward_type:
  "cnn_forward SimpleCNN sh = Inr out \<longleftrightarrow> (\<exists>n h w. sh = [n, 3, h, w] \<and> 9 \<le> h \<and> 9 \<le> w \<and> out = [n, 10])"
proof (cases "length sh = 4")
  case True
  then obtain n c h w where sh: "sh = [n, c, h, w]" by (auto simp: length_4_conv)
  then show ?thesis by (auto simp: SimpleCNN_batched)
next
  case False
  then obtain e where "cnn_forward SimpleCNN sh = Inl e" using SimpleCNN_not_batched by blast
  then show ?thesis using False by auto
qed

end
