(* ===== verification/Training.thy ===== *)
theory Training
  imports Loader Architecture
begin

text \<open>
  The training and evaluation loops. A model is its state \<open>'p\<close> (weights, batch-norm
  statistics and optimizer moments) with a forward function \<open>'p forward\<close>: in training
  (\<open>True\<close>, after \<^verbatim>\<open>model.train()\<close>) or evaluation mode it maps the state and a batch of
  images to one row of logits per image and the state after the pass (batch norm
  updates its running statistics in training mode). \<^verbatim>\<open>optimizer.zero_grad();
  loss.backward(); optimizer.step()\<close> is one \<open>'p optimizer_step\<close> on the state and the
  batch; the gradient computation is the library's and is a parameter.
  \<^item> \<open>train_loop\<close>/\<open>train_epoch\<close>, \<open>test_loop\<close>/\<open>test_epoch\<close>, \<open>epochs_loop\<close>/\<open>train_cifar10\<close>:
    the functions of the PyTorch notebook (third notebook of
    \<^verbatim>\<open>src/05-foundation/02-clip.ipynb\<close>); the accumulators \<^verbatim>\<open>n\<close>, \<^verbatim>\<open>n_correct\<close> and the
    loop variable \<^verbatim>\<open>loss\<close> are the fields of \<open>epoch_state\<close>; the prints are
    \<open>train_event\<close>s. A batch is collated lazily when the loop reaches it, so a collation
    error is raised at that batch.
  \<^item> \<open>pl_training_step\<close>, \<open>pl_test_step\<close>, \<open>pl_test_loop\<close>: the Lightning notebook's
    \<^verbatim>\<open>Module\<close> steps; \<^verbatim>\<open>self.log\<close> appends a \<open>log_entry\<close> with the batch size Lightning
    infers from the batch (\<^verbatim>\<open>x.size(0)\<close>), and \<open>epoch_mean\<close> is Lightning's
    \<^verbatim>\<open>on_epoch=True\<close> mean reduction, weighted by that batch size.
  \<^item> \<open>ft_common_step\<close>, \<open>ft_training_step\<close>, \<open>ft_validation_step\<close>: the fine-tuning
    notebook's \<^verbatim>\<open>Module\<close>.
\<close>

named_theorems loop_simps "evaluation of the training loops"

datatype train_event = Epoch nat | TrainAccuracy real | TestAccuracy real

type_synonym batch = "real list list \<times> nat list"
type_synonym 'p forward = "bool \<Rightarrow> 'p \<Rightarrow> real list list \<Rightarrow> real list list \<times> 'p"
type_synonym 'p optimizer_step = "'p \<Rightarrow> batch \<Rightarrow> 'p"

text \<open>\<^verbatim>\<open>torch.nn.functional.cross_entropy(logits, y)\<close>: the mean over the batch of
  \<open>- log (softmax row)[label]\<close>; a batch-size mismatch raises \<^verbatim>\<open>ValueError\<close>, a label
  outside the row \<^verbatim>\<open>IndexError\<close>, and the mean of an empty batch is NaN (\<open>None\<close>).\<close>

definition cross_entropy :: "real list list \<Rightarrow> nat list \<Rightarrow> fval result" where
  "cross_entropy logits y =
     (if length logits \<noteq> length y then Inl ValueError
      else if \<exists>i<length y. length (logits ! i) \<le> y ! i then Inl IndexError
      else if y = [] then Inr None
      else Inr (Some (sum_list (map (\<lambda>(l, k). - ln (softmax l ! k)) (zip logits y)) / real (length y))))"

record 'p epoch_state =
  ep_model :: 'p
  ep_n :: nat
  ep_n_correct :: nat
  ep_loss :: "fval option"

definition epoch_start :: "'p \<Rightarrow> 'p epoch_state" where
  "epoch_start m = \<lparr>ep_model = m, ep_n = 0, ep_n_correct = 0, ep_loss = None\<rparr>"

fun train_loop :: "'p forward \<Rightarrow> 'p optimizer_step \<Rightarrow> batch result list \<Rightarrow> 'p epoch_state \<Rightarrow> 'p epoch_state result" where
  "train_loop model step [] st = Inr st"
| "train_loop model step (Inl e # bs) st = Inl e"
| "train_loop model step (Inr (x, y) # bs) st =
     (case model True (ep_model st) x of (logits, m) \<Rightarrow>
      case cross_entropy logits y of Inl e \<Rightarrow> Inl e | Inr loss \<Rightarrow>
      case argmax_rows logits of Inl e \<Rightarrow> Inl e | Inr predictions \<Rightarrow>
      case eq_count predictions y of Inl e \<Rightarrow> Inl e | Inr c \<Rightarrow>
      train_loop model step bs
        \<lparr>ep_model = step m (x, y), ep_n = ep_n st + length y, ep_n_correct = ep_n_correct st + c,
         ep_loss = Some loss\<rparr>)"

definition train_epoch :: "'p forward \<Rightarrow> 'p optimizer_step \<Rightarrow> 'p \<Rightarrow> batch result list \<Rightarrow> ('p \<times> fval \<times> real) result" where
  "train_epoch model step m loader =
     (case train_loop model step loader (epoch_start m) of
        Inl e \<Rightarrow> Inl e
      | Inr st \<Rightarrow>
          (case py_div (ep_n_correct st) (ep_n st) of
             Inl e \<Rightarrow> Inl e
           | Inr accuracy \<Rightarrow>
               (case ep_loss st of
                  None \<Rightarrow> Inl UnboundLocalError
                | Some loss \<Rightarrow> Inr (ep_model st, loss, accuracy))))"

fun test_loop :: "'p forward \<Rightarrow> batch result list \<Rightarrow> 'p epoch_state \<Rightarrow> 'p epoch_state result" where
  "test_loop model [] st = Inr st"
| "test_loop model (Inl e # bs) st = Inl e"
| "test_loop model (Inr (x, y) # bs) st =
     (case model False (ep_model st) x of (logits, m) \<Rightarrow>
      case argmax_rows logits of Inl e \<Rightarrow> Inl e | Inr predictions \<Rightarrow>
      case eq_count predictions y of Inl e \<Rightarrow> Inl e | Inr c \<Rightarrow>
      test_loop model bs (st\<lparr>ep_model := m, ep_n := ep_n st + length y, ep_n_correct := ep_n_correct st + c\<rparr>))"

definition test_epoch :: "'p forward \<Rightarrow> 'p \<Rightarrow> batch result list \<Rightarrow> ('p \<times> real) result" where
  "test_epoch model m loader =
     (case test_loop model loader (epoch_start m) of
        Inl e \<Rightarrow> Inl e
      | Inr st \<Rightarrow> (case py_div (ep_n_correct st) (ep_n st) of
                    Inl e \<Rightarrow> Inl e
                  | Inr accuracy \<Rightarrow> Inr (ep_model st, accuracy)))"

type_synonym 'p history = "'p \<times> fval list \<times> real list \<times> real list"

fun epochs_loop ::
  "'p forward \<Rightarrow> 'p optimizer_step \<Rightarrow> batch result list \<Rightarrow> batch result list \<Rightarrow> nat \<Rightarrow> nat \<Rightarrow>
   'p history \<Rightarrow> train_event list \<times> 'p history result" where
  "epochs_loop model step trl tel 0 epoch h = ([], Inr h)"
| "epochs_loop model step trl tel (Suc k) epoch (m, losses, train_accuracies, test_accuracies) =
     (case train_epoch model step m trl of
        Inl e \<Rightarrow> ([Epoch epoch], Inl e)
      | Inr (m1, final_loss, final_accuracy) \<Rightarrow>
          (case test_epoch model m1 tel of
             Inl e \<Rightarrow> ([Epoch epoch, TrainAccuracy final_accuracy], Inl e)
           | Inr (m2, test_accuracy) \<Rightarrow>
               (case epochs_loop model step trl tel k (Suc epoch)
                       (m2, losses @ [final_loss], train_accuracies @ [final_accuracy],
                        test_accuracies @ [test_accuracy]) of
                  (evs, r) \<Rightarrow> (Epoch epoch # TrainAccuracy final_accuracy # TestAccuracy test_accuracy # evs, r))))"

definition loader_iter :: "(image \<times> nat) data_loader \<Rightarrow> batch result list" where
  "loader_iter l = map collate (batches l)"

definition train_cifar10 ::
  "'p forward \<Rightarrow> 'p optimizer_step \<Rightarrow> 'p \<Rightarrow> nat \<Rightarrow> (nat list \<times> nat) list \<Rightarrow> (nat list \<times> nat) list \<Rightarrow>
   train_event list \<times> 'p history result" where
  "train_cifar10 model step m num_epochs cifar10_train cifar10_test =
     (case get_cifar10_loader cifar10_train cifar10_test ''train'' True of
        Inl e \<Rightarrow> ([], Inl e)
      | Inr train_loader \<Rightarrow>
          (case get_cifar10_loader cifar10_train cifar10_test ''test'' True of
             Inl e \<Rightarrow> ([], Inl e)
           | Inr test_loader \<Rightarrow>
               epochs_loop model step (loader_iter train_loader) (loader_iter test_loader) num_epochs 0
                 (m, [], [], [])))"

subsection \<open>The Lightning notebook's steps\<close>

datatype log_entry = LogEntry (log_key: string) (log_value: fval) (log_batch: nat)

definition pl_training_step :: "'p forward \<Rightarrow> 'p \<Rightarrow> batch \<Rightarrow> ('p \<times> log_entry list \<times> fval) result" where
  "pl_training_step model m batch =
     (case batch of (x, y) \<Rightarrow>
      case model True m x of (logits, m') \<Rightarrow>
      case cross_entropy logits y of Inl e \<Rightarrow> Inl e | Inr loss \<Rightarrow>
      case batch_accuracy logits y of Inl e \<Rightarrow> Inl e | Inr (correct, accuracy) \<Rightarrow>
      Inr (m', [LogEntry ''train/loss'' loss (length x), LogEntry ''train/accuracy'' (Some accuracy) (length x)], loss))"

definition pl_test_step :: "'p forward \<Rightarrow> 'p \<Rightarrow> batch \<Rightarrow> ('p \<times> log_entry list) result" where
  "pl_test_step model m batch =
     (case batch of (x, y) \<Rightarrow>
      case model False m x of (logits, m') \<Rightarrow>
      case batch_accuracy logits y of Inl e \<Rightarrow> Inl e | Inr (correct, accuracy) \<Rightarrow>
      Inr (m', [LogEntry ''test/accuracy'' (Some accuracy) (length x)]))"

fun pl_test_loop :: "'p forward \<Rightarrow> batch result list \<Rightarrow> 'p \<Rightarrow> ('p \<times> log_entry list) result" where
  "pl_test_loop model [] m = Inr (m, [])"
| "pl_test_loop model (Inl e # bs) m = Inl e"
| "pl_test_loop model (Inr b # bs) m =
     (case pl_test_step model m b of
        Inl e \<Rightarrow> Inl e
      | Inr (m', logs) \<Rightarrow>
          (case pl_test_loop model bs m' of Inl e \<Rightarrow> Inl e | Inr (m'', rest) \<Rightarrow> Inr (m'', logs @ rest)))"

definition epoch_mean :: "string \<Rightarrow> log_entry list \<Rightarrow> fval" where
  "epoch_mean key logs =
     (let es = filter (\<lambda>e. log_key e = key) logs
      in if None \<in> set (map log_value es) \<or> sum_list (map log_batch es) = 0 then None
         else Some (sum_list (map (\<lambda>e. the (log_value e) * real (log_batch e)) es)
                    / real (sum_list (map log_batch es))))"

definition unweighted_mean :: "string \<Rightarrow> log_entry list \<Rightarrow> fval" where
  "unweighted_mean key logs =
     (let es = filter (\<lambda>e. log_key e = key) logs
      in if None \<in> set (map log_value es) \<or> es = [] then None
         else Some (sum_list (map (\<lambda>e. the (log_value e)) es) / real (length es)))"

subsection \<open>The fine-tuning notebook's module\<close>

definition ft_common_step :: "'p forward \<Rightarrow> bool \<Rightarrow> 'p \<Rightarrow> batch \<Rightarrow> ('p \<times> fval \<times> real) result" where
  "ft_common_step model training m batch =
     (case batch of (images, labels) \<Rightarrow>
      case model training m images of (logits, m') \<Rightarrow>
      case cross_entropy logits labels of Inl e \<Rightarrow> Inl e | Inr loss \<Rightarrow>
      case batch_accuracy logits labels of Inl e \<Rightarrow> Inl e | Inr (correct, accuracy) \<Rightarrow>
      Inr (m', loss, accuracy))"

definition ft_training_step :: "'p forward \<Rightarrow> 'p \<Rightarrow> batch \<Rightarrow> ('p \<times> log_entry list \<times> fval) result" where
  "ft_training_step model m batch =
     (case ft_common_step model True m batch of
        Inl e \<Rightarrow> Inl e
      | Inr (m', loss, accuracy) \<Rightarrow>
          Inr (m', [LogEntry ''train/loss'' loss (length (fst batch)),
                    LogEntry ''train/accuracy'' (Some accuracy) (length (fst batch))], loss))"

definition ft_validation_step :: "'p forward \<Rightarrow> 'p \<Rightarrow> batch \<Rightarrow> ('p \<times> log_entry list) result" where
  "ft_validation_step model m batch =
     (case ft_common_step model False m batch of
        Inl e \<Rightarrow> Inl e
      | Inr (m', loss, accuracy) \<Rightarrow>
          Inr (m', [LogEntry ''val/loss'' loss (length (fst batch)),
                    LogEntry ''val/accuracy'' (Some accuracy) (length (fst batch))]))"

subsection \<open>The accuracy the loops compute\<close>

text \<open>The abstract accuracy: the number of samples whose predicted class, the first
  maximal logit of a row-wise classifier \<open>g\<close>, is their label.\<close>

definition correct_count :: "(real list \<Rightarrow> real list) \<Rightarrow> (real list \<times> nat) list \<Rightarrow> nat" where
  "correct_count g samples = length (filter (\<lambda>(x, y). first_index (list_max (g x)) (g x) = y) samples)"

definition collated :: "(real list \<times> nat) list \<Rightarrow> batch result" where
  "collated b = Inr (map fst b, map snd b)"

lemma correct_count_Cons [loop_simps]:
  "correct_count g ((x, y) # b) = (if first_index (list_max (g x)) (g x) = y then 1 else 0) + correct_count g b"
  by (simp add: correct_count_def)

lemma correct_count_append [loop_simps]: "correct_count g (b @ c) = correct_count g b + correct_count g c"
  by (simp add: correct_count_def)

lemma correct_count_le [loop_simps]: "correct_count g b \<le> length b"
  by (simp add: correct_count_def)

lemma count_predictions [loop_simps]:
  "length (filter id (map2 (=) (map (\<lambda>r. first_index (list_max r) r) (map g (map fst b))) (map snd b)))
   = correct_count g b"
  by (induction b) (auto simp: correct_count_def)

lemma batch_accuracy_rowwise [loop_simps]:
  assumes "\<forall>r. g r \<noteq> []"
  shows "argmax_rows (map g (map fst b)) = Inr (map (\<lambda>r. first_index (list_max r) r) (map g (map fst b)))
     \<and> eq_count (map (\<lambda>r. first_index (list_max r) r) (map g (map fst b))) (map snd b) = Inr (correct_count g b)"
proof -
  have "[] \<notin> set (map g (map fst b))" using assms by (metis imageE set_map)
  then show ?thesis using eq_count_same_length count_predictions by (simp add: argmax_rows_def)
qed

lemma test_loop_rowwise [loop_simps]:
  assumes "\<forall>x. model False m x = (map g x, m)" and "\<forall>r. g r \<noteq> []" and "ep_model st = m"
  shows "test_loop model (map collated bss) st =
     Inr (st\<lparr>ep_n := ep_n st + length (concat bss), ep_n_correct := ep_n_correct st + correct_count g (concat bss)\<rparr>)"
  using assms(3)
proof (induction bss arbitrary: st)
  case Nil
  then show ?case by (simp add: correct_count_def)
next
  case (Cons b bss)
  have acc: "argmax_rows (map g (map fst b)) = Inr (map (\<lambda>r. first_index (list_max r) r) (map g (map fst b)))
     \<and> eq_count (map (\<lambda>r. first_index (list_max r) r) (map g (map fst b))) (map snd b) = Inr (correct_count g b)"
    using batch_accuracy_rowwise [OF assms(2)] .
  let ?st = "st\<lparr>ep_model := m, ep_n := ep_n st + length b, ep_n_correct := ep_n_correct st + correct_count g b\<rparr>"
  have "test_loop model (map collated (b # bss)) st = test_loop model (map collated bss) ?st"
    using Cons.prems assms(1) acc by (simp add: collated_def)
  also have "\<dots> = Inr (?st\<lparr>ep_n := ep_n ?st + length (concat bss),
                        ep_n_correct := ep_n_correct ?st + correct_count g (concat bss)\<rparr>)"
    using Cons.IH [of ?st] by simp
  finally show ?case using Cons.prems by (simp add: correct_count_append)
qed

lemma chunks_map [loop_simps]: "chunks n d (map f xs) = map (map f) (chunks n d xs)"
proof (induction n d xs rule: chunks.induct)
  case (1 n d xs)
  show ?case
  proof (cases "n = 0 \<or> xs = [] \<or> d \<and> length xs < n")
    case True
    then show ?thesis by (auto simp: chunks_stop)
  next
    case False
    then show ?thesis using "1.IH" by (simp add: chunks_Cons take_map drop_map)
  qed
qed

lemma collate_same_length [loader_simps]:
  assumes "\<forall>s\<in>set b. length (fst s) = d"
  shows "collate (map (\<lambda>(img, y). (ImageTensor (cifar_transform img), y)) b) = collated (pl_transform b)"
proof -
  have "\<forall>x\<in>set b. length (cifar_transform (fst x)) = length (cifar_transform (fst (hd b)))"
    using assms by (cases b) (auto simp: cifar_transform_def)
  then show ?thesis
    by (simp add: collate_tensors collated_def pl_transform_def case_prod_beta comp_def)
qed

lemma loader_iter_transformed [loop_simps]:
  assumes "\<forall>s\<in>set ds. length (fst s) = d"
  shows "loader_iter \<lparr>dataset = map (\<lambda>(img, y). (ImageTensor (cifar_transform img), y)) ds,
                      batch_size = 32, drop_last = dl\<rparr> = map collated (chunks 32 dl (pl_transform ds))"
proof -
  have c: "\<forall>s\<in>set c. length (fst s) = d" if "c \<in> set (chunks 32 dl ds)" for c
    using chunks_subset [OF that] assms by blast
  have "loader_iter \<lparr>dataset = map (\<lambda>(img, y). (ImageTensor (cifar_transform img), y)) ds,
                      batch_size = 32, drop_last = dl\<rparr>
      = map (\<lambda>c. collate (map (\<lambda>(img, y). (ImageTensor (cifar_transform img), y)) c)) (chunks 32 dl ds)"
    by (simp add: loader_iter_def batches_def chunks_map comp_def)
  also have "\<dots> = map (\<lambda>c. collated (pl_transform c)) (chunks 32 dl ds)"
  proof (rule map_cong [OF refl])
    fix c assume "c \<in> set (chunks 32 dl ds)"
    then show "collate (map (\<lambda>(img, y). (ImageTensor (cifar_transform img), y)) c) = collated (pl_transform c)"
      using c collate_same_length by blast
  qed
  also have "\<dots> = map collated (chunks 32 dl (pl_transform ds))"
    by (simp add: pl_transform_def chunks_map)
  finally show ?thesis .
qed

lemma loader_iter_cifar10 [loop_simps]:
  assumes "\<forall>s\<in>set tr \<union> set te. length (fst s) = d"
  shows "get_cifar10_loader tr te ''train'' True = Inr l \<Longrightarrow> loader_iter l = map collated (chunks 32 True (pl_transform tr))"
    and "get_cifar10_loader tr te ''test'' True = Inr l \<Longrightarrow> loader_iter l = map collated (chunks 32 False (pl_transform te))"
  using loader_iter_transformed [of tr d True] loader_iter_transformed [of te d False] assms
  by (auto simp: get_cifar10_loader_cases)

lemma batch_ok [loop_simps]:
  assumes "length logits = length y" and "\<forall>r\<in>set logits. length r = C" and "\<forall>k\<in>set y. k < C" and "y \<noteq> []"
  shows "(\<exists>l. cross_entropy logits y = Inr (Some l))
    \<and> argmax_rows logits = Inr (map (\<lambda>r. first_index (list_max r) r) logits)
    \<and> (\<exists>c. eq_count (map (\<lambda>r. first_index (list_max r) r) logits) y = Inr c)"
proof -
  have C: "0 < C" using assms(3,4) by (cases y) auto
  have lt: "\<not> length (logits ! i) \<le> y ! i" if "i < length y" for i
    using that assms(1,2,3) nth_mem by (metis not_le)
  have ce: "\<exists>l. cross_entropy logits y = Inr (Some l)" using assms(1,4) lt by (simp add: cross_entropy_def)
  have "[] \<notin> set logits" using assms(2) C by fastforce
  then show ?thesis using ce assms(1) eq_count_same_length by (simp add: argmax_rows_def)
qed

lemma train_loop_ok [loop_simps]:
  assumes "\<forall>t p x. length (fst (model t p x)) = length x \<and> (\<forall>r\<in>set (fst (model t p x)). length r = C)"
    and "\<forall>b\<in>set bss. b \<noteq> [] \<and> (\<forall>s\<in>set b. snd s < C)"
  shows "\<exists>st'. train_loop model step (map collated bss) st = Inr st' \<and> ep_n st' = ep_n st + length (concat bss)
           \<and> (bss \<noteq> [] \<longrightarrow> ep_loss st' \<noteq> None)"
  using assms(2)
proof (induction bss arbitrary: st)
  case Nil
  then show ?case by simp
next
  case (Cons b bss)
  obtain logits m1 where mo: "model True (ep_model st) (map fst b) = (logits, m1)" by fastforce
  have "length logits = length (map snd b)" "\<forall>r\<in>set logits. length r = C"
    using assms(1) mo by (metis fst_conv length_map)+
  moreover have "\<forall>k\<in>set (map snd b). k < C" "map snd b \<noteq> []" using Cons.prems by auto
  ultimately obtain l c where ce: "cross_entropy logits (map snd b) = Inr (Some l)"
    and am: "argmax_rows logits = Inr (map (\<lambda>r. first_index (list_max r) r) logits)"
    and ec: "eq_count (map (\<lambda>r. first_index (list_max r) r) logits) (map snd b) = Inr c"
    using batch_ok by blast
  let ?st = "\<lparr>ep_model = step m1 (map fst b, map snd b), ep_n = ep_n st + length b,
              ep_n_correct = ep_n_correct st + c, ep_loss = Some (Some l)\<rparr>"
  have "train_loop model step (map collated (b # bss)) st = train_loop model step (map collated bss) ?st"
    by (simp add: collated_def mo ce am ec)
  moreover obtain st' where "train_loop model step (map collated bss) ?st = Inr st'"
    and "ep_n st' = ep_n ?st + length (concat bss)" and "bss \<noteq> [] \<longrightarrow> ep_loss st' \<noteq> None"
    using Cons.IH [of ?st] Cons.prems by auto
  moreover have "bss = [] \<longrightarrow> ep_loss st' \<noteq> None"
    using calculation by auto
  ultimately show ?case by auto
qed

lemma test_loop_ok [loop_simps]:
  assumes "\<forall>t p x. length (fst (model t p x)) = length x \<and> (\<forall>r\<in>set (fst (model t p x)). length r = C)"
    and "\<forall>b\<in>set bss. b \<noteq> [] \<and> (\<forall>s\<in>set b. snd s < C)"
  shows "\<exists>st'. test_loop model (map collated bss) st = Inr st' \<and> ep_n st' = ep_n st + length (concat bss)"
  using assms(2)
proof (induction bss arbitrary: st)
  case Nil
  then show ?case by simp
next
  case (Cons b bss)
  obtain logits m1 where mo: "model False (ep_model st) (map fst b) = (logits, m1)" by fastforce
  have "length logits = length (map snd b)" "\<forall>r\<in>set logits. length r = C"
    using assms(1) mo by (metis fst_conv length_map)+
  moreover have "\<forall>k\<in>set (map snd b). k < C" "map snd b \<noteq> []" using Cons.prems by auto
  ultimately obtain c where am: "argmax_rows logits = Inr (map (\<lambda>r. first_index (list_max r) r) logits)"
    and ec: "eq_count (map (\<lambda>r. first_index (list_max r) r) logits) (map snd b) = Inr c"
    using batch_ok by blast
  have "\<exists>k. test_loop model (map collated (b # bss)) st =
      test_loop model (map collated bss) (st\<lparr>ep_model := m1, ep_n := ep_n st + length b, ep_n_correct := k\<rparr>)"
    by (simp add: collated_def mo am ec) (rule exI, rule refl)
  then obtain k where "test_loop model (map collated (b # bss)) st =
      test_loop model (map collated bss) (st\<lparr>ep_model := m1, ep_n := ep_n st + length b, ep_n_correct := k\<rparr>)" ..
  then show ?case using Cons.IH [of "st\<lparr>ep_model := m1, ep_n := ep_n st + length b, ep_n_correct := k\<rparr>"] Cons.prems
    by auto
qed

lemma chunks_nonempty_all [loop_simps]:
  assumes "\<forall>s\<in>set xs. P s"
  shows "\<forall>b\<in>set (chunks 32 d xs). b \<noteq> [] \<and> (\<forall>s\<in>set b. P s)"
proof (rule ballI)
  fix b assume b: "b \<in> set (chunks 32 d xs)"
  have "b \<noteq> []" using chunks_sizes [OF _ b] by simp
  moreover have "\<forall>s\<in>set b. P s" using chunks_subset [OF b] assms by blast
  ultimately show "b \<noteq> [] \<and> (\<forall>s\<in>set b. P s)" ..
qed

lemma train_loop_append [loop_simps]:
  "train_loop model step (bs @ cs) st =
     (case train_loop model step bs st of Inl e \<Rightarrow> Inl e | Inr st' \<Rightarrow> train_loop model step cs st')"
  by (induction model step bs st rule: train_loop.induct) (auto split: prod.split sum.split)

lemma epochs_loop_ok [loop_simps]:
  assumes "\<forall>m. \<exists>m' l a. train_epoch model step m trl = Inr (m', l, a)"
    and "\<forall>m. \<exists>m' a. test_epoch model m tel = Inr (m', a)"
  shows "\<exists>m'' ls tra tea. snd (epochs_loop model step trl tel k e (m, losses, tras, teas)) = Inr (m'', ls, tra, tea)
     \<and> length ls = length losses + k \<and> length tra = length tras + k \<and> length tea = length teas + k
     \<and> [e'. Epoch e' \<leftarrow> fst (epochs_loop model step trl tel k e (m, losses, tras, teas))] = [e..<e + k]"
proof (induction k arbitrary: e m losses tras teas)
  case 0
  then show ?case by simp
next
  case (Suc k)
  obtain m1 l a where tr: "train_epoch model step m trl = Inr (m1, l, a)" using assms(1) by blast
  obtain m2 b where te: "test_epoch model m1 tel = Inr (m2, b)" using assms(2) by blast
  obtain evs r where rec: "epochs_loop model step trl tel k (Suc e) (m2, losses @ [l], tras @ [a], teas @ [b]) = (evs, r)"
    by fastforce
  have IH: "\<exists>m'' ls tra tea. r = Inr (m'', ls, tra, tea) \<and> length ls = length (losses @ [l]) + k
      \<and> length tra = length (tras @ [a]) + k \<and> length tea = length (teas @ [b]) + k
      \<and> [e'. Epoch e' \<leftarrow> evs] = [Suc e..<Suc e + k]"
    using Suc.IH [of "Suc e" m2 "losses @ [l]" "tras @ [a]" "teas @ [b]"] rec by simp
  have "epochs_loop model step trl tel (Suc k) e (m, losses, tras, teas)
        = (Epoch e # TrainAccuracy a # TestAccuracy b # evs, r)"
    by (simp add: tr te rec)
  moreover have "e # [Suc e..<Suc e + k] = [e..<e + Suc k]" by (simp add: upt_rec)
  ultimately show ?case using IH by auto
qed

lemma batch_accuracy_collated [loop_simps]:
  assumes "\<forall>r. g r \<noteq> []" and "b \<noteq> []"
  shows "batch_accuracy (map g (map fst b)) (map snd b) =
           Inr (correct_count g b, real (correct_count g b) / real (length b))"
  using batch_accuracy_rowwise [OF assms(1), of b] assms(2) by (simp add: batch_accuracy_def py_div_def)

lemma correct_count_concat [loop_simps]: "correct_count g (concat bss) = sum_list (map (correct_count g) bss)"
  by (induction bss) (simp_all add: correct_count_append correct_count_def)

lemma pl_test_loop_rowwise [loop_simps]:
  assumes "\<forall>x. model False m x = (map g x, m)" and "\<forall>r. g r \<noteq> []" and "\<forall>b\<in>set bss. b \<noteq> []"
  shows "pl_test_loop model (map collated bss) m =
     Inr (m, map (\<lambda>b. LogEntry ''test/accuracy'' (Some (real (correct_count g b) / real (length b))) (length b)) bss)"
  using assms(3)
proof (induction bss)
  case Nil
  then show ?case by simp
next
  case (Cons b bss)
  have "pl_test_step model m (map fst b, map snd b) =
      Inr (m, [LogEntry ''test/accuracy'' (Some (real (correct_count g b) / real (length b))) (length b)])"
    using assms(1) batch_accuracy_collated [OF assms(2)] Cons.prems by (simp add: pl_test_step_def)
  then show ?case using Cons by (simp add: collated_def)
qed

lemma epoch_mean_batches [loop_simps]:
  assumes "\<forall>b\<in>set bss. b \<noteq> []" and "bss \<noteq> []"
  shows "epoch_mean k (map (\<lambda>b. LogEntry k (Some (f b)) (length b)) bss) =
           Some (sum_list (map (\<lambda>b. f b * real (length b)) bss) / real (length (concat bss)))"
proof -
  let ?es = "map (\<lambda>b. LogEntry k (Some (f b)) (length b)) bss"
  have z: "sum_list (map log_batch ?es) \<noteq> 0" using assms by (cases bss) auto
  have n: "None \<notin> set (map log_value ?es)" by auto
  have fl: "filter (\<lambda>e. log_key e = k) ?es = ?es" by (simp add: filter_True)
  have "epoch_mean k ?es = Some (sum_list (map (\<lambda>e. the (log_value e) * real (log_batch e)) ?es)
                                 / real (sum_list (map log_batch ?es)))"
    unfolding epoch_mean_def Let_def fl using z n by simp
  then show ?thesis by (simp add: comp_def length_concat)
qed

lemma weighted_accuracy_sum [loop_simps]:
  "\<forall>b\<in>set bss. b \<noteq> [] \<Longrightarrow>
   sum_list (map (\<lambda>b. real (correct_count g b) / real (length b) * real (length b)) bss)
   = real (correct_count g (concat bss))"
  by (induction bss) (simp_all add: correct_count_append correct_count_def)

lemma test_epoch_collated [loop_simps]:
  assumes "\<forall>x. model False m x = (map g x, m)" and "\<forall>r. g r \<noteq> []" and "concat bss \<noteq> []"
  shows "test_epoch model m (map collated bss) =
           Inr (m, real (correct_count g (concat bss)) / real (length (concat bss)))"
  using test_loop_rowwise [where model = model and m = m and g = g and st = "epoch_start m", OF assms(1,2)] assms(3)
  by (simp add: test_epoch_def py_div_def epoch_start_def)

subsection \<open>Properties of the loops\<close>

text \<open>C11: \<^verbatim>\<open>test_epoch\<close> on the CIFAR10 test loader computes what it prints as the test set
  accuracy: for a model that in evaluation mode classifies each image on its own and
  does not change, the fraction of all test images (normalised by the loader's
  transform) whose first maximal logit is their label, every test image counted once.\<close>

theorem test_epoch_accuracy:
  assumes "\<forall>x. model False m x = (map g x, m)" and "\<forall>r. g r \<noteq> []"
    and "te \<noteq> []" and "\<forall>s\<in>set te. length (fst s) = d"
  shows "\<exists>l. get_cifar10_loader tr te ''test'' True = Inr l \<and>
     test_epoch model m (loader_iter l) = Inr (m, real (correct_count g (pl_transform te)) / real (length te))"
proof -
  obtain l where l: "get_cifar10_loader tr te ''test'' True = Inr l"
    by (simp add: get_cifar10_loader_cases)
  have it: "loader_iter l = map collated (chunks 32 False (pl_transform te))"
    using loader_iter_transformed [of te d False] assms(4) l by (simp add: get_cifar10_loader_cases)
  have cc: "concat (chunks 32 False (pl_transform te)) = pl_transform te" by (simp add: concat_chunks)
  have "test_loop model (loader_iter l) (epoch_start m) =
      Inr ((epoch_start m)\<lparr>ep_n := length te, ep_n_correct := correct_count g (pl_transform te)\<rparr>)"
    using test_loop_rowwise [where model = model and m = m and g = g and st = "epoch_start m", OF assms(1,2)] it cc
    by (simp add: epoch_start_def pl_transform_def)
  then have "test_epoch model m (loader_iter l) = Inr (m, real (correct_count g (pl_transform te)) / real (length te))"
    using assms(3) by (simp add: test_epoch_def py_div_def epoch_start_def)
  then show ?thesis using l by blast
qed

theorem test_epoch_accuracy_witness:
  "\<exists>l. get_cifar10_loader [] [([0], 0)] ''test'' True = Inr l \<and>
     test_epoch (\<lambda>b m x. (map (\<lambda>r. r @ [-1]) x, m)) (0 :: nat) (loader_iter l) = Inr (0, 1)"
proof -
  have "correct_count (\<lambda>r. r @ [-1]) (pl_transform [([0], 0)]) = 1"
    by (simp add: correct_count_def pl_transform_def cifar_transform_def)
  then show ?thesis
    using test_epoch_accuracy [where model = "\<lambda>b m x. (map (\<lambda>r. r @ [-1]) x, m)" and m = 0
        and g = "\<lambda>r. r @ [-1]" and te = "[([0], 0)]" and d = 1 and tr = "[]"]
    by simp
qed

text \<open>C13: \<^verbatim>\<open>train_epoch\<close> returns as its loss the cross-entropy of the last batch
  alone, computed with the model as it was before that batch's optimizer step; the
  \<^verbatim>\<open>losses\<close> list that \<^verbatim>\<open>train_cifar10\<close> plots as "Train loss" holds these last-batch
  values, not epoch means.\<close>

theorem train_epoch_final_loss:
  assumes "train_loop model step bs (epoch_start m) = Inr st"
    and "train_epoch model step m (bs @ [Inr (x, y)]) = Inr (m', loss, accuracy)"
  shows "cross_entropy (fst (model True (ep_model st) x)) y = Inr loss"
proof -
  obtain logits m1 where mo: "model True (ep_model st) x = (logits, m1)" by fastforce
  have "train_loop model step (bs @ [Inr (x, y)]) (epoch_start m) = train_loop model step [Inr (x, y)] st"
    using assms(1) by (simp add: train_loop_append)
  then obtain st2 where t: "train_loop model step [Inr (x, y)] st = Inr st2" and l: "ep_loss st2 = Some loss"
    using assms(2) by (auto simp: train_epoch_def split: sum.splits option.splits)
  from t have "\<exists>l. cross_entropy logits y = Inr l \<and> ep_loss st2 = Some l"
    by (auto simp: mo split: sum.splits)
  then show ?thesis using mo l by auto
qed

theorem train_epoch_final_loss_witness:
  "\<exists>st m' loss accuracy.
     train_loop (\<lambda>t m x. (x, m)) (\<lambda>m b. Suc m) [Inr ([[0, 0]], [0])] (epoch_start (0 :: nat)) = Inr st
     \<and> train_epoch (\<lambda>t m x. (x, m)) (\<lambda>m b. Suc m) 0 [Inr ([[0, 0]], [0]), Inr ([[0, 0]], [1])] = Inr (m', loss, accuracy)
     \<and> cross_entropy (fst ((\<lambda>t m x. (x, m)) True (ep_model st) [[0, 0]])) [1] = Inr loss"
proof -
  obtain st where t: "train_loop (\<lambda>t m x. (x, m)) (\<lambda>m b. Suc m) [Inr ([[0, 0]], [0])] (epoch_start (0 :: nat)) = Inr st"
    by (simp add: epoch_start_def cross_entropy_def argmax_rows_def eq_count_def)
  have "\<exists>r. train_epoch (\<lambda>t m x. (x, m)) (\<lambda>m b. Suc m) 0 ([Inr ([[0, 0]], [0])] @ [Inr ([[0, 0]], [1])]) = Inr r"
    by (simp add: train_epoch_def epoch_start_def cross_entropy_def argmax_rows_def eq_count_def py_div_def)
      (rule exI [where x = "1 / 2"], simp)
  then obtain m' loss accuracy where e:
    "train_epoch (\<lambda>t m x. (x, m)) (\<lambda>m b. Suc m) 0 ([Inr ([[0, 0]], [0])] @ [Inr ([[0, 0]], [1])]) = Inr (m', loss, accuracy)"
    by (metis prod_cases3)
  show ?thesis using train_epoch_final_loss [OF t e] t e by auto
qed

lemma train_cifar10_ok:
  assumes shape: "\<forall>t p x. length (fst (model t p x)) = length x \<and> (\<forall>r\<in>set (fst (model t p x)). length r = C)"
    and data: "\<forall>s\<in>set tr \<union> set te. snd s < C \<and> length (fst s) = d"
    and ntr: "32 \<le> length tr" and nte: "te \<noteq> []"
  shows "\<exists>m' losses tra tea. snd (train_cifar10 model step m num_epochs tr te) = Inr (m', losses, tra, tea)
     \<and> length losses = num_epochs \<and> length tra = num_epochs \<and> length tea = num_epochs
     \<and> [e. Epoch e \<leftarrow> fst (train_cifar10 model step m num_epochs tr te)] = [0..<num_epochs]"
proof -
  obtain ltr where ltr: "get_cifar10_loader tr te ''train'' True = Inr ltr" by (simp add: get_cifar10_loader_cases)
  obtain lte where lte: "get_cifar10_loader tr te ''test'' True = Inr lte" by (simp add: get_cifar10_loader_cases)
  have d: "\<forall>s\<in>set tr \<union> set te. length (fst s) = d" using data by blast
  let ?trb = "chunks 32 True (pl_transform tr)"
  let ?teb = "chunks 32 False (pl_transform te)"
  have lab: "\<forall>s\<in>set (pl_transform tr) \<union> set (pl_transform te). snd s < C"
  proof
    fix s assume "s \<in> set (pl_transform tr) \<union> set (pl_transform te)"
    then have "\<exists>s'\<in>set tr \<union> set te. snd s = snd s'" by (force simp: pl_transform_def)
    then obtain s' where s': "s' \<in> set tr \<union> set te" "snd s = snd s'" by blast
    show "snd s < C" using bspec [OF data s'(1)] s'(2) by simp
  qed
  have btr: "\<forall>b\<in>set ?trb. b \<noteq> [] \<and> (\<forall>s\<in>set b. snd s < C)"
    using chunks_nonempty_all [of "pl_transform tr" "\<lambda>s. snd s < C"] lab by blast
  have bte: "\<forall>b\<in>set ?teb. b \<noteq> [] \<and> (\<forall>s\<in>set b. snd s < C)"
    using chunks_nonempty_all [of "pl_transform te" "\<lambda>s. snd s < C"] lab by blast
  have "0 < length ?trb" using ntr by (simp add: chunks_length pl_transform_def)
  then have netr: "?trb \<noteq> []" by auto
  have "32 \<le> length te + 31" using nte by (cases te) auto
  then have "0 < (length te + 31) div 32" by (simp add: div_greater_zero_iff)
  then have "0 < length ?teb" by (simp add: chunks_length pl_transform_def add.commute)
  then have nete: "?teb \<noteq> []" by auto
  have tre: "\<forall>m. \<exists>m' l a. train_epoch model step m (map collated ?trb) = Inr (m', l, a)"
  proof
    fix m
    obtain st' where t: "train_loop model step (map collated ?trb) (epoch_start m) = Inr st'"
      and n: "ep_n st' = length (concat ?trb)" and l: "ep_loss st' \<noteq> None"
      using train_loop_ok [OF shape btr, of step "epoch_start m"] netr by (auto simp: epoch_start_def)
    have "0 < length (concat ?trb)" using netr btr by (cases ?trb) auto
    then show "\<exists>m' l a. train_epoch model step m (map collated ?trb) = Inr (m', l, a)"
      using t n l by (auto simp: train_epoch_def py_div_def)
  qed
  have tee: "\<forall>m. \<exists>m' a. test_epoch model m (map collated ?teb) = Inr (m', a)"
  proof
    fix m
    obtain st' where t: "test_loop model (map collated ?teb) (epoch_start m) = Inr st'"
      and n: "ep_n st' = length (concat ?teb)"
      using test_loop_ok [OF shape bte, of "epoch_start m"] by (auto simp: epoch_start_def)
    have "0 < length (concat ?teb)" using nete bte by (cases ?teb) auto
    then show "\<exists>m' a. test_epoch model m (map collated ?teb) = Inr (m', a)"
      using t n by (auto simp: test_epoch_def py_div_def)
  qed
  have "train_cifar10 model step m num_epochs tr te =
      epochs_loop model step (map collated ?trb) (map collated ?teb) num_epochs 0 (m, [], [], [])"
    using ltr lte loader_iter_cifar10 [OF d] by (simp add: train_cifar10_def)
  then show ?thesis using epochs_loop_ok [OF tre tee, of num_epochs 0 m "[]" "[]" "[]"] by simp
qed

text \<open>C12: \<^verbatim>\<open>train_cifar10\<close> runs to completion: for a network that outputs one row of
  \<open>C\<close> logits per image, labels below \<open>C\<close>, images of one size, at least one full training
  batch and a non-empty test set, it raises nothing, prints \<^verbatim>\<open>EPOCH 0\<close> to
  \<^verbatim>\<open>EPOCH num_epochs-1\<close> in order, and returns one loss and two accuracies per epoch.\<close>

theorem train_cifar10_completes:
  assumes shape: "\<forall>t p x. length (fst (model t p x)) = length x \<and> (\<forall>r\<in>set (fst (model t p x)). length r = C)"
    and data: "\<forall>s\<in>set tr \<union> set te. snd s < C \<and> length (fst s) = d"
    and ntr: "32 \<le> length tr" and nte: "te \<noteq> []"
  shows "\<exists>m' losses tra tea. snd (train_cifar10 model step m num_epochs tr te) = Inr (m', losses, tra, tea)
     \<and> length losses = num_epochs \<and> length tra = num_epochs \<and> length tea = num_epochs
     \<and> [e. Epoch e \<leftarrow> fst (train_cifar10 model step m num_epochs tr te)] = [0..<num_epochs]"
  using train_cifar10_ok [OF shape data ntr nte] .

theorem train_cifar10_completes_witness:
  "\<exists>m' losses tra tea.
     snd (train_cifar10 (\<lambda>t m x. (map (\<lambda>r. [0]) x, m)) (\<lambda>m b. Suc m) (0 :: nat) 2
            (replicate 32 ([0], 0)) [([0], 0)]) = Inr (m', losses, tra, tea)
     \<and> length losses = 2 \<and> length tra = 2 \<and> length tea = 2
     \<and> [e. Epoch e \<leftarrow> fst (train_cifar10 (\<lambda>t m x. (map (\<lambda>r. [0]) x, m)) (\<lambda>m b. Suc m) (0 :: nat) 2
            (replicate 32 ([0], 0)) [([0], 0)])] = [0..<2]"
proof -
  have shape: "\<forall>t p x. length (fst ((\<lambda>t m x. (map (\<lambda>r. [0 :: real]) x, m)) t (p :: nat) x)) = length x
      \<and> (\<forall>r\<in>set (fst ((\<lambda>t m x. (map (\<lambda>r. [0 :: real]) x, m)) t p x)). length r = 1)"
    by auto
  have data: "\<forall>s\<in>set (replicate 32 ([0 :: nat], 0 :: nat)) \<union> set [([0], 0)]. snd s < 1 \<and> length (fst s) = 1"
    by simp
  show ?thesis using train_cifar10_completes [OF shape data, of "\<lambda>m b. Suc m" 0 2] by simp
qed

end
