(* ===== verification/Finetune.thy ===== *)
theory Finetune
  imports Training "HOL-Library.AList"
begin

text \<open>
  The fine-tuning notebook \<^verbatim>\<open>src/05-foundation/01-finetuning.ipynb\<close> beyond its data module
  and steps (theories \<open>Loader\<close> and \<open>Training\<close>):
  \<^item> \<open>clean_memory\<close>: the notebook's \<^verbatim>\<open>globals()\<close> dictionary is an association list from
    names to the kind of value bound (\<open>pyval\<close>); the function collects the names bound to a
    \<^verbatim>\<open>torch.nn.Module\<close> or \<^verbatim>\<open>pl.LightningModule\<close> and deletes them (\<^verbatim>\<open>gc.collect()\<close> has
    no visible effect).
  \<^item> \<open>vit\<close>, \<open>vit_freeze\<close>, \<open>set_classifier\<close>, \<open>configure_optimizers\<close>, \<open>num_trainable\<close>:
    a ViT classifier is its backbone and classifier modules, each a \<open>layer\<close> with its
    \<^verbatim>\<open>requires_grad\<close> flag; \<^verbatim>\<open>for p in model.parameters(): p.requires_grad = False\<close> is
    \<open>vit_freeze\<close>, assigning \<^verbatim>\<open>model.classifier\<close> installs freshly initialised, trainable
    modules, \<^verbatim>\<open>configure_optimizers\<close> keeps the parameters that require gradients and the
    printed "Num trainable parameters" is \<open>num_trainable\<close>. \<open>finetune_head_model\<close> and
    \<open>early_stopping_model\<close> are the models \<^verbatim>\<open>finetune_head\<close> and \<^verbatim>\<open>early_stopping\<close> train;
    the pretrained model \<^verbatim>\<open>from_pretrained(MODEL)\<close> is a parameter.
  \<^item> \<open>ft_Module\<close>, \<open>module_optimizer\<close>, \<open>pl_Trainer\<close>, \<open>finetune_head\<close>, \<open>early_stopping\<close>,
    \<open>finetune_lora\<close>: the \<^verbatim>\<open>Module\<close> class, the trainer configuration and the three runs, as
    the events they print and the arguments they pass to \<^verbatim>\<open>trainer.fit\<close>;
    \<open>head_tuning_cell\<close>, \<open>early_stopping_cell\<close>, \<open>lora_cell\<close> run them after
    \<^verbatim>\<open>clean_memory()\<close>.
  \<^item> \<open>lora_config\<close> is \<^verbatim>\<open>LoraConfig(r=128, lora_alpha=256)\<close> of \<^verbatim>\<open>finetune_lora\<close>;
    \<^verbatim>\<open>peft.get_peft_model\<close> and the adapter's arithmetic are library code, a parameter.
\<close>

named_theorems finetune_simps "models of the fine-tuning notebook"

subsection \<open>The notebook's globals\<close>

datatype pyval = TorchModule | LightningModule | PyTensor | PyFunction | PyOther

definition is_module :: "pyval \<Rightarrow> bool" where
  "is_module v \<longleftrightarrow> v = TorchModule \<or> v = LightningModule"

type_synonym globals = "(string \<times> pyval) list"

definition clean_memory :: "globals \<Rightarrow> globals" where
  "clean_memory g =
     (let to_remove = remdups (map fst (filter (\<lambda>(k, v). is_module v) g))
      in fold AList.delete to_remove g)"

subsection \<open>Trainable parameters\<close>

record vit =
  vit_backbone :: "(layer \<times> bool) list"
  vit_classifier :: "(layer \<times> bool) list"

definition vit_parameters :: "vit \<Rightarrow> (layer \<times> bool) list" where
  "vit_parameters m = vit_backbone m @ vit_classifier m"

definition vit_freeze :: "vit \<Rightarrow> vit" where
  "vit_freeze m = \<lparr>vit_backbone = map (\<lambda>(l, g). (l, False)) (vit_backbone m),
                   vit_classifier = map (\<lambda>(l, g). (l, False)) (vit_classifier m)\<rparr>"

definition set_classifier :: "layer list \<Rightarrow> vit \<Rightarrow> vit" where
  "set_classifier ls m = m\<lparr>vit_classifier := map (\<lambda>l. (l, True)) ls\<rparr>"

definition configure_optimizers :: "vit \<Rightarrow> layer list" where
  "configure_optimizers m = map fst (filter snd (vit_parameters m))"

definition num_trainable :: "vit \<Rightarrow> nat" where
  "num_trainable m = sum_list (map (\<lambda>(l, g). if g then layer_params l else 0) (vit_parameters m))"

definition finetune_head_model :: "vit \<Rightarrow> vit" where
  "finetune_head_model pretrained = set_classifier head_classifier (vit_freeze pretrained)"

definition early_stopping_model :: "vit \<Rightarrow> vit" where
  "early_stopping_model pretrained = set_classifier es_classifier pretrained"

subsection \<open>The LoRA configuration\<close>

record lora_config =
  lora_r :: nat
  lora_alpha :: nat

definition lora_config :: lora_config where
  "lora_config = \<lparr>lora_r = 128, lora_alpha = 256\<rparr>"

subsection \<open>The training runs\<close>

text \<open>\<^verbatim>\<open>Module(model, lr)\<close> keeps the model and the learning rate; its
  \<^verbatim>\<open>configure_optimizers\<close> gives Adam the parameters that require gradients at that rate
  (\<open>module_optimizer\<close>). A run prints what it prints and hands the module and the data to
  \<^verbatim>\<open>trainer.fit\<close>, whose training loop is the library's (\<open>Fit\<close> records its arguments).
  \<^verbatim>\<open>peft.get_peft_model\<close> is a parameter of \<open>finetune_lora\<close>.\<close>

record 'm ft_module =
  ft_model :: 'm
  ft_lr :: real

definition ft_Module :: "'m \<Rightarrow> real \<Rightarrow> 'm ft_module" where
  "ft_Module model lr = \<lparr>ft_model = model, ft_lr = lr\<rparr>"

definition module_optimizer :: "vit ft_module \<Rightarrow> layer list \<times> real" where
  "module_optimizer pl_module = (configure_optimizers (ft_model pl_module), ft_lr pl_module)"

record trainer =
  max_epochs :: nat
  precision :: string
  logger_name :: string

definition pl_Trainer :: "nat \<Rightarrow> string \<Rightarrow> string \<Rightarrow> trainer" where
  "pl_Trainer epochs prec name = \<lparr>max_epochs = epochs, precision = prec, logger_name = name\<rparr>"

datatype run_event =
    PrintModel vit
  | PrintPeftTrainable vit
  | PrintTrainable nat
  | Fit trainer "vit ft_module" ft_data

definition finetune_head :: "vit \<Rightarrow> run_event list" where
  "finetune_head pretrained =
     (let model = finetune_head_model pretrained;
          pl_module = ft_Module model 0.0001
      in [PrintTrainable (num_trainable (ft_model pl_module)),
          Fit (pl_Trainer 10 ''16-mixed'' ''HeadTuning'') pl_module (ft_Data 4 128 (None :: (unit \<Rightarrow> unit) option))])"

definition early_stopping :: "vit \<Rightarrow> run_event list" where
  "early_stopping pretrained =
     (let model = early_stopping_model pretrained;
          pl_module = ft_Module model 0.00002
      in [PrintTrainable (num_trainable (ft_model pl_module)),
          Fit (pl_Trainer 2 ''16-mixed'' ''EarlyStopping'') pl_module (ft_Data 4 16 (None :: (unit \<Rightarrow> unit) option))])"

definition finetune_lora :: "(lora_config \<Rightarrow> vit \<Rightarrow> vit) \<Rightarrow> vit \<Rightarrow> run_event list" where
  "finetune_lora get_peft_model pretrained =
     (let model = set_classifier es_classifier pretrained;
          peft_model = get_peft_model lora_config model;
          pl_module = ft_Module peft_model 0.00002
      in [PrintModel model, PrintPeftTrainable peft_model, PrintTrainable (num_trainable (ft_model pl_module)),
          Fit (pl_Trainer 2 ''16-mixed'' ''LoRA (lr 2e-5, QV, r128)'') pl_module (ft_Data 4 16 (None :: (unit \<Rightarrow> unit) option))])"

text \<open>The three training cells: \<^verbatim>\<open>clean_memory()\<close> on the notebook's globals, then the run on
  the pretrained model \<^verbatim>\<open>from_pretrained(MODEL)\<close> (a parameter); the runs bind nothing global.\<close>

definition MODEL :: string where
  "MODEL = ''facebook/vit-mae-base''"

definition head_tuning_cell :: "(string \<Rightarrow> vit) \<Rightarrow> globals \<Rightarrow> globals \<times> run_event list" where
  "head_tuning_cell from_pretrained g = (let g' = clean_memory g in (g', finetune_head (from_pretrained MODEL)))"

definition early_stopping_cell :: "(string \<Rightarrow> vit) \<Rightarrow> globals \<Rightarrow> globals \<times> run_event list" where
  "early_stopping_cell from_pretrained g = (let g' = clean_memory g in (g', early_stopping (from_pretrained MODEL)))"

definition lora_cell :: "(lora_config \<Rightarrow> vit \<Rightarrow> vit) \<Rightarrow> (string \<Rightarrow> vit) \<Rightarrow> globals \<Rightarrow> globals \<times> run_event list" where
  "lora_cell get_peft_model from_pretrained g =
     (let g' = clean_memory g in (g', finetune_lora get_peft_model (from_pretrained MODEL)))"

subsection \<open>Lemmas on the globals\<close>

lemma delete_filter [finetune_simps]: "AList.delete k g = filter (\<lambda>p. fst p \<noteq> k) g"
  by (induction g) auto

lemma fold_delete [finetune_simps]: "fold AList.delete ks g = filter (\<lambda>p. fst p \<notin> set ks) g"
  by (induction ks arbitrary: g) (simp_all add: delete_filter filter_filter conj_commute)

lemma clean_memory_filter [finetune_simps]:
  assumes "distinct (map fst g)"
  shows "clean_memory g = filter (\<lambda>(k, v). \<not> is_module v) g"
proof -
  have "fst p \<in> set (map fst (filter (\<lambda>(k, v). is_module v) g)) \<longleftrightarrow> is_module (snd p)"
    if p: "p \<in> set g" for p
  proof
    assume "fst p \<in> set (map fst (filter (\<lambda>(k, v). is_module v) g))"
    then obtain v where v: "(fst p, v) \<in> set g" "is_module v" by auto
    have "v = snd p" using eq_key_imp_eq_value [OF assms v(1)] p by simp
    then show "is_module (snd p)" using v(2) by simp
  next
    assume "is_module (snd p)"
    then show "fst p \<in> set (map fst (filter (\<lambda>(k, v). is_module v) g))" using p by force
  qed
  then have "\<And>p. p \<in> set g \<Longrightarrow>
      (fst p \<notin> set (remdups (map fst (filter (\<lambda>(k, v). is_module v) g)))) = (case p of (k, v) \<Rightarrow> \<not> is_module v)"
    by (simp add: case_prod_beta)
  then show ?thesis
    unfolding clean_memory_def Let_def fold_delete by (rule filter_cong [OF refl])
qed

lemma clean_memory_no_module [finetune_simps]: "(k, v) \<in> set (clean_memory g) \<Longrightarrow> \<not> is_module v"
  by (force simp: clean_memory_def fold_delete)

lemma training_cells_clean [finetune_simps]:
  "(k, v) \<in> set (fst (head_tuning_cell fp g)) \<Longrightarrow> \<not> is_module v"
  "(k, v) \<in> set (fst (early_stopping_cell fp g)) \<Longrightarrow> \<not> is_module v"
  "(k, v) \<in> set (fst (lora_cell peft fp g)) \<Longrightarrow> \<not> is_module v"
  by (simp_all add: head_tuning_cell_def early_stopping_cell_def lora_cell_def clean_memory_no_module)

subsection \<open>Lemmas on trainable parameters\<close>

lemma num_trainable_set_classifier [finetune_simps]:
  "num_trainable (set_classifier ls m) =
     sum_list (map (\<lambda>(l, g). if g then layer_params l else 0) (vit_backbone m)) + seq_params ls"
  by (simp add: num_trainable_def set_classifier_def vit_parameters_def seq_params_def comp_def)

lemma frozen_sum [finetune_simps]:
  "sum_list (map (\<lambda>(l, g). if g then layer_params l else (0 :: nat)) (map (\<lambda>(l, g). (l, False)) xs)) = 0"
  by (induction xs) auto

lemma map_of_filter_value [finetune_simps]:
  "distinct (map fst xs) \<Longrightarrow>
   map_of (filter (\<lambda>(k, v). P v) xs) k = (case map_of xs k of Some v \<Rightarrow> if P v then Some v else None | None \<Rightarrow> None)"
proof (induction xs)
  case Nil
  then show ?case by simp
next
  case (Cons x xs)
  obtain a b where x: "x = (a, b)" by fastforce
  have nk: "a \<notin> set (map fst xs)" "distinct (map fst xs)" using Cons.prems x by auto
  then have "map_of (filter (\<lambda>(k, v). P v) xs) a = None"
    by (auto simp: map_of_eq_None_iff)
  then show ?case using Cons.IH nk x by (auto split: option.split)
qed

subsection \<open>Properties of the fine-tuning notebook\<close>

text \<open>C20: \<^verbatim>\<open>clean_memory\<close> keeps the globals a dictionary, removes exactly the names bound
  to a module (so nothing holds a network afterwards), leaves every other binding as it
  was, and a second call changes nothing.\<close>

theorem clean_memory_spec:
  assumes "distinct (map fst g)"
  shows "distinct (map fst (clean_memory g)) \<and> (\<forall>(k, v)\<in>set (clean_memory g). \<not> is_module v)
     \<and> (\<forall>k. map_of (clean_memory g) k =
              (case map_of g k of Some v \<Rightarrow> if is_module v then None else Some v | None \<Rightarrow> None))
     \<and> clean_memory (clean_memory g) = clean_memory g"
proof -
  have c: "clean_memory g = filter (\<lambda>(k, v). \<not> is_module v) g" by (rule clean_memory_filter [OF assms])
  have d: "distinct (map fst (clean_memory g))" unfolding c using assms by (rule distinct_map_filter)
  have m: "\<forall>k. map_of (clean_memory g) k =
              (case map_of g k of Some v \<Rightarrow> if is_module v then None else Some v | None \<Rightarrow> None)"
    unfolding c using map_of_filter_value [OF assms, of "\<lambda>v. \<not> is_module v"]
    by (auto split: option.split)
  have "clean_memory (clean_memory g) = filter (\<lambda>(k, v). \<not> is_module v) (clean_memory g)"
    by (rule clean_memory_filter [OF d])
  also have "\<dots> = clean_memory g" unfolding c filter_filter by (simp add: case_prod_unfold)
  finally show ?thesis using d m c by auto
qed

theorem clean_memory_spec_witness:
  "distinct (map fst [(''model'', TorchModule), (''x'', PyTensor), (''module'', LightningModule)])
   \<and> clean_memory [(''model'', TorchModule), (''x'', PyTensor), (''module'', LightningModule)] = [(''x'', PyTensor)]
   \<and> map_of (clean_memory [(''model'', TorchModule), (''x'', PyTensor), (''module'', LightningModule)]) ''model'' = None"
proof -
  have d: "distinct (map fst [(''model'', TorchModule), (''x'', PyTensor), (''module'', LightningModule)])" by simp
  have "clean_memory [(''model'', TorchModule), (''x'', PyTensor), (''module'', LightningModule)] = [(''x'', PyTensor)]"
    by (simp add: clean_memory_filter [OF d] is_module_def)
  then show ?thesis using clean_memory_spec [OF d] d by (simp add: is_module_def)
qed

text \<open>C19: \<^verbatim>\<open>finetune_head\<close> freezes every pretrained parameter before it installs the new
  classifier, so the optimizer of \<^verbatim>\<open>configure_optimizers\<close> receives exactly the new head's
  layers and the notebook prints 222820 trainable parameters whatever the backbone;
  \<^verbatim>\<open>early_stopping\<close> freezes nothing and trains the backbone with a 76900-parameter head.\<close>

theorem finetune_head_trains_head:
  "configure_optimizers (finetune_head_model pretrained) = head_classifier
   \<and> num_trainable (finetune_head_model pretrained) = 222820
   \<and> (case finetune_head pretrained of
        [PrintTrainable n, Fit t m d] \<Rightarrow>
          n = 222820 \<and> module_optimizer m = (head_classifier, 0.0001) \<and> max_epochs t = 10 \<and> ft_batch_size d = 128
      | _ \<Rightarrow> False)
   \<and> num_trainable (early_stopping_model pretrained) =
       sum_list (map (\<lambda>(l, g). if g then layer_params l else 0) (vit_backbone pretrained)) + 76900"
proof -
  have f: "filter snd (map (\<lambda>(l, g). (l, False)) xs) = []" for xs :: "(layer \<times> bool) list"
    by (induction xs) auto
  have c: "configure_optimizers (finetune_head_model pretrained) = head_classifier"
    by (simp add: configure_optimizers_def finetune_head_model_def set_classifier_def vit_freeze_def
        vit_parameters_def f comp_def)
  moreover have n: "num_trainable (finetune_head_model pretrained) = 222820"
    unfolding finetune_head_model_def num_trainable_set_classifier
    by (simp add: vit_freeze_def seq_params_def head_classifier_def split: prod.split)
  moreover have "case finetune_head pretrained of
        [PrintTrainable n, Fit t m d] \<Rightarrow>
          n = 222820 \<and> module_optimizer m = (head_classifier, 0.0001) \<and> max_epochs t = 10 \<and> ft_batch_size d = 128
      | _ \<Rightarrow> False"
    by (simp add: finetune_head_def ft_Module_def module_optimizer_def pl_Trainer_def ft_Data_def c n)
  moreover have "num_trainable (early_stopping_model pretrained) =
       sum_list (map (\<lambda>(l, g). if g then layer_params l else 0) (vit_backbone pretrained)) + 76900"
    unfolding early_stopping_model_def num_trainable_set_classifier
    by (simp add: seq_params_def es_classifier_def)
  ultimately show ?thesis by blast
qed

end
