(* ===== verification/Finetune_Cells.thy ===== *)
theory Finetune_Cells
  imports Finetune
begin

text \<open>
  The two remaining pieces of the fine-tuning notebook
  (\<^verbatim>\<open>src/05-foundation/01-finetuning.ipynb\<close>):
  \<^item> \<open>fetch_resources\<close>: the cell that downloads CIFAR100 and the pretrained model and
    prints the model's parameter count (\<open>num_parameters\<close>,
    \<^verbatim>\<open>sum([p.numel() for p in model.parameters()])\<close>); the download is the event
    \<open>Download\<close>, \<^verbatim>\<open>from_pretrained\<close> a parameter;
  \<^item> \<open>ft_forward\<close>: \<^verbatim>\<open>Module.forward\<close>, \<^verbatim>\<open>self.model(x).logits\<close>, with the HuggingFace
    model's call and its \<^verbatim>\<open>.logits\<close> field as parameters.
\<close>

definition num_parameters :: "vit \<Rightarrow> nat" where
  "num_parameters m = sum_list (map (\<lambda>(l, g). layer_params l) (vit_parameters m))"

datatype fetch_event = Download string | PrintNumParams nat

definition fetch_resources :: "(string \<Rightarrow> vit) \<Rightarrow> fetch_event list" where
  "fetch_resources from_pretrained =
     (let model = from_pretrained MODEL
      in [Download ''cifar100'', PrintNumParams (num_parameters model)])"

definition ft_forward :: "('m \<Rightarrow> 'x \<Rightarrow> 'o) \<Rightarrow> ('o \<Rightarrow> 'l) \<Rightarrow> 'm ft_module \<Rightarrow> 'x \<Rightarrow> 'l" where
  "ft_forward call logits self x = logits (call (ft_model self) x)"

subsection \<open>Lemmas\<close>

text \<open>The trainable count the runs print never exceeds the parameter count the first cell
  prints, and the two agree exactly when every parameter with a non-zero count is
  trainable.\<close>

lemma num_trainable_le_parameters:
  "num_trainable m \<le> num_parameters m
   \<and> (num_trainable m = num_parameters m \<longleftrightarrow> (\<forall>(l, g)\<in>set (vit_parameters m). layer_params l = 0 \<or> g))"
proof -
  have "sum_list (map (\<lambda>(l, g). if g then layer_params l else 0) ps) \<le> sum_list (map (\<lambda>(l, g). layer_params l) ps)
     \<and> (sum_list (map (\<lambda>(l, g). if g then layer_params l else 0) ps) = sum_list (map (\<lambda>(l, g). layer_params l) ps)
        \<longleftrightarrow> (\<forall>(l, g)\<in>set ps. layer_params l = 0 \<or> g))" for ps :: "(layer \<times> bool) list"
  proof (induction ps)
    case Nil
    then show ?case by simp
  next
    case (Cons p ps)
    obtain l g where p: "p = (l, g)" by fastforce
    then show ?case using Cons.IH by (cases g) auto
  qed
  then show ?thesis by (simp add: num_trainable_def num_parameters_def)
qed

end
