(* ===== verification/Saliency.thy ===== *)
theory Saliency
  imports Torch
begin

text \<open>
  The saliency-map notebook \<^verbatim>\<open>src/02-images/02-saliency-maps.ipynb\<close>. A tensor whose rank
  the code inspects is a Torch \<open>ndarray\<close>, its shape and its entries in row-major order;
  \<^verbatim>\<open>x.permute(1, 2, 0)\<close> of a \<open>(C, H, W)\<close> image is \<open>permute_120\<close>.
  \<^item> \<open>show_map\<close>: the helper that displays an image and a saliency map. Its effects are
    the \<open>show_event\<close>s it produces (the printed shapes, the two \<^verbatim>\<open>imshow\<close> calls) and the
    exception that stops it. The colour map \<^verbatim>\<open>jet\<close> (RGBA, the "bad" colour for NaN) and
    \<^verbatim>\<open>interpolate(..., mode="bilinear")\<close> are library functions and parameters;
    \<^verbatim>\<open>0.5 * image + 0.5 * s\<close> broadcasts a one-channel image and fails for other channel
    counts but 3, and \<^verbatim>\<open>torch.cat([image, s], 1)\<close> needs three channels.
  \<^item> \<open>preprocessed_view\<close>: the rescaled preprocessed image the notebook shows.
  \<^item> \<open>top_classes\<close>: the ten most probable classes (\<^verbatim>\<open>probs.argsort(descending=True)[:10]\<close>).
  \<^item> \<open>grad_state\<close>, \<open>backward\<close>, \<open>saliency_cell\<close>: the gradient cells. The input's
    \<^verbatim>\<open>requires_grad\<close> flag and \<^verbatim>\<open>.grad\<close> are the state; \<^verbatim>\<open>backward()\<close> adds the
    gradient of the chosen logit (a parameter, the model's autograd) to \<^verbatim>\<open>.grad\<close>, as
    PyTorch accumulates gradients; the cell resets \<^verbatim>\<open>x.grad = None\<close> first and maps the
    result to \<^verbatim>\<open>torch.linalg.norm(x.grad.clip(min=0), dim=0)\<close> (\<open>grad_norm_map\<close>);
    \<open>gradient_map_cell\<close> and \<open>cat_cell\<close> are the two cells with their \<^verbatim>\<open>show_map\<close>;
    \<open>top_lines\<close> is the printout of the top classes.
  \<^item> \<open>gradcam_rows\<close>, \<open>gradcam_probs\<close>, \<open>gradcam_map\<close>: the GradCAM cell, the classifier
    \<^verbatim>\<open>model.fc\<close> (a parameter) applied to every region's feature vector of
    \<^verbatim>\<open>activations.flatten(1).T\<close>, then a softmax per region; \<open>gradcam_activations\<close> and
    \<open>gradcam_cell\<close> run the trunk of the network (its modules a parameter) and the cell.
\<close>

named_theorems saliency_simps "evaluation of the saliency notebook"

datatype show_event = ShowPrint "nat list" "nat list" "nat list" | Imshow "nat list" "fval list"

definition mix :: "fval \<Rightarrow> real \<Rightarrow> fval" where
  "mix a b = map_option (\<lambda>v. 0.5 * v + 0.5 * b) a"

definition cat_width :: "nat \<Rightarrow> nat \<Rightarrow> 'a list \<Rightarrow> 'a list \<Rightarrow> 'a list" where
  "cat_width h row a b = concat [take row (drop (i * row) a) @ take row (drop (i * row) b). i \<leftarrow> [0..<h]]"

definition show_map ::
  "(fval \<Rightarrow> real list) \<Rightarrow> (ndarray \<Rightarrow> nat \<Rightarrow> nat \<Rightarrow> ndarray) \<Rightarrow> ndarray \<Rightarrow> ndarray \<Rightarrow>
   show_event list \<times> py_error option" where
  "show_map jet interpolate x saliency =
     (if \<not> (ndim x = 3 \<and> ndim saliency = 2) then ([], Some AssertionError)
      else
        (let image = permute_120 x; c = shape x ! 0; h = shape x ! 1; w = shape x ! 2;
             s0 = (if shape saliency \<noteq> [h, w] then interpolate saliency h w else saliency)
         in case minmax_normalise (vals image) of
              Inl e \<Rightarrow> ([], Some e)
            | Inr img \<Rightarrow>
                (case minmax_normalise (vals s0) of
                   Inl e \<Rightarrow> ([], Some e)
                 | Inr sn \<Rightarrow>
                     (let s = concat (map (\<lambda>v. take 3 (jet v)) sn)
                      in if c \<noteq> 3 \<and> c \<noteq> 1 then ([], Some RuntimeError)
                         else
                           (let mixed = [mix (img ! (p * c + (if c = 1 then 0 else k))) (s ! (p * 3 + k)).
                                           p \<leftarrow> [0..<h * w], k \<leftarrow> [0..<3]];
                                evs = [ShowPrint (shape x) [h, w, 3] [h, w, 3]]
                            in if c \<noteq> 3 then (evs, Some RuntimeError)
                               else (evs @ [Imshow [h, 2 * w, 3] (cat_width h (w * 3) img (map Some s)),
                                            Imshow [h, w, 3] mixed], None))))))"

definition preprocessed_view :: "ndarray \<Rightarrow> fval list result" where
  "preprocessed_view x = minmax_normalise (vals (permute_120 x))"

definition top_classes :: "tensor \<Rightarrow> nat list" where
  "top_classes probs = take 10 (argsort_desc (\<lambda>i. probs ! i) [0..<length probs])"

subsection \<open>The gradient cells\<close>

record grad_state =
  x_requires_grad :: bool
  x_grad :: "real list option"

definition backward :: "real list \<Rightarrow> grad_state \<Rightarrow> grad_state result" where
  "backward g st =
     (if \<not> x_requires_grad st then Inl RuntimeError
      else Inr (st\<lparr>x_grad := Some (case x_grad st of None \<Rightarrow> g | Some g0 \<Rightarrow> map2 (+) g0 g)\<rparr>))"

definition grad_norm_map :: "nat \<Rightarrow> nat \<Rightarrow> nat \<Rightarrow> real list \<Rightarrow> real list" where
  "grad_norm_map c h w g =
     [sqrt (\<Sum>k<c. (max 0 (g ! (k * (h * w) + i * w + j)))\<^sup>2). i \<leftarrow> [0..<h], j \<leftarrow> [0..<w]]"

definition SHIP :: nat where "SHIP = 628"
definition CAT :: nat where "CAT = 282"

definition saliency_cell ::
  "(nat \<Rightarrow> real list) \<Rightarrow> nat \<Rightarrow> nat \<Rightarrow> nat \<Rightarrow> nat \<Rightarrow> grad_state \<Rightarrow> (grad_state \<times> real list) result" where
  "saliency_cell logit_grad cls c h w st =
     (case backward (logit_grad cls) (st\<lparr>x_requires_grad := True, x_grad := None\<rparr>) of
        Inl e \<Rightarrow> Inl e
      | Inr st' \<Rightarrow> (case x_grad st' of None \<Rightarrow> Inl TypeError | Some g \<Rightarrow> Inr (st', grad_norm_map c h w g)))"

text \<open>The cell as a whole: reset, forward, backward, norm map, then \<^verbatim>\<open>show_map(x, value)\<close>
  with the map as an \<open>(H, W)\<close> tensor. The forward pass \<^verbatim>\<open>logits = model(x[None])[0]\<close> has
  \<open>nlogits\<close> entries, and \<^verbatim>\<open>logits[cls]\<close> raises \<^verbatim>\<open>IndexError\<close> past them, after the cell
  has already reset \<^verbatim>\<open>x.grad\<close>; \<open>saliency_cell\<close> is the rest of the cell, for an index
  within the logits.\<close>

definition gradient_map_cell ::
  "(fval \<Rightarrow> real list) \<Rightarrow> (ndarray \<Rightarrow> nat \<Rightarrow> nat \<Rightarrow> ndarray) \<Rightarrow> (nat \<Rightarrow> real list) \<Rightarrow> nat \<Rightarrow> nat \<Rightarrow>
   ndarray \<Rightarrow> grad_state \<Rightarrow> grad_state \<times> show_event list \<times> py_error option" where
  "gradient_map_cell jet interpolate logit_grad nlogits cls x st =
     (let c = shape x ! 0; h = shape x ! 1; w = shape x ! 2
      in if nlogits \<le> cls then (st\<lparr>x_requires_grad := True, x_grad := None\<rparr>, [], Some IndexError)
         else case saliency_cell logit_grad cls c h w st of
           Inl e \<Rightarrow> (st\<lparr>x_requires_grad := True, x_grad := None\<rparr>, [], Some e)
         | Inr (st', value) \<Rightarrow>
             (case show_map jet interpolate x \<lparr>shape = [h, w], vals = value\<rparr> of (evs, err) \<Rightarrow> (st', evs, err)))"

definition cat_cell ::
  "(fval \<Rightarrow> real list) \<Rightarrow> (ndarray \<Rightarrow> nat \<Rightarrow> nat \<Rightarrow> ndarray) \<Rightarrow> (nat \<Rightarrow> real list) \<Rightarrow> nat \<Rightarrow> ndarray \<Rightarrow>
   grad_state \<Rightarrow> grad_state \<times> show_event list \<times> py_error option" where
  "cat_cell jet interpolate logit_grad nlogits x st = gradient_map_cell jet interpolate logit_grad nlogits CAT x st"

definition top_lines :: "(nat \<Rightarrow> string) \<Rightarrow> tensor \<Rightarrow> (nat \<times> string \<times> real) list" where
  "top_lines labels probs = map (\<lambda>i. (i, labels i, probs ! i * 100)) (top_classes probs)"

subsection \<open>GradCAM\<close>

text \<open>The trunk of ResNet34 up to \<^verbatim>\<open>layer4\<close> is the list of its modules
  (\<^verbatim>\<open>conv1\<close>, \<^verbatim>\<open>bn1\<close>, \<^verbatim>\<open>relu\<close>, \<^verbatim>\<open>maxpool\<close>, \<^verbatim>\<open>layer1\<close> to \<^verbatim>\<open>layer4\<close>), parameters
  applied in that order to \<^verbatim>\<open>x[None]\<close>.\<close>

definition add_batch :: "ndarray \<Rightarrow> ndarray" where
  "add_batch x = x\<lparr>shape := 1 # shape x\<rparr>"

definition gradcam_activations :: "(ndarray \<Rightarrow> ndarray) list \<Rightarrow> ndarray \<Rightarrow> ndarray result" where
  "gradcam_activations trunk x = index0 (fold (\<lambda>layer y. layer y) trunk (add_batch x))"

definition gradcam_rows :: "nat \<Rightarrow> nat \<Rightarrow> nat \<Rightarrow> real list \<Rightarrow> real list list" where
  "gradcam_rows d h w acts = [[acts ! (k * (h * w) + i). k \<leftarrow> [0..<d]]. i \<leftarrow> [0..<h * w]]"

definition gradcam_probs :: "(real list \<Rightarrow> real list) \<Rightarrow> nat \<Rightarrow> nat \<Rightarrow> nat \<Rightarrow> real list \<Rightarrow> real list list" where
  "gradcam_probs fc d h w acts = map (\<lambda>v. softmax (fc v)) (gradcam_rows d h w acts)"

definition gradcam_map :: "(real list \<Rightarrow> real list) \<Rightarrow> nat \<Rightarrow> nat \<Rightarrow> nat \<Rightarrow> real list \<Rightarrow> nat \<Rightarrow> real list" where
  "gradcam_map fc d h w acts cls = map (\<lambda>p. p ! cls) (gradcam_probs fc d h w acts)"

definition gradcam_cell :: "(real list \<Rightarrow> real list) \<Rightarrow> (ndarray \<Rightarrow> ndarray) list \<Rightarrow> ndarray \<Rightarrow> real list list result" where
  "gradcam_cell fc trunk x =
     (case gradcam_activations trunk x of
        Inl e \<Rightarrow> Inl e
      | Inr activations \<Rightarrow>
          (case shape activations of
             [d, h, w] \<Rightarrow> Inr (gradcam_probs fc d h w (vals activations))
           | _ \<Rightarrow> Inl ValueError))"

subsection \<open>Running the cells in any order\<close>

text \<open>A notebook's cells run in any order and any number of times. The cells that touch
  the input's gradient state are the preprocessing cell (\<^verbatim>\<open>x = weights.transforms()(image)\<close>
  makes a fresh tensor: no gradient, not requiring one), the two gradient cells, and the
  cells that only run the model forward (the prediction and GradCAM cells), which leave
  \<^verbatim>\<open>x.grad\<close> as it is. \<open>notebook_step\<close> has one rule per kind of cell, and one for a
  gradient cell whose \<^verbatim>\<open>logits[cls]\<close> raises after the reset; \<open>reachable_cells\<close>
  are the states reachable from a freshly preprocessed input.\<close>

definition fresh_input :: grad_state where
  "fresh_input = \<lparr>x_requires_grad = False, x_grad = None\<rparr>"

inductive notebook_step :: "(nat \<Rightarrow> real list) \<Rightarrow> grad_state \<Rightarrow> grad_state \<Rightarrow> bool" for logit_grad where
  preprocess: "notebook_step logit_grad st fresh_input"
| gradient: "cls \<in> {SHIP, CAT} \<Longrightarrow> saliency_cell logit_grad cls c h w st = Inr (st', value) \<Longrightarrow>
     notebook_step logit_grad st st'"
| index_error: "cls \<in> {SHIP, CAT} \<Longrightarrow>
     notebook_step logit_grad st (st\<lparr>x_requires_grad := True, x_grad := None\<rparr>)"
| forward_only: "notebook_step logit_grad st st"

inductive reachable_cells :: "(nat \<Rightarrow> real list) \<Rightarrow> grad_state \<Rightarrow> bool" for logit_grad where
  start: "reachable_cells logit_grad fresh_input"
| step: "reachable_cells logit_grad st \<Longrightarrow> notebook_step logit_grad st st' \<Longrightarrow> reachable_cells logit_grad st'"

definition grad_inv :: "(nat \<Rightarrow> real list) \<Rightarrow> grad_state \<Rightarrow> bool" where
  "grad_inv logit_grad st \<longleftrightarrow>
     x_grad st = None \<or> (x_requires_grad st \<and> (x_grad st = Some (logit_grad SHIP) \<or> x_grad st = Some (logit_grad CAT)))"

inductive_cases notebook_stepE: "notebook_step logit_grad st st'"

subsection \<open>Lemmas on the image tensors\<close>

lemma colour_panel [saliency_simps]:
  assumes "\<forall>v. length (jet v) = 4 \<and> (\<forall>y\<in>set (jet v). 0 \<le> y \<and> y \<le> (1 :: real))"
  shows "length (concat (map (\<lambda>v. take 3 (jet v)) sn)) = 3 * length sn
     \<and> (\<forall>y\<in>set (concat (map (\<lambda>v. take 3 (jet v)) sn)). 0 \<le> y \<and> y \<le> 1)"
proof -
  have l: "\<And>v. length (jet v) = 4" using assms by blast
  have "length (concat (map (\<lambda>v. take 3 (jet v)) sn)) = 3 * length sn"
    by (simp add: length_concat comp_def l sum_list_triv)
  moreover have "\<forall>y\<in>set (concat (map (\<lambda>v. take 3 (jet v)) sn)). 0 \<le> y \<and> y \<le> 1"
    using assms by (auto dest: in_set_takeD)
  ultimately show ?thesis by blast
qed

lemma cat_width_set [saliency_simps]: "set (cat_width h row a b) \<subseteq> set a \<union> set b"
  by (auto simp: cat_width_def dest: in_set_takeD in_set_dropD)

lemma mixed_range [saliency_simps]:
  assumes "length img = h * w * 3" and "\<forall>y\<in>set img. \<exists>v. y = Some v \<and> 0 \<le> v \<and> v \<le> 1"
    and "length s = 3 * (h * w)" and "\<forall>y\<in>set s. 0 \<le> y \<and> y \<le> (1 :: real)"
  shows "\<forall>y\<in>set [mix (img ! (p * 3 + k)) (s ! (p * 3 + k)). p \<leftarrow> [0..<h * w], k \<leftarrow> [0..<3]].
           \<exists>v. y = Some v \<and> 0 \<le> v \<and> v \<le> 1"
proof -
  have "\<exists>v. mix (img ! (p * 3 + k)) (s ! (p * 3 + k)) = Some v \<and> 0 \<le> v \<and> v \<le> 1"
    if p: "p < h * w" and k: "k < 3" for p k
  proof -
    have idx: "p * 3 + k < h * w * 3" using index_chw_less [of p "h * w" 0 3 k 1] p k by simp
    obtain v where v: "img ! (p * 3 + k) = Some v" "0 \<le> v" "v \<le> 1"
      using assms(1,2) idx nth_mem by metis
    have b: "0 \<le> s ! (p * 3 + k)" "s ! (p * 3 + k) \<le> 1" using assms(3,4) idx nth_mem by (metis mult.commute)+
    show ?thesis using v b by (simp add: mix_def)
  qed
  then show ?thesis by auto
qed

lemma grad_norm_map_nonneg [saliency_simps]: "v \<in> set (grad_norm_map c h w g) \<Longrightarrow> 0 \<le> v"
  by (auto simp: grad_norm_map_def intro!: sum_nonneg)

lemma nth_grid [saliency_simps]:
  "i < h \<Longrightarrow> j < w \<Longrightarrow> concat (map (\<lambda>i. map (f i) [0..<w]) [0..<h]) ! (i * w + j) = f i j"
proof (induction h arbitrary: i)
  case 0
  then show ?case by simp
next
  case (Suc h)
  have len: "length (concat (map (\<lambda>i. map (f i) [0..<w]) [0..<h])) = h * w"
    by (simp add: length_concat comp_def sum_list_triv)
  show ?case
  proof (cases "i < h")
    case True
    have "i * w + j < h * w" using index_chw_less [of 0 1 i h j w] True Suc.prems(2) by simp
    then show ?thesis using Suc.IH [OF True Suc.prems(2)] len by (simp add: nth_append)
  next
    case False
    then have "i = h" using Suc.prems(1) by simp
    then show ?thesis using len Suc.prems(2) by (simp add: nth_append)
  qed
qed

lemma grad_norm_map_zero [saliency_simps]:
  "i < h \<Longrightarrow> j < w \<Longrightarrow>
   grad_norm_map c h w g ! (i * w + j) = 0 \<longleftrightarrow> (\<forall>k<c. g ! (k * (h * w) + i * w + j) \<le> 0)"
proof -
  assume i: "i < h" and j: "j < w"
  have n: "[f i j. i \<leftarrow> [0..<h], j \<leftarrow> [0..<w]] ! (i * w + j) = f i j" for f :: "nat \<Rightarrow> nat \<Rightarrow> real"
    by (rule nth_grid [OF i j])
  have "(\<Sum>k<c. (max 0 (g ! (k * (h * w) + i * w + j)))\<^sup>2) = 0 \<longleftrightarrow>
        (\<forall>k<c. max 0 (g ! (k * (h * w) + i * w + j)) = 0)"
    by (simp add: sum_nonneg_eq_0_iff Ball_def lessThan_iff)
  moreover have "max 0 x = 0 \<longleftrightarrow> x \<le> 0" for x :: real
    by (simp add: max_def)
  ultimately show ?thesis by (simp add: grad_norm_map_def n)
qed

lemma top_classes_spec [saliency_simps]:
  "distinct (top_classes probs) \<and> length (top_classes probs) = min 10 (length probs)
   \<and> set (top_classes probs) \<subseteq> {..<length probs}
   \<and> (\<forall>i\<in>set (top_classes probs). \<forall>j<length probs. j \<notin> set (top_classes probs) \<longrightarrow> probs ! j \<le> probs ! i)"
proof -
  let ?xs = "argsort_desc (\<lambda>i. probs ! i) [0..<length probs]"
  have "sorted_wrt (\<lambda>i j. probs ! j \<le> probs ! i) (take 10 ?xs @ drop 10 ?xs)"
    using argsort_desc_sorted [of "\<lambda>i. probs ! i" "[0..<length probs]"] by simp
  then have sw: "\<forall>x\<in>set (take 10 ?xs). \<forall>y\<in>set (drop 10 ?xs). probs ! y \<le> probs ! x"
    unfolding sorted_wrt_append by blast
  have st: "set ?xs = {..<length probs}" by (auto simp: argsort_desc_set)
  have d: "distinct ?xs" by (simp add: argsort_desc_distinct)
  have "probs ! j \<le> probs ! i" if "i \<in> set (take 10 ?xs)" "j < length probs" "j \<notin> set (take 10 ?xs)" for i j
  proof -
    have "j \<in> set (drop 10 ?xs)" using that(2,3) st by (metis UnE lessThan_iff set_append append_take_drop_id)
    then show ?thesis using sw that(1) by blast
  qed
  then show ?thesis using d st by (auto simp: top_classes_def argsort_desc_length dest: in_set_takeD)
qed

lemma gradcam_prob_vec [saliency_simps]:
  "\<forall>v. fc v \<noteq> [] \<Longrightarrow> p \<in> set (gradcam_probs fc d h w acts) \<Longrightarrow> prob_vec p \<and> (\<forall>y\<in>set p. 0 < y)"
  by (auto simp: gradcam_probs_def softmax_prob_vec softmax_pos)

lemma gradcam_cell_regions [saliency_simps]:
  assumes "\<forall>v. fc v \<noteq> []" and "gradcam_activations trunk x = Inr a" and "shape a = [d, h, w]"
  shows "\<exists>probs. gradcam_cell fc trunk x = Inr probs \<and> length probs = h * w
           \<and> (\<forall>p\<in>set probs. prob_vec p \<and> (\<forall>y\<in>set p. 0 < y))"
  using assms gradcam_prob_vec [OF assms(1)]
  by (simp add: gradcam_cell_def gradcam_probs_def gradcam_rows_def)

lemma saliency_cell_Inr [saliency_simps]:
  "saliency_cell logit_grad cls c h w st = Inr (st', v) \<longleftrightarrow>
     st' = st\<lparr>x_requires_grad := True, x_grad := Some (logit_grad cls)\<rparr> \<and> v = grad_norm_map c h w (logit_grad cls)"
  by (auto simp: saliency_cell_def backward_def)

lemma notebook_step_grad_inv [saliency_simps]:
  assumes "notebook_step logit_grad st st'" and "grad_inv logit_grad st"
  shows "grad_inv logit_grad st'"
  using assms by (cases rule: notebook_stepE) (auto simp: grad_inv_def fresh_input_def saliency_cell_Inr)

lemma reachable_grad_inv [saliency_simps]: "reachable_cells logit_grad st \<Longrightarrow> grad_inv logit_grad st"
proof (induction rule: reachable_cells.induct)
  case start
  show ?case by (simp add: grad_inv_def fresh_input_def)
next
  case (step st st')
  then show ?case by (blast intro: notebook_step_grad_inv)
qed

lemma show_map_ok:
  assumes jet: "\<forall>v. length (jet v) = 4 \<and> (\<forall>y\<in>set (jet v). 0 \<le> y \<and> y \<le> 1)"
    and interp: "\<forall>a h w. length (vals (interpolate a h w)) = h * w"
    and x: "wf_nd x" "shape x = [3, h, w]" and sal: "wf_nd saliency" "ndim saliency = 2"
    and nc: "\<exists>a\<in>set (vals x). \<exists>b\<in>set (vals x). a \<noteq> b"
  shows "snd (show_map jet interpolate x saliency) = None
     \<and> (\<forall>sh vs. Imshow sh vs \<in> set (fst (show_map jet interpolate x saliency)) \<longrightarrow>
           (\<forall>y\<in>set vs. \<exists>v. y = Some v \<and> 0 \<le> v \<and> v \<le> 1))"
proof -
  have pv: "shape (permute_120 x) = [h, w, 3] \<and> length (vals (permute_120 x)) = 3 * h * w
         \<and> set (vals (permute_120 x)) = set (vals x)" by (rule permute_120_vals [OF x])
  obtain img where img: "minmax_normalise (vals (permute_120 x)) = Inr img" "length img = 3 * h * w"
    "\<forall>y\<in>set img. \<exists>v. y = Some v \<and> 0 \<le> v \<and> v \<le> 1"
    using minmax_unit_range [of "vals (permute_120 x)"] nc pv by auto
  have hw: "0 < h * w" using img(2) nc x by (cases "h * w = 0") (auto simp: wf_nd_def)
  let ?s0 = "if shape saliency \<noteq> [h, w] then interpolate saliency h w else saliency"
  have ls0: "length (vals ?s0) = h * w" using interp sal(1) by (auto simp: wf_nd_def)
  then have "vals ?s0 \<noteq> []" using hw by (metis length_0_conv less_irrefl)
  then obtain sn where sn: "minmax_normalise (vals ?s0) = Inr sn" "length sn = h * w"
    using minmax_length [of "vals ?s0"] ls0 by auto
  let ?s = "concat (map (\<lambda>v. take 3 (jet v)) sn)"
  have s: "length ?s = 3 * (h * w)" "\<forall>y\<in>set ?s. 0 \<le> y \<and> y \<le> 1"
    using colour_panel [OF jet, of sn] sn(2) by auto
  let ?mixed = "[mix (img ! (p * 3 + k)) (?s ! (p * 3 + k)). p \<leftarrow> [0..<h * w], k \<leftarrow> [0..<3]]"
  let ?cat = "cat_width h (w * 3) img (map Some ?s)"
  have sm: "show_map jet interpolate x saliency =
      ([ShowPrint (shape x) [h, w, 3] [h, w, 3], Imshow [h, 2 * w, 3] ?cat, Imshow [h, w, 3] ?mixed], None)"
    using x(2) sal(2) img(1) sn(1) by (simp add: show_map_def ndim_def Let_def)
  have m: "\<forall>y\<in>set ?mixed. \<exists>v. y = Some v \<and> 0 \<le> v \<and> v \<le> 1"
    using mixed_range [of img h w ?s] img(2,3) s by (simp add: mult_ac)
  have c: "\<forall>y\<in>set ?cat. \<exists>v. y = Some v \<and> 0 \<le> v \<and> v \<le> 1"
    using cat_width_set [of h "w * 3" img "map Some ?s"] img(3) s(2) by auto
  show ?thesis using m c by (simp add: sm)
qed

subsection \<open>Properties of the saliency notebook\<close>



text \<open>C22: the notebook's cells may run in any order, and PyTorch accumulates gradients
  into \<^verbatim>\<open>x.grad\<close>; because both gradient cells reset \<^verbatim>\<open>x.grad = None\<close> before
  \<^verbatim>\<open>backward()\<close>, in every state the notebook can reach \<^verbatim>\<open>x.grad\<close> is empty or exactly the
  gradient of one of the two logits (never a sum), and from every such state the ship cell
  and the cat cell each show the norm map of their own logit's gradient alone.\<close>

theorem saliency_cells_reset:
  assumes "reachable_cells logit_grad st"
  shows "grad_inv logit_grad st
         \<and> (\<forall>cls\<in>{SHIP, CAT}. \<exists>st'. saliency_cell logit_grad cls c h w st = Inr (st', grad_norm_map c h w (logit_grad cls))
                                 \<and> x_grad st' = Some (logit_grad cls) \<and> grad_inv logit_grad st')"
proof -
  have "grad_inv logit_grad st" using assms by (rule reachable_grad_inv)
  moreover have "\<exists>st'. saliency_cell logit_grad cls c h w st = Inr (st', grad_norm_map c h w (logit_grad cls))
                      \<and> x_grad st' = Some (logit_grad cls) \<and> grad_inv logit_grad st'"
    if "cls \<in> {SHIP, CAT}" for cls
    using that by (auto simp: saliency_cell_Inr grad_inv_def)
  ultimately show ?thesis by blast
qed

theorem saliency_cells_reset_witness:
  "reachable_cells (\<lambda>k. [real k]) \<lparr>x_requires_grad = True, x_grad = Some [282]\<rparr>
   \<and> grad_inv (\<lambda>k. [real k]) \<lparr>x_requires_grad = True, x_grad = Some [282]\<rparr>
   \<and> saliency_cell (\<lambda>k. [real k]) SHIP 1 1 1 \<lparr>x_requires_grad = True, x_grad = Some [282]\<rparr>
       = Inr (\<lparr>x_requires_grad = True, x_grad = Some [628]\<rparr>, [628])"
proof -
  let ?g = "\<lambda>k. [real k]"
  let ?s1 = "\<lparr>x_requires_grad = True, x_grad = Some [628]\<rparr>"
  let ?s2 = "\<lparr>x_requires_grad = True, x_grad = Some [282]\<rparr>"
  have s1: "saliency_cell ?g SHIP 1 1 1 fresh_input = Inr (?s1, [628])"
    by (simp add: saliency_cell_Inr fresh_input_def SHIP_def grad_norm_map_def)
  have s2: "saliency_cell ?g CAT 1 1 1 ?s1 = Inr (?s2, [282])"
    by (simp add: saliency_cell_Inr CAT_def grad_norm_map_def)
  have r1: "reachable_cells ?g ?s1"
    by (rule reachable_cells.step [OF reachable_cells.start notebook_step.gradient [OF _ s1]]) simp
  have r2: "reachable_cells ?g ?s2"
    by (rule reachable_cells.step [OF r1 notebook_step.gradient [OF _ s2]]) simp
  have "saliency_cell ?g SHIP 1 1 1 ?s2 = Inr (?s1, [628])"
    by (simp add: saliency_cell_Inr SHIP_def grad_norm_map_def)
  then show ?thesis using saliency_cells_reset [OF r2, of 1 1 1] r2 by (simp add: SHIP_def)
qed

end
