(* ===== verification/Saliency_Notebook.thy ===== *)
theory Saliency_Notebook
  imports Saliency
begin

text \<open>
  The saliency notebook (\<^verbatim>\<open>src/02-images/02-saliency-maps.ipynb\<close>) run from top to
  bottom up to the cat cell, with the cells' outputs as events and the first exception
  ending the run. ResNet34's forward pass (\<open>model\<close>, the logits of \<^verbatim>\<open>model(x[None])[0]\<close>),
  the weights' preprocessing (\<open>transform\<close>, \<^verbatim>\<open>weights.transforms()\<close>), the label names,
  matplotlib's \<open>jet\<close>, torch's \<open>interpolate\<close> and the gradients of the logits are
  parameters; the image is an input.
  \<^item> \<open>load_cell\<close>: shows the original image, computes \<^verbatim>\<open>x\<close>, prints its size and shows the
    rescaled view (\<open>preprocessed_view\<close>);
  \<^item> \<open>predict_cell\<close>: the prediction cell, one printed line per top class
    (\<open>top_lines\<close>); it only runs the model forward;
  \<^item> \<open>map_cell\<close>: a simple-gradient cell (\<open>gradient_map_cell\<close>) with its title; the
    backward pass always succeeds because the cell sets \<^verbatim>\<open>x.requires_grad\<close> first, so
    the title is always shown;
  \<^item> \<open>run_saliency\<close>: the four cells in the notebook's order, the ship cell before the cat
    cell, starting from the fresh input the loading cell makes;
  \<^item> \<open>gradcam_nb_cell\<close>, \<open>gradcam_show_cell\<close>: the GradCAM cell with its prints and the two
    cells that show the GradCAM maps of the two top classes; they only run the model
    forward and leave \<^verbatim>\<open>x.grad\<close> as it is;
  \<^item> \<open>run_saliency_full\<close>: the whole notebook, the GradCAM cells after \<open>run_saliency\<close>.
  The ResNet trunk up to \<^verbatim>\<open>layer4\<close> and its classifier \<^verbatim>\<open>model.fc\<close> are parameters too.
\<close>

datatype 'img sal_event =
    STitle string
  | SImage 'img
  | SShow
  | SPrint string "nat list"
  | SView "fval list"
  | STop nat string real
  | SMap show_event

definition load_cell :: "('img \<Rightarrow> ndarray) \<Rightarrow> 'img \<Rightarrow> ndarray \<times> 'img sal_event list \<times> py_error option" where
  "load_cell transform img =
     (let x = transform img;
          evs = [STitle ''Original image'', SImage img, SShow,
                 SPrint ''Preprocessed image size:'' (shape x), STitle ''Preprocessed'']
      in (x, case preprocessed_view x of
               Inl e \<Rightarrow> (evs, Some e)
             | Inr v \<Rightarrow> if shape x ! 0 \<in> {3, 4} then (evs @ [SView v], None) else (evs, Some TypeError)))"

definition predict_cell :: "(nat \<Rightarrow> string) \<Rightarrow> (ndarray \<Rightarrow> real list) \<Rightarrow> ndarray \<Rightarrow> 'img sal_event list" where
  "predict_cell labels model x =
     (let logits = model (add_batch x);
          probs = softmax logits
      in map (\<lambda>(i, name, p). STop i name p) (top_lines labels probs))"

definition map_cell ::
  "(nat \<Rightarrow> string) \<Rightarrow> (fval \<Rightarrow> real list) \<Rightarrow> (ndarray \<Rightarrow> nat \<Rightarrow> nat \<Rightarrow> ndarray) \<Rightarrow> (nat \<Rightarrow> real list) \<Rightarrow>
   nat \<Rightarrow> nat \<Rightarrow> ndarray \<Rightarrow> grad_state \<Rightarrow> grad_state \<times> 'img sal_event list \<times> py_error option" where
  "map_cell labels jet interpolate logit_grad nlogits cls x st =
     (case gradient_map_cell jet interpolate logit_grad nlogits cls x st of
        (st', evs, err) \<Rightarrow>
          if nlogits \<le> cls then (st', [], err)
          else (st', STitle (''Saliency map for '' @ labels cls) # map SMap evs, err))"

definition run_saliency ::
  "(nat \<Rightarrow> string) \<Rightarrow> (ndarray \<Rightarrow> real list) \<Rightarrow> ('img \<Rightarrow> ndarray) \<Rightarrow> (fval \<Rightarrow> real list) \<Rightarrow>
   (ndarray \<Rightarrow> nat \<Rightarrow> nat \<Rightarrow> ndarray) \<Rightarrow> (nat \<Rightarrow> real list) \<Rightarrow> 'img \<Rightarrow>
   'img sal_event list \<times> py_error option \<times> grad_state" where
  "run_saliency labels model transform jet interpolate logit_grad img =
     (case load_cell transform img of
        (x, evs1, Some e) \<Rightarrow> (evs1, Some e, fresh_input)
      | (x, evs1, None) \<Rightarrow>
          (let evs2 = predict_cell labels model x;
               nlogits = length (model (add_batch x))
           in case map_cell labels jet interpolate logit_grad nlogits SHIP x fresh_input of
                (st1, evs3, Some e) \<Rightarrow> (evs1 @ evs2 @ evs3, Some e, st1)
              | (st1, evs3, None) \<Rightarrow>
                  (case map_cell labels jet interpolate logit_grad nlogits CAT x st1 of
                     (st2, evs4, err) \<Rightarrow> (evs1 @ evs2 @ evs3 @ evs4, err, st2))))"

text \<open>The GradCAM cell prints the activations' shape, unpacks it (a \<^verbatim>\<open>ValueError\<close> unless
  it has three dimensions) and prints the shape of the per-region probabilities; the
  reshape \<^verbatim>\<open>reshape(h, w, -1)\<close> raises when there is no region. The two map cells after
  it title the map with a top class of the prediction cell and show that class's column
  \<^verbatim>\<open>probs[..., top[k]]\<close> of the per-region probabilities.\<close>

definition gradcam_nb_cell ::
  "(real list \<Rightarrow> real list) \<Rightarrow> (ndarray \<Rightarrow> ndarray) list \<Rightarrow> ndarray \<Rightarrow>
   (nat \<times> nat \<times> real list list) option \<times> 'img sal_event list \<times> py_error option" where
  "gradcam_nb_cell fc trunk x =
     (case gradcam_activations trunk x of
        Inl e \<Rightarrow> (None, [], Some e)
      | Inr activations \<Rightarrow>
          (let evs = [SPrint ''Activations shape:'' (shape activations)]
           in case shape activations of
                [d, h, w] \<Rightarrow>
                  (case gradcam_rows d h w (vals activations) of
                     [] \<Rightarrow> (None, evs, Some RuntimeError)
                   | r # _ \<Rightarrow> (Some (h, w, gradcam_probs fc d h w (vals activations)),
                              evs @ [SPrint ''Probabilities shape:'' [h, w, length (fc r)]], None))
              | _ \<Rightarrow> (None, evs, Some ValueError)))"

definition gradcam_show_cell ::
  "(nat \<Rightarrow> string) \<Rightarrow> (fval \<Rightarrow> real list) \<Rightarrow> (ndarray \<Rightarrow> nat \<Rightarrow> nat \<Rightarrow> ndarray) \<Rightarrow> ndarray \<Rightarrow>
   nat list \<Rightarrow> nat \<times> nat \<times> real list list \<Rightarrow> nat \<Rightarrow> 'img sal_event list \<times> py_error option" where
  "gradcam_show_cell labels jet interpolate x top_k gc k =
     (case gc of (h, w, probs) \<Rightarrow>
        if length top_k \<le> k then ([], Some IndexError)
        else
          (let title = STitle (''GradCAM map for '' @ labels (top_k ! k))
           in if \<not> list_all (\<lambda>p. top_k ! k < length p) probs then ([title], Some IndexError)
              else (case show_map jet interpolate x \<lparr>shape = [h, w], vals = map (\<lambda>p. p ! (top_k ! k)) probs\<rparr> of
                      (evs, err) \<Rightarrow> (title # map SMap evs, err))))"

text \<open>The whole notebook from top to bottom: the run above, then the GradCAM cell and its
  two map cells, with \<^verbatim>\<open>top\<close> (\<open>top_k\<close>) as the prediction cell left it.\<close>

definition run_saliency_full ::
  "(nat \<Rightarrow> string) \<Rightarrow> (ndarray \<Rightarrow> real list) \<Rightarrow> ('img \<Rightarrow> ndarray) \<Rightarrow> (fval \<Rightarrow> real list) \<Rightarrow>
   (ndarray \<Rightarrow> nat \<Rightarrow> nat \<Rightarrow> ndarray) \<Rightarrow> (nat \<Rightarrow> real list) \<Rightarrow> (real list \<Rightarrow> real list) \<Rightarrow>
   (ndarray \<Rightarrow> ndarray) list \<Rightarrow> 'img \<Rightarrow> 'img sal_event list \<times> py_error option \<times> grad_state" where
  "run_saliency_full labels model transform jet interpolate logit_grad fc trunk img =
     (case run_saliency labels model transform jet interpolate logit_grad img of
        (evs, Some e, st) \<Rightarrow> (evs, Some e, st)
      | (evs, None, st) \<Rightarrow>
          (let x = fst (load_cell transform img);
               top_k = top_classes (softmax (model (add_batch x)))
           in case gradcam_nb_cell fc trunk x of
                (None, evs5, err) \<Rightarrow> (evs @ evs5, err, st)
              | (Some gc, evs5, _) \<Rightarrow>
                  (case gradcam_show_cell labels jet interpolate x top_k gc 0 of
                     (evs6, Some e) \<Rightarrow> (evs @ evs5 @ evs6, Some e, st)
                   | (evs6, None) \<Rightarrow>
                       (case gradcam_show_cell labels jet interpolate x top_k gc 1 of
                          (evs7, err) \<Rightarrow> (evs @ evs5 @ evs6 @ evs7, err, st)))))"

subsection \<open>Lemmas\<close>

lemma map_cell_state:
  "fst (map_cell labels jet interpolate logit_grad nlogits cls x st) =
     (if nlogits \<le> cls then st\<lparr>x_requires_grad := True, x_grad := None\<rparr>
      else st\<lparr>x_requires_grad := True, x_grad := Some (logit_grad cls)\<rparr>)"
  by (simp add: map_cell_def gradient_map_cell_def saliency_cell_def backward_def Let_def split: prod.splits)

lemma map_cell_step:
  assumes "cls \<in> {SHIP, CAT}"
  shows "notebook_step logit_grad st (fst (map_cell labels jet interpolate logit_grad nlogits cls x st))"
proof (cases "nlogits \<le> cls")
  case True
  then show ?thesis unfolding map_cell_state using notebook_step.index_error [OF assms] by simp
next
  case False
  then show ?thesis unfolding map_cell_state
    by simp (rule notebook_step.gradient [OF assms, where c = 0 and h = 0 and w = 0],
      simp add: saliency_cell_def backward_def)
qed

text \<open>Running the notebook from top to bottom is one of the orders \<open>reachable_cells\<close>
  allows, whichever cell raises.\<close>

lemma run_saliency_state:
  "reachable_cells logit_grad (snd (snd (run_saliency labels model transform jet interpolate logit_grad img)))"
proof -
  let ?x = "fst (load_cell transform img)"
  let ?N = "length (model (add_batch ?x))"
  let ?m = "\<lambda>cls st. map_cell labels jet interpolate logit_grad ?N cls ?x st :: grad_state \<times> 'a sal_event list \<times> py_error option"
  have r0: "reachable_cells logit_grad fresh_input" by (rule reachable_cells.start)
  have r1: "reachable_cells logit_grad (fst (?m SHIP fresh_input))"
    by (rule reachable_cells.step [OF r0 map_cell_step]) simp
  have r2: "reachable_cells logit_grad (fst (?m CAT (fst (?m SHIP fresh_input))))"
    by (rule reachable_cells.step [OF r1 map_cell_step]) simp
  show ?thesis
    using r0 r1 r2
    by (auto simp: run_saliency_def Let_def split: prod.split option.split)
qed

text \<open>The GradCAM cells run the model forward only: the whole run ends in the gradient
  state of the run without them, and its output extends that run's output.\<close>

lemma run_saliency_full_extends:
  "\<exists>evs'. fst (run_saliency_full labels model transform jet interpolate logit_grad fc trunk img) =
            fst (run_saliency labels model transform jet interpolate logit_grad img) @ evs'
     \<and> snd (snd (run_saliency_full labels model transform jet interpolate logit_grad fc trunk img)) =
       snd (snd (run_saliency labels model transform jet interpolate logit_grad img))"
  by (auto simp: run_saliency_full_def Let_def split: prod.split option.split)

subsection \<open>The cells on a well-formed input\<close>

lemma load_cell_ok:
  assumes "wf_nd (transform img)" and "shape (transform img) = [3, h, w]"
    and "\<exists>a\<in>set (vals (transform img)). \<exists>b\<in>set (vals (transform img)). a \<noteq> b"
  shows "\<exists>v. load_cell transform img =
     (transform img, [STitle ''Original image'', SImage img, SShow, SPrint ''Preprocessed image size:'' [3, h, w],
                      STitle ''Preprocessed'', SView v], None)"
proof -
  obtain ys where "minmax_normalise (vals (permute_120 (transform img))) = Inr ys"
    using minmax_unit_range [of "vals (permute_120 (transform img))"] permute_120_vals [OF assms(1,2)] assms(3)
    by auto
  then show ?thesis using assms(2) by (simp add: load_cell_def preprocessed_view_def Let_def)
qed

lemma length_grad_norm_map: "length (grad_norm_map c h w g) = h * w"
  by (simp add: grad_norm_map_def length_concat comp_def sum_list_triv)

lemma map_cell_ok:
  assumes jet: "\<forall>v. length (jet v) = 4 \<and> (\<forall>y\<in>set (jet v). 0 \<le> y \<and> y \<le> 1)"
    and interp: "\<forall>a h w. length (vals (interpolate a h w)) = h * w"
    and x: "wf_nd x" "shape x = [3, h, w]" and nc: "\<exists>a\<in>set (vals x). \<exists>b\<in>set (vals x). a \<noteq> b"
    and idx: "cls < nlogits"
  shows "\<exists>evs. snd (map_cell labels jet interpolate logit_grad nlogits cls x st :: grad_state \<times> 'img sal_event list \<times> py_error option) =
                (STitle (''Saliency map for '' @ labels cls) # map SMap evs, None)
     \<and> (\<forall>sh vs. Imshow sh vs \<in> set evs \<longrightarrow> (\<forall>y\<in>set vs. \<exists>v. y = Some v \<and> 0 \<le> v \<and> v \<le> 1))"
proof -
  let ?v = "\<lparr>shape = [h, w], vals = grad_norm_map 3 h w (logit_grad cls)\<rparr>"
  have v: "wf_nd ?v" "ndim ?v = 2" by (simp_all add: wf_nd_def ndim_def length_grad_norm_map)
  have sc: "saliency_cell logit_grad cls 3 h w st =
      Inr (st\<lparr>x_requires_grad := True, x_grad := Some (logit_grad cls)\<rparr>, grad_norm_map 3 h w (logit_grad cls))"
    by (simp add: saliency_cell_Inr)
  have mc: "snd (map_cell labels jet interpolate logit_grad nlogits cls x st :: grad_state \<times> 'img sal_event list \<times> py_error option) =
      (STitle (''Saliency map for '' @ labels cls) # map SMap (fst (show_map jet interpolate x ?v)),
       snd (show_map jet interpolate x ?v))"
    using x(2) idx by (simp add: map_cell_def gradient_map_cell_def sc split: prod.split)
  show ?thesis using show_map_ok [OF jet interp x v nc] by (auto simp: mc)
qed

lemma gradcam_nb_cell_ok:
  assumes "gradcam_activations trunk x = Inr a" and "shape a = [d, h, w]" and "0 < h * w"
  shows "gradcam_nb_cell fc trunk x =
    (Some (h, w, gradcam_probs fc d h w (vals a)),
     [SPrint ''Activations shape:'' [d, h, w],
      SPrint ''Probabilities shape:'' [h, w, length (fc (hd (gradcam_rows d h w (vals a))))]], None)"
proof -
  obtain r rs where r: "gradcam_rows d h w (vals a) = r # rs"
    using assms(3) by (cases "gradcam_rows d h w (vals a)") (auto simp: gradcam_rows_def)
  show ?thesis using assms(1,2) by (simp add: gradcam_nb_cell_def r)
qed

lemma length_gradcam_probs: "length (gradcam_probs fc d h w acts) = h * w"
  by (simp add: gradcam_probs_def gradcam_rows_def)

lemma gradcam_show_cell_ok:
  assumes jet: "\<forall>v. length (jet v) = 4 \<and> (\<forall>y\<in>set (jet v). 0 \<le> y \<and> y \<le> 1)"
    and interp: "\<forall>a h w. length (vals (interpolate a h w)) = h * w"
    and x: "wf_nd x" "shape x = [3, h, w]" and nc: "\<exists>a\<in>set (vals x). \<exists>b\<in>set (vals x). a \<noteq> b"
    and k: "k < length top_k" and cls: "list_all (\<lambda>p. top_k ! k < length p) probs"
    and len: "length probs = h' * w'"
  shows "\<exists>evs. (gradcam_show_cell labels jet interpolate x top_k (h', w', probs) k :: 'img sal_event list \<times> py_error option) =
                (STitle (''GradCAM map for '' @ labels (top_k ! k)) # map SMap evs, None)
     \<and> (\<forall>sh vs. Imshow sh vs \<in> set evs \<longrightarrow> (\<forall>y\<in>set vs. \<exists>v. y = Some v \<and> 0 \<le> v \<and> v \<le> 1))"
proof -
  let ?v = "\<lparr>shape = [h', w'], vals = map (\<lambda>p. p ! (top_k ! k)) probs\<rparr>"
  have v: "wf_nd ?v" "ndim ?v = 2" using len by (simp_all add: wf_nd_def ndim_def)
  have gc: "(gradcam_show_cell labels jet interpolate x top_k (h', w', probs) k :: 'img sal_event list \<times> py_error option) =
      (STitle (''GradCAM map for '' @ labels (top_k ! k)) # map SMap (fst (show_map jet interpolate x ?v)),
       snd (show_map jet interpolate x ?v))"
    using k cls by (simp add: gradcam_show_cell_def Let_def split: prod.split)
  show ?thesis using show_map_ok [OF jet interp x v nc] by (auto simp: gc)
qed

lemma top_k_classes:
  assumes "\<forall>y. length (model y) = N" and "2 \<le> N"
  shows "2 \<le> length (top_classes (softmax (model y))) \<and> (\<forall>k<2. top_classes (softmax (model y)) ! k < N)"
proof -
  have l: "length (softmax (model y)) = N" using assms(1) by (simp add: softmax_length)
  have "length (top_classes (softmax (model y))) = min 10 N" "set (top_classes (softmax (model y))) \<subseteq> {..<N}"
    using top_classes_spec [of "softmax (model y)"] l by auto
  then have n: "2 \<le> length (top_classes (softmax (model y)))" and sub: "set (top_classes (softmax (model y))) \<subseteq> {..<N}"
    using assms(2) by simp_all
  have "top_classes (softmax (model y)) ! k < N" if "k < 2" for k
  proof -
    have "k < length (top_classes (softmax (model y)))" using that n by linarith
    then have "top_classes (softmax (model y)) ! k \<in> set (top_classes (softmax (model y)))" by (rule nth_mem)
    then show ?thesis using sub by auto
  qed
  then show ?thesis using n by blast
qed

lemma gradcam_probs_classes:
  "\<forall>v. length (fc v) = N \<Longrightarrow> i < N \<Longrightarrow> list_all (\<lambda>p. i < length p) (gradcam_probs fc d h w acts)"
  by (simp add: gradcam_probs_def list_all_iff softmax_length)

lemma titles_map_SMap [simp]: "[t. STitle t \<leftarrow> map SMap evs] = []"
  by (induction evs) auto

lemma titles_predict_cell [simp]: "[t. STitle t \<leftarrow> predict_cell labels model x] = []"
  by (induction "top_lines labels (softmax (model (add_batch x)))") (auto simp: predict_cell_def)

subsection \<open>The whole notebook\<close>

text \<open>C17: the saliency notebook runs from top to bottom without an exception, for a
  non-constant three-channel preprocessed image, a ResNet whose trunk gives activations
  with at least one region and whose classifier and forward pass score the same number
  of classes, more than the ship's index 628 (so \<^verbatim>\<open>logits[SHIP]\<close> and \<^verbatim>\<open>logits[CAT]\<close>
  exist; ResNet34 on ImageNet scores 1000), a colour map with RGBA values in \<open>[0, 1]\<close> and an
  interpolation to the image size: it shows, in order, the original and the preprocessed
  image, the simple-gradient maps of the ship and the cat, and the GradCAM maps of the two
  classes the prediction cell ranks first; every image it shows has its values in
  \<open>[0, 1]\<close>, and \<^verbatim>\<open>x.grad\<close> ends as the cat logit's gradient.\<close>

theorem run_saliency_full_completes:
  fixes img :: 'img
  assumes jet: "\<forall>v. length (jet v) = 4 \<and> (\<forall>y\<in>set (jet v). 0 \<le> y \<and> y \<le> 1)"
    and interp: "\<forall>a h w. length (vals (interpolate a h w)) = h * w"
    and x: "wf_nd (transform img)" "shape (transform img) = [3, h, w]"
    and nc: "\<exists>a\<in>set (vals (transform img)). \<exists>b\<in>set (vals (transform img)). a \<noteq> b"
    and acts: "gradcam_activations trunk (transform img) = Inr a" "shape a = [d, h', w']" "0 < h' * w'"
    and classes: "\<forall>y. length (model y) = N" "\<forall>v. length (fc v) = N" "SHIP < N" "CAT < N"
  defines "top_k \<equiv> top_classes (softmax (model (add_batch (transform img))))"
  shows "fst (snd (run_saliency_full labels model transform jet interpolate logit_grad fc trunk img)) = None
     \<and> [t. STitle t \<leftarrow> fst (run_saliency_full labels model transform jet interpolate logit_grad fc trunk img)] =
         [''Original image'', ''Preprocessed'', ''Saliency map for '' @ labels SHIP, ''Saliency map for '' @ labels CAT,
          ''GradCAM map for '' @ labels (top_k ! 0), ''GradCAM map for '' @ labels (top_k ! 1)]
     \<and> (\<forall>sh vs. SMap (Imshow sh vs) \<in> set (fst (run_saliency_full labels model transform jet interpolate logit_grad fc trunk img))
           \<longrightarrow> (\<forall>y\<in>set vs. \<exists>v. y = Some v \<and> 0 \<le> v \<and> v \<le> 1))
     \<and> x_grad (snd (snd (run_saliency_full labels model transform jet interpolate logit_grad fc trunk img))) = Some (logit_grad CAT)"
proof -
  let ?x = "transform img"
  let ?P = "gradcam_probs fc d h' w' (vals a)"
  let ?ok = "\<lambda>evs. \<forall>sh vs. Imshow sh vs \<in> set evs \<longrightarrow> (\<forall>y\<in>set vs. \<exists>v. y = Some v \<and> 0 \<le> v \<and> v \<le> 1)"
  obtain v where L: "load_cell transform img =
      (?x, [STitle ''Original image'', SImage img, SShow, SPrint ''Preprocessed image size:'' [3, h, w],
            STitle ''Preprocessed'', SView v], None)"
    using load_cell_ok [of transform img, OF x nc] by blast
  obtain evs3 where M1: "snd (map_cell labels jet interpolate logit_grad N SHIP ?x fresh_input :: grad_state \<times> 'img sal_event list \<times> py_error option) =
      (STitle (''Saliency map for '' @ labels SHIP) # map SMap evs3, None)" and ok3: "?ok evs3"
    using map_cell_ok [OF jet interp x nc classes(3)] by blast
  define st1 where "st1 = fst (map_cell labels jet interpolate logit_grad N SHIP ?x fresh_input
                               :: grad_state \<times> 'img sal_event list \<times> py_error option)"
  obtain evs4 where M2: "snd (map_cell labels jet interpolate logit_grad N CAT ?x st1 :: grad_state \<times> 'img sal_event list \<times> py_error option) =
      (STitle (''Saliency map for '' @ labels CAT) # map SMap evs4, None)" and ok4: "?ok evs4"
    using map_cell_ok [OF jet interp x nc classes(4)] by blast
  have n2: "2 \<le> N" using classes(3) by (simp add: SHIP_def)
  have tk: "2 \<le> length top_k" "top_k ! 0 < N" "top_k ! 1 < N"
    using top_k_classes [OF classes(1) n2, of "add_batch ?x"] unfolding top_k_def by auto
  have G: "gradcam_nb_cell fc trunk ?x =
      (Some (h', w', ?P), [SPrint ''Activations shape:'' [d, h', w'],
        SPrint ''Probabilities shape:'' [h', w', length (fc (hd (gradcam_rows d h' w' (vals a))))]], None)"
    by (rule gradcam_nb_cell_ok [OF acts])
  obtain evs6 where G0: "(gradcam_show_cell labels jet interpolate ?x top_k (h', w', ?P) 0 :: 'img sal_event list \<times> py_error option) =
      (STitle (''GradCAM map for '' @ labels (top_k ! 0)) # map SMap evs6, None)" and ok6: "?ok evs6"
    using gradcam_show_cell_ok [OF jet interp x nc _ gradcam_probs_classes [OF classes(2) tk(2)] length_gradcam_probs] tk(1)
    by fastforce
  obtain evs7 where G1: "(gradcam_show_cell labels jet interpolate ?x top_k (h', w', ?P) 1 :: 'img sal_event list \<times> py_error option) =
      (STitle (''GradCAM map for '' @ labels (top_k ! 1)) # map SMap evs7, None)" and ok7: "?ok evs7"
    using gradcam_show_cell_ok [OF jet interp x nc _ gradcam_probs_classes [OF classes(2) tk(3)] length_gradcam_probs] tk(1)
    by fastforce
  define st2 where "st2 = fst (map_cell labels jet interpolate logit_grad N CAT ?x st1 :: grad_state \<times> 'img sal_event list \<times> py_error option)"
  have g2: "x_grad st2 = Some (logit_grad CAT)"
    using classes(4) by (simp add: st2_def map_cell_state)
  have R: "run_saliency_full labels model transform jet interpolate logit_grad fc trunk img =
      ([STitle ''Original image'', SImage img, SShow, SPrint ''Preprocessed image size:'' [3, h, w],
        STitle ''Preprocessed'', SView v] @ predict_cell labels model ?x
       @ (STitle (''Saliency map for '' @ labels SHIP) # map SMap evs3)
       @ (STitle (''Saliency map for '' @ labels CAT) # map SMap evs4)
       @ [SPrint ''Activations shape:'' [d, h', w'],
          SPrint ''Probabilities shape:'' [h', w', length (fc (hd (gradcam_rows d h' w' (vals a))))]]
       @ (STitle (''GradCAM map for '' @ labels (top_k ! 0)) # map SMap evs6)
       @ (STitle (''GradCAM map for '' @ labels (top_k ! 1)) # map SMap evs7),
       None, st2)"
  proof -
    have M1': "(map_cell labels jet interpolate logit_grad N SHIP ?x fresh_input :: grad_state \<times> 'img sal_event list \<times> py_error option) =
        (st1, STitle (''Saliency map for '' @ labels SHIP) # map SMap evs3, None)"
      using M1 unfolding st1_def by (metis prod.collapse)
    have M2': "(map_cell labels jet interpolate logit_grad N CAT ?x st1 :: grad_state \<times> 'img sal_event list \<times> py_error option) = (st2, STitle (''Saliency map for '' @ labels CAT) # map SMap evs4, None)"
      using M2 unfolding st2_def by (metis prod.collapse)
    have nl: "length (model (add_batch ?x)) = N" using classes(1) by blast
    show ?thesis using G0 G1 unfolding top_k_def
      by (simp add: run_saliency_full_def run_saliency_def L G nl M1' M2' Let_def)
  qed
  have pc: "\<forall>e\<in>set (predict_cell labels model ?x :: 'img sal_event list). \<forall>sh vs. e \<noteq> SMap (Imshow sh vs)"
    by (auto simp: predict_cell_def)
  let ?R = "run_saliency_full labels model transform jet interpolate logit_grad fc trunk img"
  have t: "[t. STitle t \<leftarrow> fst ?R] =
      [''Original image'', ''Preprocessed'', ''Saliency map for '' @ labels SHIP, ''Saliency map for '' @ labels CAT,
       ''GradCAM map for '' @ labels (top_k ! 0), ''GradCAM map for '' @ labels (top_k ! 1)]"
    unfolding R by (simp only: fst_conv titles_map_SMap titles_predict_cell list.simps concat.simps concat_append map_append
      sal_event.case append_Nil append_Cons)
  have i: "\<forall>y\<in>set vs. \<exists>v. y = Some v \<and> 0 \<le> v \<and> v \<le> 1" if "SMap (Imshow sh vs) \<in> set (fst ?R)" for sh vs
  proof -
    have "Imshow sh vs \<in> set evs3 \<or> Imshow sh vs \<in> set evs4 \<or> Imshow sh vs \<in> set evs6 \<or> Imshow sh vs \<in> set evs7"
      using that pc unfolding R by auto
    then show ?thesis using ok3 ok4 ok6 ok7 by blast
  qed
  have "fst (snd ?R) = None" "x_grad (snd (snd ?R)) = Some (logit_grad CAT)" by (simp_all add: R g2)
  then show ?thesis using t i by blast
qed

theorem run_saliency_full_completes_witness:
  "wf_nd \<lparr>shape = [3, 1, 1], vals = [0, 1, 0]\<rparr>
   \<and> gradcam_activations [] \<lparr>shape = [3, 1, 1], vals = [0, 1, 0]\<rparr> = Inr \<lparr>shape = [3, 1, 1], vals = [0, 1, 0]\<rparr>
   \<and> fst (snd (run_saliency_full (\<lambda>i. ''c'') (\<lambda>y. replicate 629 0) (\<lambda>u :: unit. \<lparr>shape = [3, 1, 1], vals = [0, 1, 0]\<rparr>)
         (\<lambda>v. [0, 0, 0, 1]) (\<lambda>a h w. \<lparr>shape = [h, w], vals = replicate (h * w) 0\<rparr>) (\<lambda>c. [0, 0, 0])
         (\<lambda>v. replicate 629 0) [] ())) = None"
proof -
  have j: "\<forall>v. length ((\<lambda>v :: fval. [0, 0, 0, 1 :: real]) v) = 4 \<and> (\<forall>y\<in>set ((\<lambda>v :: fval. [0, 0, 0, 1 :: real]) v). 0 \<le> y \<and> y \<le> 1)"
    by simp
  have i: "\<forall>a h w. length (vals ((\<lambda>a h w. \<lparr>shape = [h, w], vals = replicate (h * w) (0 :: real)\<rparr>) a h w)) = h * w"
    by simp
  have x: "wf_nd \<lparr>shape = [3, 1, 1], vals = [0, 1, 0]\<rparr>" "shape \<lparr>shape = [3, 1, 1], vals = [0 :: real, 1, 0]\<rparr> = [3, 1, 1]"
    by (simp_all add: wf_nd_def)
  have nc: "\<exists>a\<in>set (vals \<lparr>shape = [3, 1, 1], vals = [0 :: real, 1, 0]\<rparr>). \<exists>b\<in>set (vals \<lparr>shape = [3, 1, 1], vals = [0 :: real, 1, 0]\<rparr>). a \<noteq> b"
    by auto
  have g: "gradcam_activations [] \<lparr>shape = [3, 1, 1], vals = [0, 1, 0]\<rparr> = Inr \<lparr>shape = [3, 1, 1], vals = [0, 1, 0]\<rparr>"
    "shape \<lparr>shape = [3, 1, 1], vals = [0 :: real, 1, 0]\<rparr> = [3, 1, 1]" "0 < (1 :: nat) * 1"
    by (simp_all add: gradcam_activations_def add_batch_def index0_def)
  have c: "\<forall>y. length ((\<lambda>y :: ndarray. replicate 629 (0 :: real)) y) = 629"
    "\<forall>v. length ((\<lambda>v :: real list. replicate 629 (0 :: real)) v) = 629"
    "SHIP < 629" "CAT < 629"
    by (simp_all add: SHIP_def CAT_def)
  have "fst (snd (run_saliency_full (\<lambda>i. ''c'') (\<lambda>y. replicate 629 0) (\<lambda>u :: unit. \<lparr>shape = [3, 1, 1], vals = [0, 1, 0]\<rparr>)
         (\<lambda>v. [0, 0, 0, 1]) (\<lambda>a h w. \<lparr>shape = [h, w], vals = replicate (h * w) 0\<rparr>) (\<lambda>c. [0, 0, 0])
         (\<lambda>v. replicate 629 0) [] ())) = None"
    using run_saliency_full_completes [where transform = "\<lambda>u :: unit. \<lparr>shape = [3, 1, 1], vals = [0, 1, 0]\<rparr>"
        and img = "()" and trunk = "[]" and model = "\<lambda>y. replicate 629 0" and fc = "\<lambda>v. replicate 629 0"
        and labels = "\<lambda>i. ''c''" and logit_grad = "\<lambda>c. [0, 0, 0]", OF j i x nc g c]
    by blast
  then show ?thesis using x(1) g(1) by blast
qed

end
