(* ===== verification/Clip.thy ===== *)
theory Clip
  imports Torch
begin

text \<open>
  The zero-shot CLIP notebook (the first notebook of \<^verbatim>\<open>src/05-foundation/02-clip.ipynb\<close>).
  The images are a list of values of a type \<open>'img\<close> opened from the file names that
  \<^verbatim>\<open>pathlib.Path("./images/").glob("*.jpg")\<close> returns (\<open>open_image\<close>, a parameter), and
  CLIP's \<^verbatim>\<open>logits_per_image\<close> is a parameter giving one row per image and one column per
  prompt. \<^verbatim>\<open>plt.subplots(rows, cols)\<close> returns, as matplotlib does with
  \<^verbatim>\<open>squeeze=True\<close>, a single axes object, a one-dimensional array of axes when one of
  the dimensions is 1, or a two-dimensional grid (\<open>subplots\<close>); indexing it with two
  indices (\<open>axes_index2\<close>) is the numpy indexing of that object. The plotting calls are
  the \<open>tile_event\<close>s they emit.
  \<^item> \<open>gallery\<close>: the first cell, a tile of the images titled with their file stems
    (\<open>image_name\<close>, \<^verbatim>\<open>name.split(".")[0]\<close>).
  \<^item> \<open>draw_tile\<close>: the tile of scores, a title coloured green when the score is above
    the threshold and red otherwise.
  \<^item> \<open>prompt_loop\<close>: the last cell, one banner and one tile per prompt with its threshold.
\<close>

named_theorems clip_simps "evaluation of the CLIP notebook"

definition TILE_SIZE :: nat where
  "TILE_SIZE = 3"

definition tile_rows :: "nat \<Rightarrow> nat" where
  "tile_rows n = nat \<lceil>real n / real TILE_SIZE\<rceil>"

datatype ax = Ax nat nat

datatype axes = SingleAxes ax | AxesRow "ax list" | AxesGrid "ax list list"

definition subplots :: "nat \<Rightarrow> nat \<Rightarrow> axes result" where
  "subplots nrows ncols =
     (if nrows = 0 \<or> ncols = 0 then Inl ValueError
      else if nrows = 1 \<and> ncols = 1 then Inr (SingleAxes (Ax 0 0))
      else if nrows = 1 \<or> ncols = 1 then Inr (AxesRow [Ax r c. r \<leftarrow> [0..<nrows], c \<leftarrow> [0..<ncols]])
      else Inr (AxesGrid [[Ax r c. c \<leftarrow> [0..<ncols]]. r \<leftarrow> [0..<nrows]]))"

definition axes_index2 :: "axes \<Rightarrow> nat \<Rightarrow> nat \<Rightarrow> ax result" where
  "axes_index2 a r c =
     (case a of
        SingleAxes _ \<Rightarrow> Inl TypeError
      | AxesRow _ \<Rightarrow> Inl IndexError
      | AxesGrid g \<Rightarrow> if r < length g \<and> c < length (g ! r) then Inr (g ! r ! c) else Inl IndexError)"

datatype colour = Green | Red

datatype 'img tile_event =
    SetTitle ax string
  | SetScoreTitle ax real colour
  | SetAxisOff ax
  | ImShow ax 'img
  | PlotShow
  | PrintLine string

definition image_name :: "string \<Rightarrow> string" where
  "image_name name = py_split (CHR ''.'') name ! 0"

definition finish_plot :: "'img tile_event list \<times> py_error option \<Rightarrow> 'img tile_event list \<times> py_error option" where
  "finish_plot r = (case r of (evs, None) \<Rightarrow> (evs @ [PlotShow], None) | (evs, Some e) \<Rightarrow> (evs, Some e))"

fun gallery_loop :: "axes \<Rightarrow> string list \<Rightarrow> 'img list \<Rightarrow> nat \<Rightarrow> 'img tile_event list \<times> py_error option" where
  "gallery_loop axs paths [] i = ([], None)"
| "gallery_loop axs paths (im # images) i =
     (case axes_index2 axs (i div TILE_SIZE) (i mod TILE_SIZE) of
        Inl e \<Rightarrow> ([], Some e)
      | Inr ax \<Rightarrow>
          (let name = image_name (paths ! i);
               (evs, err) = gallery_loop axs paths images (Suc i)
           in ([SetTitle ax name, SetAxisOff ax, ImShow ax im] @ evs, err)))"

definition gallery :: "(string \<Rightarrow> 'img) \<Rightarrow> string list \<Rightarrow> 'img tile_event list \<times> py_error option" where
  "gallery open_image paths =
     (let images = map open_image paths
      in case subplots (tile_rows (length images)) TILE_SIZE of
           Inl e \<Rightarrow> ([], Some e)
         | Inr axs \<Rightarrow> finish_plot (gallery_loop axs paths images 0))"

definition prompts :: "string list" where
  "prompts = [''a photo of a cat'', ''a beautiful image'', ''an outdoor scene'', ''an upside-down image'', ''a landscape'']"

fun draw_tile_loop :: "axes \<Rightarrow> real list \<Rightarrow> real \<Rightarrow> 'img list \<Rightarrow> nat \<Rightarrow> 'img tile_event list \<times> py_error option" where
  "draw_tile_loop axs scores threshold [] i = ([], None)"
| "draw_tile_loop axs scores threshold (im # images) i =
     (case axes_index2 axs (i div TILE_SIZE) (i mod TILE_SIZE) of
        Inl e \<Rightarrow> ([], Some e)
      | Inr ax \<Rightarrow>
          (if length scores \<le> i then ([], Some IndexError)
           else
             (let score = scores ! i;
                  color = (if score > threshold then Green else Red);
                  (evs, err) = draw_tile_loop axs scores threshold images (Suc i)
              in ([SetScoreTitle ax score color, SetAxisOff ax, ImShow ax im] @ evs, err))))"

definition draw_tile :: "'img list \<Rightarrow> real list \<Rightarrow> real \<Rightarrow> 'img tile_event list \<times> py_error option" where
  "draw_tile images scores threshold =
     (case subplots (tile_rows (length images)) TILE_SIZE of
        Inl e \<Rightarrow> ([], Some e)
      | Inr axs \<Rightarrow> finish_plot (draw_tile_loop axs scores threshold images 0))"

definition thresholds :: "real list" where
  "thresholds = [25, 21, 20, 25, 23]"

definition py_upper :: "string \<Rightarrow> string" where
  "py_upper s = map (\<lambda>c. let n = of_char c :: nat in if 97 \<le> n \<and> n \<le> 122 then char_of (n - 32) else c) s"

definition column :: "real list list \<Rightarrow> nat \<Rightarrow> real list result" where
  "column logits i = (if \<exists>r\<in>set logits. length r \<le> i then Inl IndexError else Inr (map (\<lambda>r. r ! i) logits))"

fun prompt_loop :: "'img list \<Rightarrow> real list list \<Rightarrow> string list \<Rightarrow> nat \<Rightarrow> 'img tile_event list \<times> py_error option" where
  "prompt_loop images logits [] i = ([], None)"
| "prompt_loop images logits (prompt # ps) i =
     (let banner = [PrintLine (replicate 50 CHR ''=''), PrintLine (py_upper prompt), PrintLine (replicate 50 CHR ''='')]
      in case column logits i of
           Inl e \<Rightarrow> (banner, Some e)
         | Inr scores \<Rightarrow>
             (if length thresholds \<le> i then (banner, Some IndexError)
              else
                (case draw_tile images scores (thresholds ! i) of
                   (evs, Some e) \<Rightarrow> (banner @ evs, Some e)
                 | (evs, None) \<Rightarrow> (let (evs', err) = prompt_loop images logits ps (Suc i) in (banner @ evs @ evs', err)))))"

definition zero_shot :: "('img list \<Rightarrow> string list \<Rightarrow> real list list) \<Rightarrow> 'img list \<Rightarrow> 'img tile_event list \<times> py_error option" where
  "zero_shot clip images = prompt_loop images (clip images prompts) prompts 0"

definition score_tile :: "real list \<Rightarrow> real \<Rightarrow> nat \<times> 'img \<Rightarrow> 'img tile_event list" where
  "score_tile scores threshold ki =
     (let (k, im) = ki; a = Ax (k div TILE_SIZE) (k mod TILE_SIZE)
      in [SetScoreTitle a (scores ! k) (if threshold < scores ! k then Green else Red), SetAxisOff a, ImShow a im])"

definition tile_events :: "real list \<Rightarrow> real \<Rightarrow> 'img list \<Rightarrow> 'img tile_event list" where
  "tile_events scores threshold images =
     concat (map (score_tile scores threshold) (zip [0..<length images] images)) @ [PlotShow]"

definition name_tile :: "(string \<Rightarrow> 'img) \<Rightarrow> nat \<times> string \<Rightarrow> 'img tile_event list" where
  "name_tile open_image kp =
     (let (k, p) = kp; a = Ax (k div TILE_SIZE) (k mod TILE_SIZE)
      in [SetTitle a (image_name p), SetAxisOff a, ImShow a (open_image p)])"

definition banner :: "string \<Rightarrow> 'img tile_event list" where
  "banner prompt = [PrintLine (replicate 50 CHR ''=''), PrintLine (py_upper prompt), PrintLine (replicate 50 CHR ''='')]"

subsection \<open>The tile grid\<close>

lemma tile_rows_eq [clip_simps]: "tile_rows n = (n + 2) div 3"
proof -
  have "\<lceil>real n / real (3 :: nat)\<rceil> = \<lceil>of_int (int n) / of_int 3 :: real\<rceil>" by simp
  also have "\<dots> = - (- int n div 3)" by (rule ceiling_divide_eq_div)
  also have "\<dots> = int ((n + 2) div 3)" by presburger
  finally show ?thesis by (simp add: tile_rows_def TILE_SIZE_def)
qed

lemma subplots_grid [clip_simps]:
  assumes "3 < n"
  shows "subplots (tile_rows n) TILE_SIZE =
     Inr (AxesGrid [[Ax r c. c \<leftarrow> [0..<TILE_SIZE]]. r \<leftarrow> [0..<tile_rows n]])"
proof -
  have "2 \<le> (n + 2) div 3" using assms by (simp add: less_eq_div_iff_mult_less_eq)
  then show ?thesis by (simp add: subplots_def tile_rows_eq TILE_SIZE_def)
qed

lemma subplots_row [clip_simps]:
  "0 < n \<Longrightarrow> n \<le> 3 \<Longrightarrow> \<exists>as. subplots (tile_rows n) TILE_SIZE = Inr (AxesRow as)"
  by (simp add: subplots_def tile_rows_eq TILE_SIZE_def)

lemma subplots_empty [clip_simps]: "subplots (tile_rows 0) TILE_SIZE = Inl ValueError"
  by (simp add: subplots_def tile_rows_eq)

lemma grid_index [clip_simps]:
  assumes "k < n"
  shows "axes_index2 (AxesGrid [[Ax r c. c \<leftarrow> [0..<TILE_SIZE]]. r \<leftarrow> [0..<tile_rows n]]) (k div TILE_SIZE) (k mod TILE_SIZE)
           = Inr (Ax (k div TILE_SIZE) (k mod TILE_SIZE))"
proof -
  have "k div 3 * 3 < n" using assms by (metis div_mult_mod_eq le_add1 le_less_trans)
  then have "k div 3 < (n + 3 - 1) div 3" using less_div_ceil [of 3 "k div 3" n] by simp
  then show ?thesis by (simp add: axes_index2_def tile_rows_eq TILE_SIZE_def)
qed

abbreviation tile_grid :: "nat \<Rightarrow> axes" where
  "tile_grid n \<equiv> AxesGrid [[Ax r c. c \<leftarrow> [0..<TILE_SIZE]]. r \<leftarrow> [0..<tile_rows n]]"

subsection \<open>The two tile loops\<close>

lemma draw_tile_loop_grid [clip_simps]:
  "i + length ims \<le> n \<Longrightarrow> n \<le> length scores \<Longrightarrow>
   draw_tile_loop (tile_grid n) scores thr ims i =
     (concat (map (score_tile scores thr) (zip [i..<i + length ims] ims)), None)"
proof (induction ims arbitrary: i)
  case Nil
  then show ?case by simp
next
  case (Cons im ims)
  have "i < n" using Cons.prems(1) by simp
  then have "[i..<i + length (im # ims)] = i # [Suc i..<Suc i + length ims]"
    using upt_conv_Cons [of i "Suc (i + length ims)"] by simp
  moreover have "Suc i + length ims \<le> n" using Cons.prems(1) by simp
  ultimately show ?case
    using Cons.IH [of "Suc i"] Cons.prems(2) grid_index [OF \<open>i < n\<close>] \<open>i < n\<close>
    by (simp add: score_tile_def Let_def)
qed

lemma gallery_loop_grid [clip_simps]:
  "length paths = n \<Longrightarrow> ims = map open_image (drop i paths) \<Longrightarrow>
   gallery_loop (tile_grid n) paths ims i = (concat (map (name_tile open_image) (zip [i..<n] (drop i paths))), None)"
proof (induction ims arbitrary: i)
  case Nil
  then show ?case by simp
next
  case (Cons im ims)
  have "drop i paths \<noteq> []" using Cons.prems(2) by auto
  then have "i < n" using Cons.prems(1) by simp
  then have d: "drop i paths = paths ! i # drop (Suc i) paths"
    using Cons.prems(1) by (simp add: Cons_nth_drop_Suc)
  have "[i..<n] = i # [Suc i..<n]" using \<open>i < n\<close> by (simp add: upt_conv_Cons)
  moreover have "im = open_image (paths ! i)" "ims = map open_image (drop (Suc i) paths)"
    using Cons.prems(2) d by simp_all
  ultimately show ?case
    using Cons.IH [of "Suc i"] Cons.prems(1) grid_index [OF \<open>i < n\<close>] d
    by (simp add: name_tile_def Let_def)
qed

lemma draw_tile_grid [clip_simps]:
  "3 < length images \<Longrightarrow> length images \<le> length scores \<Longrightarrow>
   draw_tile images scores thr = (tile_events scores thr images, None)"
  using draw_tile_loop_grid [of 0 images "length images" scores thr]
  by (simp add: draw_tile_def subplots_grid tile_events_def finish_plot_def)

lemma draw_tile_one_row [clip_simps]:
  assumes "0 < length images" "length images \<le> 3"
  shows "draw_tile images scores thr = ([], Some IndexError)"
proof -
  obtain as where as: "subplots (tile_rows (length images)) TILE_SIZE = Inr (AxesRow as)"
    using subplots_row [OF assms] by blast
  obtain im ims where "images = im # ims" using assms(1) by (cases images) auto
  then show ?thesis using as by (simp add: draw_tile_def axes_index2_def finish_plot_def)
qed

lemma column_Inr [clip_simps]:
  "\<forall>r\<in>set logits. k < length r \<Longrightarrow> column logits k = Inr (map (\<lambda>r. r ! k) logits)"
  by (auto simp: column_def)

lemma prompt_loop_grid [clip_simps]:
  "3 < length images \<Longrightarrow> length images \<le> length logits \<Longrightarrow> \<forall>r\<in>set logits. i + length ps \<le> length r \<Longrightarrow>
   i + length ps \<le> length thresholds \<Longrightarrow>
   prompt_loop images logits ps i =
     (concat (map (\<lambda>(k, p). banner p @ tile_events (map (\<lambda>r. r ! k) logits) (thresholds ! k) images)
                  (zip [i..<i + length ps] ps)), None)"
proof (induction ps arbitrary: i)
  case Nil
  then show ?case by simp
next
  case (Cons p ps)
  have c: "column logits i = Inr (map (\<lambda>r. r ! i) logits)"
    using Cons.prems(3) by (intro column_Inr) auto
  have "[i..<i + length (p # ps)] = i # [Suc i..<Suc i + length ps]"
    using upt_conv_Cons [of i "Suc (i + length ps)"] by simp
  moreover have "\<forall>r\<in>set logits. Suc i + length ps \<le> length r" using Cons.prems(3) by auto
  ultimately show ?case
    using Cons.IH [of "Suc i"] Cons.prems(1,2,4) c draw_tile_grid [OF Cons.prems(1)]
    by (simp add: banner_def)
qed

lemma gallery_grid [clip_simps]:
  "3 < length paths \<Longrightarrow>
   gallery open_image paths = (concat (map (name_tile open_image) (zip [0..<length paths] paths)) @ [PlotShow], None)"
  using gallery_loop_grid [of paths "length paths" "map open_image paths" open_image 0]
  by (simp add: gallery_def subplots_grid finish_plot_def)

lemma image_name_stem [clip_simps]:
  "CHR ''.'' \<notin> set stem \<Longrightarrow> image_name (stem @ ''.jpg'') = stem"
proof -
  assume "CHR ''.'' \<notin> set stem"
  then have "takeWhile (\<lambda>x. x \<noteq> CHR ''.'') (stem @ ''.jpg'') = stem"
    by (subst takeWhile_append2) auto
  then show ?thesis
    using py_split_ne [of "CHR ''.''" "stem @ ''.jpg''"] hd_py_split [of "CHR ''.''" "stem @ ''.jpg''"]
    by (simp add: image_name_def hd_conv_nth)
qed

subsection \<open>The zero-shot cell\<close>

text \<open>C23: with more than three images and CLIP logits of one row of five scores per image, the
  zero-shot cell raises nothing and shows, for each prompt in order, its banner and a tile
  in which image \<open>k\<close> sits at \<^verbatim>\<open>axs[k // 3, k % 3]\<close> with its score for that prompt,
  green exactly when the score is above the prompt's threshold. With one to three images
  \<^verbatim>\<open>plt.subplots(1, 3)\<close> returns a one-dimensional array and \<^verbatim>\<open>axs[0, 0]\<close> raises
  \<^verbatim>\<open>IndexError\<close> right after the first banner.\<close>

theorem zero_shot_tiles:
  "(3 < length images \<and> length (clip images prompts) = length images \<and>
    (\<forall>r\<in>set (clip images prompts). length r = length prompts) \<longrightarrow>
    zero_shot clip images =
      (concat (map (\<lambda>(k, p). banner p @ tile_events (map (\<lambda>r. r ! k) (clip images prompts)) (thresholds ! k) images)
                   (zip [0..<length prompts] prompts)), None))
   \<and> (0 < length images \<and> length images \<le> 3 \<and> (\<forall>r\<in>set (clip images prompts). 0 < length r) \<longrightarrow>
      zero_shot clip images = (banner (hd prompts), Some IndexError))"
proof (intro conjI impI)
  assume a: "3 < length images \<and> length (clip images prompts) = length images \<and>
             (\<forall>r\<in>set (clip images prompts). length r = length prompts)"
  have "length prompts = length thresholds" by (simp add: prompts_def thresholds_def)
  then show "zero_shot clip images =
      (concat (map (\<lambda>(k, p). banner p @ tile_events (map (\<lambda>r. r ! k) (clip images prompts)) (thresholds ! k) images)
                   (zip [0..<length prompts] prompts)), None)"
    using prompt_loop_grid [of images "clip images prompts" 0 prompts] a by (simp add: zero_shot_def)
next
  assume a: "0 < length images \<and> length images \<le> 3 \<and> (\<forall>r\<in>set (clip images prompts). 0 < length r)"
  then have "column (clip images prompts) 0 = Inr (map (\<lambda>r. r ! 0) (clip images prompts))"
    by (intro column_Inr) simp
  then show "zero_shot clip images = (banner (hd prompts), Some IndexError)"
    using draw_tile_one_row [of images] a
    by (simp add: zero_shot_def prompts_def thresholds_def banner_def)
qed

theorem zero_shot_tiles_witness:
  "3 < length [0, 1, 2, 3 :: nat]
   \<and> snd (zero_shot (\<lambda>ims ps. replicate 4 [30, 20, 21, 24, 23]) [0, 1, 2, 3 :: nat]) = None
   \<and> take 4 (drop 3 (fst (zero_shot (\<lambda>ims ps. replicate 4 [30, 20, 21, 24, 23]) [0, 1, 2, 3 :: nat]))) =
       [SetScoreTitle (Ax 0 0) 30 Green, SetAxisOff (Ax 0 0), ImShow (Ax 0 0) 0, SetScoreTitle (Ax 0 1) 30 Green]"
proof -
  have p: "length prompts = 5" by (simp add: prompts_def)
  have z: "zero_shot (\<lambda>ims ps. replicate 4 [30, 20, 21, 24, 23]) [0, 1, 2, 3 :: nat] =
      (concat (map (\<lambda>(k, p). banner p @ tile_events (map (\<lambda>r. r ! k) (replicate 4 [30, 20, 21, 24, 23])) (thresholds ! k) [0, 1, 2, 3 :: nat])
                   (zip [0..<length prompts] prompts)), None)"
    using zero_shot_tiles [of "[0, 1, 2, 3 :: nat]" "\<lambda>ims ps. replicate 4 [30, 20, 21, 24, 23]"] p by simp
  show ?thesis
    unfolding z p by (simp add: prompts_def banner_def tile_events_def score_tile_def thresholds_def
                                 TILE_SIZE_def Let_def upt_rec)
qed

end
