(* ===== verification/Basics.thy ===== *)
theory Basics
  imports Torch
begin

text \<open>
  The "PyTorch basics" cells of the PyTorch notebook (the third notebook of
  \<^verbatim>\<open>src/05-foundation/02-clip.ipynb\<close>).
  \<^item> \<open>device\<close>, \<open>DEVICE\<close>, \<open>dtensor\<close>: a tensor is its shape, its integer entries in
    row-major order and the device it lives on; \<^verbatim>\<open>torch.cuda.is_available()\<close> is a
    parameter. \<open>sub_scalar\<close>, \<open>add_none\<close>, \<open>transpose2\<close>, \<open>to_device\<close>, \<open>tensor_add\<close> are
    \<^verbatim>\<open>a - 3\<close>, \<^verbatim>\<open>a[None]\<close>, \<^verbatim>\<open>.T\<close> of a matrix, \<^verbatim>\<open>.to(device)\<close> and \<^verbatim>\<open>+\<close> of two
    tensors, which raises \<^verbatim>\<open>RuntimeError\<close> for tensors on different devices (the
    notebook adds tensors of equal shapes only; broadcasting is not modelled).
  \<^item> \<open>linspace\<close>, \<open>gradient_cell\<close>: the gradient cell. Autograd of
    \<^verbatim>\<open>torch.sin(xs).sum()\<close> gives \<open>cos\<close> componentwise (\<open>sum_sin_grad\<close>, justified by the
    lemma \<open>sum_sin_grad_deriv\<close>); the cell plots the curve and an arrow of slope
    \<^verbatim>\<open>xs.grad[i]\<close> at every \<open>len(xs) // 10\<close>-th point.
\<close>

named_theorems basics_simps "evaluation of the PyTorch basics cells"

datatype device = CPU | CUDA

definition DEVICE :: "bool \<Rightarrow> device" where
  "DEVICE cuda_available = (if cuda_available then CUDA else CPU)"

record dtensor =
  dshape :: "nat list"
  dvals :: "int list"
  ddevice :: device

definition torch_tensor :: "int list \<Rightarrow> dtensor" where
  "torch_tensor xs = \<lparr>dshape = [length xs], dvals = xs, ddevice = CPU\<rparr>"

definition a_tensor :: dtensor where
  "a_tensor = torch_tensor [3, 4, 5]"

definition sub_scalar :: "dtensor \<Rightarrow> int \<Rightarrow> dtensor" where
  "sub_scalar t c = t\<lparr>dvals := map (\<lambda>v. v - c) (dvals t)\<rparr>"

definition add_none :: "dtensor \<Rightarrow> dtensor" where
  "add_none t = t\<lparr>dshape := 1 # dshape t\<rparr>"

definition transpose2 :: "dtensor \<Rightarrow> dtensor result" where
  "transpose2 t =
     (case dshape t of
        [m, n] \<Rightarrow> Inr (t\<lparr>dshape := [n, m], dvals := [dvals t ! (i * n + j). j \<leftarrow> [0..<n], i \<leftarrow> [0..<m]]\<rparr>)
      | _ \<Rightarrow> Inl RuntimeError)"

definition to_device :: "device \<Rightarrow> dtensor \<Rightarrow> dtensor" where
  "to_device d t = t\<lparr>ddevice := d\<rparr>"

definition tensor_add :: "dtensor \<Rightarrow> dtensor \<Rightarrow> dtensor result" where
  "tensor_add x y =
     (if ddevice x \<noteq> ddevice y then Inl RuntimeError
      else if dshape x \<noteq> dshape y then Inl RuntimeError
      else Inr (x\<lparr>dvals := map2 (+) (dvals x) (dvals y)\<rparr>))"

definition device_cells :: "bool \<Rightarrow> dtensor \<times> dtensor result \<times> dtensor result" where
  "device_cells cuda_available =
     (let b = to_device (DEVICE cuda_available) a_tensor
      in (b, tensor_add (to_device (DEVICE cuda_available) a_tensor) b, tensor_add a_tensor (to_device CPU b)))"

subsection \<open>The gradient cell\<close>

definition linspace :: "real \<Rightarrow> real \<Rightarrow> nat \<Rightarrow> real list" where
  "linspace start stop steps =
     (if steps = 1 then [start]
      else map (\<lambda>i. start + (stop - start) * real i / real (steps - 1)) [0..<steps])"

definition sum_sin_grad :: "real list \<Rightarrow> real list" where
  "sum_sin_grad xs = map cos xs"

datatype plot_event = PlotCurve "real list" "real list" | Arrow real real real real

definition gradient_cell :: "real list \<Rightarrow> plot_event list result" where
  "gradient_cell xs =
     (let ys = map sin xs; grad = sum_sin_grad xs
      in case py_range 0 (length xs) (length xs div 10) of
           Inl e \<Rightarrow> Inl e
         | Inr idx \<Rightarrow> Inr (PlotCurve xs ys # map (\<lambda>i. Arrow (xs ! i) (ys ! i) 1 (grad ! i)) idx))"

subsection \<open>Lemmas\<close>

lemma tensor_cells [basics_simps]:
  "sub_scalar a_tensor 3 = \<lparr>dshape = [3], dvals = [0, 1, 2], ddevice = CPU\<rparr>
   \<and> add_none a_tensor = \<lparr>dshape = [1, 3], dvals = [3, 4, 5], ddevice = CPU\<rparr>
   \<and> transpose2 (add_none a_tensor) = Inr \<lparr>dshape = [3, 1], dvals = [3, 4, 5], ddevice = CPU\<rparr>"
  by (simp add: sub_scalar_def add_none_def transpose2_def a_tensor_def torch_tensor_def upt_rec)

lemma add_across_devices [basics_simps]:
  "tensor_add a_tensor (to_device (DEVICE cuda_available) a_tensor) =
     (if cuda_available then Inl RuntimeError else Inr \<lparr>dshape = [3], dvals = [6, 8, 10], ddevice = CPU\<rparr>)"
  by (simp add: tensor_add_def to_device_def DEVICE_def a_tensor_def torch_tensor_def)

lemma device_cells_values [basics_simps]:
  "device_cells cuda_available =
     (\<lparr>dshape = [3], dvals = [3, 4, 5], ddevice = DEVICE cuda_available\<rparr>,
      Inr \<lparr>dshape = [3], dvals = [6, 8, 10], ddevice = DEVICE cuda_available\<rparr>,
      Inr \<lparr>dshape = [3], dvals = [6, 8, 10], ddevice = CPU\<rparr>)"
  by (simp add: device_cells_def tensor_add_def to_device_def a_tensor_def torch_tensor_def)

lemma sum_list_update_group [basics_simps]:
  "i < length xs \<Longrightarrow> sum_list (xs[i := v]) = sum_list xs + v - xs ! i" for xs :: "'a :: ab_group_add list"
proof (induction xs arbitrary: i)
  case Nil
  then show ?case by simp
next
  case (Cons x xs)
  then show ?case by (cases i) (simp_all add: algebra_simps)
qed

lemma sum_sin_grad_deriv [basics_simps]:
  assumes "i < length xs"
  shows "((\<lambda>t. sum_list (map sin (xs[i := t]))) has_real_derivative (sum_sin_grad xs ! i)) (at (xs ! i))"
proof -
  have "sum_list (map sin (xs[i := t])) = sum_list (map sin xs) + sin t - sin (xs ! i)" for t
    using assms sum_list_update_group [of i "map sin xs" "sin t"] by (simp add: map_update)
  then have e: "(\<lambda>t. sum_list (map sin (xs[i := t]))) = (\<lambda>t. sum_list (map sin xs) + sin t - sin (xs ! i))"
    by (rule ext)
  have "((\<lambda>t. sum_list (map sin xs) + sin t - sin (xs ! i)) has_real_derivative (0 + cos (xs ! i) - 0)) (at (xs ! i))"
    by (intro derivative_intros DERIV_sin)
  then show ?thesis using assms by (simp add: e sum_sin_grad_def)
qed

lemma length_linspace [basics_simps]: "length (linspace a b n) = (if n = 1 then 1 else n)"
  by (simp add: linspace_def)

lemma gradient_cell_arrows [basics_simps]:
  assumes "10 \<le> length xs"
  shows "\<exists>arrows. gradient_cell xs = Inr (PlotCurve xs (map sin xs) # arrows)
           \<and> length arrows = (length xs + length xs div 10 - 1) div (length xs div 10)
           \<and> (\<forall>k<length arrows. arrows ! k =
                 Arrow (xs ! (k * (length xs div 10))) (sin (xs ! (k * (length xs div 10)))) 1
                       (cos (xs ! (k * (length xs div 10)))))"
proof -
  let ?s = "length xs div 10"
  have s: "0 < ?s" using assms by simp
  obtain idx where r: "py_range 0 (length xs) ?s = Inr idx"
    using s by (simp add: py_range_def)
  have idx: "length idx = (length xs + ?s - 1) div ?s" "\<forall>k<length idx. idx ! k = k * ?s"
    "\<forall>i\<in>set idx. i < length xs"
    using py_range_Inr [OF r] by simp_all
  have "\<forall>k<length idx. idx ! k < length xs" using idx(3) nth_mem by blast
  then show ?thesis using r idx
    by (simp add: gradient_cell_def sum_sin_grad_def Let_def)
qed

lemma gradient_cell_short [basics_simps]: "length xs < 10 \<Longrightarrow> gradient_cell xs = Inl ValueError"
  by (simp add: gradient_cell_def py_range_def)

end
