(* ===== verification/Experiments.thy ===== *)
theory Experiments
  imports Training Clip
begin

text \<open>
  The cells of the PyTorch notebook (the third notebook of
  \<^verbatim>\<open>src/05-foundation/02-clip.ipynb\<close>) and of the Lightning notebook that run the
  definitions of \<open>Training\<close>, \<open>Loader\<close> and \<open>Architecture\<close>:
  \<^item> \<open>cifar_main\<close>: \<^verbatim>\<open>model = SimpleCNN()\<close>, the Adam optimizer on its parameters at
    learning rate 0.001 (\<open>cifar_optimizer\<close>; Adam's update is the parameter \<open>adam\<close>) and
    \<^verbatim>\<open>train_cifar10(model, optimizer)\<close> with its default of ten epochs;
  \<^item> \<open>history_figure\<close>: the next cell, \<^verbatim>\<open>plt.subplots(1, 2)\<close> (a row of two axes, so
    \<^verbatim>\<open>axs[i]\<close> is \<open>axes_index1\<close>, numpy's indexing of that object), the loss curve on
    the left and the two accuracy curves with their legend on the right; the plotting
    calls are the \<open>figure_event\<close>s they emit;
  \<^item> \<open>cifar_experiment\<close>: the two cells run in order; when the first raises, the second
    is not reached;
  \<^item> \<open>lightning_main\<close>: the Lightning notebook's last cell, \<^verbatim>\<open>Module()\<close>, \<^verbatim>\<open>Data()\<close> and
    \<^verbatim>\<open>pl.Trainer(max_epochs=10).fit(model, data)\<close>, the trainer's fit a parameter.
\<close>

named_theorems experiment_simps "evaluation of the experiment cells"

definition axes_index1 :: "axes \<Rightarrow> nat \<Rightarrow> ax result" where
  "axes_index1 a i =
     (case a of
        SingleAxes _ \<Rightarrow> Inl TypeError
      | AxesRow r \<Rightarrow> if i < length r then Inr (r ! i) else Inl IndexError
      | AxesGrid g \<Rightarrow> if i < length g then Inl AttributeError else Inl IndexError)"

datatype figure_event =
    LinePlot ax "fval list" "string option"
  | SetXLabel ax string
  | AxTitle ax string
  | Legend ax
  | FigShow

definition history_figure :: "fval list \<Rightarrow> real list \<Rightarrow> real list \<Rightarrow> figure_event list \<times> py_error option" where
  "history_figure losses train_accuracies test_accuracies =
     (case subplots 1 2 of
        Inl e \<Rightarrow> ([], Some e)
      | Inr axs \<Rightarrow>
          (case axes_index1 axs 0 of
             Inl e \<Rightarrow> ([], Some e)
           | Inr a0 \<Rightarrow>
               (let evs0 = [LinePlot a0 losses None, SetXLabel a0 ''Epoch'', AxTitle a0 ''Train loss'']
                in case axes_index1 axs 1 of
                     Inl e \<Rightarrow> (evs0, Some e)
                   | Inr a1 \<Rightarrow>
                       (evs0 @ [LinePlot a1 (map Some train_accuracies) (Some ''Train''),
                                LinePlot a1 (map Some test_accuracies) (Some ''Test''),
                                Legend a1, SetXLabel a1 ''Epoch'', AxTitle a1 ''Accuracy'', FigShow], None))))"

definition cifar_main ::
  "'p forward \<Rightarrow> (layer list \<times> real \<Rightarrow> 'p optimizer_step) \<Rightarrow> 'p \<Rightarrow> (nat list \<times> nat) list \<Rightarrow>
   (nat list \<times> nat) list \<Rightarrow> train_event list \<times> 'p history result" where
  "cifar_main net adam m0 cifar10_train cifar10_test =
     (let model = SimpleCNN;
          optimizer = adam (cifar_optimizer model)
      in train_cifar10 net optimizer m0 10 cifar10_train cifar10_test)"

datatype experiment_event = TrainOut train_event | FigureOut figure_event

definition cifar_experiment ::
  "'p forward \<Rightarrow> (layer list \<times> real \<Rightarrow> 'p optimizer_step) \<Rightarrow> 'p \<Rightarrow> (nat list \<times> nat) list \<Rightarrow>
   (nat list \<times> nat) list \<Rightarrow> experiment_event list \<times> py_error option" where
  "cifar_experiment net adam m0 cifar10_train cifar10_test =
     (case cifar_main net adam m0 cifar10_train cifar10_test of
        (evs, Inl e) \<Rightarrow> (map TrainOut evs, Some e)
      | (evs, Inr (model, losses, train_accuracies, test_accuracies)) \<Rightarrow>
          (case history_figure losses train_accuracies test_accuracies of
             (fevs, err) \<Rightarrow> (map TrainOut evs @ map FigureOut fevs, err)))"

definition lightning_main :: "(nat \<Rightarrow> cnn \<Rightarrow> pl_data \<Rightarrow> 'r) \<Rightarrow> 'r" where
  "lightning_main fit =
     (let model = pl_Module;
          data = pl_Data 4 32;
          max_epochs = 10
      in fit max_epochs model data)"

subsection \<open>Lemmas\<close>

lemma history_figure_events [experiment_simps]:
  "history_figure losses tra tea =
     ([LinePlot (Ax 0 0) losses None, SetXLabel (Ax 0 0) ''Epoch'', AxTitle (Ax 0 0) ''Train loss'',
       LinePlot (Ax 0 1) (map Some tra) (Some ''Train''), LinePlot (Ax 0 1) (map Some tea) (Some ''Test''),
       Legend (Ax 0 1), SetXLabel (Ax 0 1) ''Epoch'', AxTitle (Ax 0 1) ''Accuracy'', FigShow], None)"
  by (simp add: history_figure_def subplots_def axes_index1_def upt_rec)

text \<open>The Lightning run is set up like the plain one: ten epochs, Adam on the same
  parameters at the same learning rate, batches of 32.\<close>

lemma lightning_main_setup [experiment_simps]:
  "lightning_main (\<lambda>n m d. (n, pl_configure_optimizers m, pl_batch_size d)) = (10, cifar_optimizer SimpleCNN, 32)"
  by (simp add: lightning_main_def pl_Data_def pl_configure_optimizers_def cifar_optimizer_def
      cnn_parameters_def pl_Module_def SimpleCNN_def)

lemma cifar_main_history:
  assumes shape: "\<forall>t p x. length (fst (net t p x)) = length x \<and> (\<forall>r\<in>set (fst (net t p x)). length r = C)"
    and data: "\<forall>s\<in>set tr \<union> set te. snd s < C \<and> length (fst s) = d"
    and ntr: "32 \<le> length tr" and nte: "te \<noteq> []"
  shows "\<exists>evs m' losses tra tea. cifar_main net adam m0 tr te = (evs, Inr (m', losses, tra, tea))
     \<and> [e. Epoch e \<leftarrow> evs] = [0..<10] \<and> length losses = 10 \<and> length tra = 10 \<and> length tea = 10"
proof -
  obtain m' losses tra tea where
    r: "snd (train_cifar10 net (adam (cifar_optimizer SimpleCNN)) m0 10 tr te) = Inr (m', losses, tra, tea)"
    and l: "length losses = 10" "length tra = 10" "length tea = 10"
    and e: "[e. Epoch e \<leftarrow> fst (train_cifar10 net (adam (cifar_optimizer SimpleCNN)) m0 10 tr te)] = [0..<10]"
    using train_cifar10_ok [OF shape data ntr nte, of "adam (cifar_optimizer SimpleCNN)" m0 10] by blast
  have "cifar_main net adam m0 tr te =
      (fst (train_cifar10 net (adam (cifar_optimizer SimpleCNN)) m0 10 tr te), Inr (m', losses, tra, tea))"
    using r by (simp add: cifar_main_def prod_eq_iff)
  then show ?thesis using l e by blast
qed

end
