(* ===== verification/Network_Eval.thy ===== *)
theory Network_Eval
  imports Architecture
begin

text \<open>
  The numerical forward pass of the layers of \<open>Architecture\<close>, as the \<^verbatim>\<open>torch.nn\<close>
  documentation defines it, on tensors given by their shape and row-major entries
  (\<open>ndarray\<close>). A layer's state \<open>lstate\<close> holds its parameters flattened in the order of
  \<^verbatim>\<open>parameters()\<close> (weight, then bias) and, for batch normalisation, its running mean
  and variance. \<open>layer_eval training l st x\<close> is the layer's \<^verbatim>\<open>forward\<close> in training or
  evaluation mode (\<^verbatim>\<open>model.train()\<close>, \<^verbatim>\<open>model.eval()\<close>), with the new state.
  \<^item> \<open>Conv2d\<close>: \<open>y[p, o, i, j] = \<Sum> c a d. W[o, c, a, d] * x[p, c, i * s + a, j * s + d] (+ b[o])\<close>,
    without padding;
  \<^item> \<open>BatchNorm2d\<close>/\<open>BatchNorm1d\<close> over the channel dimension 1: in training mode the batch's
    mean and biased variance over all other positions normalise the input, and the
    running statistics move by momentum 0.1 towards the mean and the unbiased variance;
    with exactly one value per channel training mode raises \<^verbatim>\<open>ValueError\<close> ("Expected more
    than 1 value per channel when training"); evaluation mode uses the running
    statistics; \<open>\<epsilon> = 10\<^sup>-\<^sup>5\<close>;
  \<^item> \<open>ReLU\<close>, \<open>Flatten\<close> (from dimension 1), \<open>Linear\<close> (\<open>x W\<^sup>T + b\<close> on the last dimension);
  \<^item> \<open>AdaptiveAvgPool2d\<close>: output cell \<open>i\<close> averages rows \<open>\<lfloor>i H / oh\<rfloor>\<close> to
    \<open>\<lceil>(i + 1) H / oh\<rceil> - 1\<close>, and likewise for columns.
  The shape errors are those of \<open>layer_shape\<close>: every layer first checks its input shape
  as \<open>layer_shape\<close> does. \<open>seq_eval\<close> is \<^verbatim>\<open>nn.Sequential\<close>, with one state per layer (a
  module always has one; the missing-state case is a \<^verbatim>\<open>RuntimeError\<close> that no module
  reaches).
\<close>

named_theorems eval_simps "evaluation of the numerical layers"

record lstate =
  lparams :: "real list"
  run_mean :: "real list"
  run_var :: "real list"

definition bn_eps :: real where
  "bn_eps = 1 / 100000"

definition bn_momentum :: real where
  "bn_momentum = 1 / 10"

definition sum_upto :: "nat \<Rightarrow> (nat \<Rightarrow> real) \<Rightarrow> real" where
  "sum_upto n f = sum_list (map f [0..<n])"

definition conv_eval :: "nat \<Rightarrow> nat \<Rightarrow> nat \<Rightarrow> nat \<Rightarrow> bool \<Rightarrow> real list \<Rightarrow> nat list \<Rightarrow> real list \<Rightarrow> real list" where
  "conv_eval ci co k s b ps sh xs =
     (let P = prod_list (take (length sh - 3) sh); H = sh ! (length sh - 2); W = sh ! (length sh - 1);
          oh = conv_out k s H; ow = conv_out k s W
      in [sum_upto ci (\<lambda>c. sum_upto k (\<lambda>a. sum_upto k (\<lambda>d.
            ps ! (((oc * ci + c) * k + a) * k + d) * xs ! (((p * ci + c) * H + i * s + a) * W + j * s + d))))
          + (if b then ps ! (co * ci * k * k + oc) else 0).
          p \<leftarrow> [0..<P], oc \<leftarrow> [0..<co], i \<leftarrow> [0..<oh], j \<leftarrow> [0..<ow]])"

definition bn_stats :: "nat \<Rightarrow> nat \<Rightarrow> nat \<Rightarrow> real list \<Rightarrow> nat \<Rightarrow> real \<times> real" where
  "bn_stats P C L xs c =
     (let vs = [xs ! ((p * C + c) * L + q). p \<leftarrow> [0..<P], q \<leftarrow> [0..<L]];
          n = real (length vs);
          mean = sum_list vs / n
      in (mean, sum_list (map (\<lambda>v. (v - mean)\<^sup>2) vs) / n))"

definition bn_eval ::
  "bool \<Rightarrow> nat \<Rightarrow> lstate \<Rightarrow> nat list \<Rightarrow> real list \<Rightarrow> (real list \<times> lstate) result" where
  "bn_eval training C st sh xs =
     (let P = sh ! 0; L = prod_list (drop 2 sh); m = P * L;
          stats = (if training then map (bn_stats P C L xs) [0..<C]
                   else map (\<lambda>c. (run_mean st ! c, run_var st ! c)) [0..<C]);
          ys = [(xs ! ((p * C + c) * L + q) - fst (stats ! c)) / sqrt (snd (stats ! c) + bn_eps)
                  * lparams st ! c + lparams st ! (C + c).
                p \<leftarrow> [0..<P], c \<leftarrow> [0..<C], q \<leftarrow> [0..<L]];
          st' = (if training
                 then st\<lparr>run_mean := map (\<lambda>c. (1 - bn_momentum) * run_mean st ! c + bn_momentum * fst (stats ! c)) [0..<C],
                         run_var := map (\<lambda>c. (1 - bn_momentum) * run_var st ! c
                                              + bn_momentum * snd (stats ! c) * real m / real (m - 1)) [0..<C]\<rparr>
                 else st)
      in if training \<and> m = 1 then Inl ValueError else Inr (ys, st'))"

definition pool_eval :: "nat \<Rightarrow> nat \<Rightarrow> nat list \<Rightarrow> real list \<Rightarrow> real list" where
  "pool_eval oh ow sh xs =
     (let P = prod_list (take (length sh - 2) sh); H = sh ! (length sh - 2); W = sh ! (length sh - 1);
          win = (\<lambda>n out i. [i * n div out..<((i + 1) * n + out - 1) div out])
      in [sum_list [xs ! ((p * H + a) * W + d). a \<leftarrow> win H oh i, d \<leftarrow> win W ow j]
            / real (length (win H oh i) * length (win W ow j)).
          p \<leftarrow> [0..<P], i \<leftarrow> [0..<oh], j \<leftarrow> [0..<ow]])"

definition linear_eval :: "nat \<Rightarrow> nat \<Rightarrow> bool \<Rightarrow> real list \<Rightarrow> nat list \<Rightarrow> real list \<Rightarrow> real list" where
  "linear_eval ni no b ps sh xs =
     [sum_upto ni (\<lambda>q. xs ! (r * ni + q) * ps ! (oc * ni + q)) + (if b then ps ! (no * ni + oc) else 0).
      r \<leftarrow> [0..<prod_list (butlast sh)], oc \<leftarrow> [0..<no]]"

fun layer_values :: "bool \<Rightarrow> layer \<Rightarrow> lstate \<Rightarrow> nat list \<Rightarrow> real list \<Rightarrow> (real list \<times> lstate) result" where
  "layer_values t (Conv2d ci co k s b) st sh xs = Inr (conv_eval ci co k s b (lparams st) sh xs, st)"
| "layer_values t (BatchNorm2d c) st sh xs = bn_eval t c st sh xs"
| "layer_values t (BatchNorm1d c) st sh xs = bn_eval t c st sh xs"
| "layer_values t ReLU st sh xs = Inr (map (max 0) xs, st)"
| "layer_values t (AdaptiveAvgPool2d oh ow) st sh xs = Inr (pool_eval oh ow sh xs, st)"
| "layer_values t Flatten st sh xs = Inr (xs, st)"
| "layer_values t (Linear ni no b) st sh xs = Inr (linear_eval ni no b (lparams st) sh xs, st)"

definition layer_eval :: "bool \<Rightarrow> layer \<Rightarrow> lstate \<Rightarrow> ndarray \<Rightarrow> (ndarray \<times> lstate) result" where
  "layer_eval t l st x =
     (case layer_shape l (shape x) of
        Inl e \<Rightarrow> Inl e
      | Inr sh' \<Rightarrow>
          (case layer_values t l st (shape x) (vals x) of
             Inl e \<Rightarrow> Inl e
           | Inr (ys, st') \<Rightarrow> Inr (\<lparr>shape = sh', vals = ys\<rparr>, st')))"

fun seq_eval :: "bool \<Rightarrow> layer list \<Rightarrow> lstate list \<Rightarrow> ndarray \<Rightarrow> (ndarray \<times> lstate list) result" where
  "seq_eval t [] sts x = Inr (x, sts)"
| "seq_eval t (l # ls) [] x = Inl RuntimeError"
| "seq_eval t (l # ls) (st # sts) x =
     (case layer_eval t l st x of
        Inl e \<Rightarrow> Inl e
      | Inr (y, st') \<Rightarrow> (case seq_eval t ls sts y of Inl e \<Rightarrow> Inl e | Inr (z, sts') \<Rightarrow> Inr (z, st' # sts')))"


text \<open>At the level of shapes, a layer's \<^verbatim>\<open>forward\<close> in a given mode raises what
  \<open>layer_shape\<close> raises, and in training mode batch normalisation also raises on a single
  value per channel.\<close>

fun bn_single_value :: "bool \<Rightarrow> layer \<Rightarrow> nat list \<Rightarrow> bool" where
  "bn_single_value t (BatchNorm2d c) sh = (t \<and> sh ! 0 * prod_list (drop 2 sh) = 1)"
| "bn_single_value t (BatchNorm1d c) sh = (t \<and> sh ! 0 * prod_list (drop 2 sh) = 1)"
| "bn_single_value t l sh = False"

definition layer_shape_mode :: "bool \<Rightarrow> layer \<Rightarrow> nat list \<Rightarrow> nat list result" where
  "layer_shape_mode t l sh =
     (case layer_shape l sh of
        Inl e \<Rightarrow> Inl e
      | Inr sh' \<Rightarrow> if bn_single_value t l sh then Inl ValueError else Inr sh')"

fun seq_shape_mode :: "bool \<Rightarrow> layer list \<Rightarrow> nat list \<Rightarrow> nat list result" where
  "seq_shape_mode t [] sh = Inr sh"
| "seq_shape_mode t (l # ls) sh = (case layer_shape_mode t l sh of Inl e \<Rightarrow> Inl e | Inr sh' \<Rightarrow> seq_shape_mode t ls sh')"

text \<open>\<^verbatim>\<open>SimpleCNN.forward\<close> (and the Lightning \<^verbatim>\<open>Module.forward\<close>, the same network): the
  four blocks in order, each block's layers with their states.\<close>

record cnn_state =
  st_layer1 :: "lstate list"
  st_layer2 :: "lstate list"
  st_layer3 :: "lstate list"
  st_head :: "lstate list"

definition cnn_eval :: "bool \<Rightarrow> cnn \<Rightarrow> cnn_state \<Rightarrow> ndarray \<Rightarrow> (ndarray \<times> cnn_state) result" where
  "cnn_eval t self cs x =
     (case seq_eval t (layer1 self) (st_layer1 cs) x of Inl e \<Rightarrow> Inl e | Inr (x, s1) \<Rightarrow>
      case seq_eval t (layer2 self) (st_layer2 cs) x of Inl e \<Rightarrow> Inl e | Inr (x, s2) \<Rightarrow>
      case seq_eval t (layer3 self) (st_layer3 cs) x of Inl e \<Rightarrow> Inl e | Inr (x, s3) \<Rightarrow>
      case seq_eval t (head self) (st_head cs) x of Inl e \<Rightarrow> Inl e | Inr (x, s4) \<Rightarrow>
      Inr (x, \<lparr>st_layer1 = s1, st_layer2 = s2, st_layer3 = s3, st_head = s4\<rparr>))"

definition cnn_shape_mode :: "bool \<Rightarrow> cnn \<Rightarrow> nat list \<Rightarrow> nat list result" where
  "cnn_shape_mode t self sh =
     (case seq_shape_mode t (layer1 self) sh of Inl e \<Rightarrow> Inl e | Inr sh \<Rightarrow>
      case seq_shape_mode t (layer2 self) sh of Inl e \<Rightarrow> Inl e | Inr sh \<Rightarrow>
      case seq_shape_mode t (layer3 self) sh of Inl e \<Rightarrow> Inl e | Inr sh \<Rightarrow>
      seq_shape_mode t (head self) sh)"

definition cnn_state_ok :: "cnn \<Rightarrow> cnn_state \<Rightarrow> bool" where
  "cnn_state_ok self cs \<longleftrightarrow>
     length (st_layer1 cs) = length (layer1 self) \<and> length (st_layer2 cs) = length (layer2 self)
     \<and> length (st_layer3 cs) = length (layer3 self) \<and> length (st_head cs) = length (head self)"

subsection \<open>Shapes of the results\<close>

lemma length_concat_map_const [eval_simps]:
  "(\<And>x. x \<in> set xs \<Longrightarrow> length (f x) = n) \<Longrightarrow> length (concat (map f xs)) = length xs * n"
  by (induction xs) auto

lemma length_conv_eval [eval_simps]:
  "length (conv_eval ci co k s b ps sh xs) =
     prod_list (take (length sh - 3) sh) * co * conv_out k s (sh ! (length sh - 2)) * conv_out k s (sh ! (length sh - 1))"
  by (simp add: conv_eval_def Let_def length_concat_map_const)

lemma length_pool_eval [eval_simps]:
  "length (pool_eval oh ow sh xs) = prod_list (take (length sh - 2) sh) * oh * ow"
  by (simp add: pool_eval_def Let_def length_concat_map_const)

lemma length_linear_eval [eval_simps]:
  "length (linear_eval ni no b ps sh xs) = prod_list (butlast sh) * no"
  by (simp add: linear_eval_def length_concat_map_const)

lemma bn_eval_Inr [eval_simps]:
  "bn_eval t C st sh xs = Inr (ys, st') \<Longrightarrow> length ys = sh ! 0 * C * prod_list (drop 2 sh)"
  by (auto simp: bn_eval_def Let_def length_concat_map_const split: if_splits)


lemma layer_values_shape [eval_simps]:
  assumes "layer_shape l sh = Inr sh'" and "length xs = prod_list sh"
  shows "(case layer_values t l st sh xs of
            Inl e \<Rightarrow> e = ValueError \<and> bn_single_value t l sh
          | Inr (ys, st') \<Rightarrow> \<not> bn_single_value t l sh \<and> length ys = prod_list sh')"
proof (cases l)
  case (Conv2d ci co k s b)
  have "length sh = 3 \<or> length sh = 4" and o: "sh' = take (length sh - 3) sh @
      [co, conv_out k s (sh ! (length sh - 2)), conv_out k s (sh ! (length sh - 1))]"
    using assms(1) Conv2d by (auto simp: Let_def split: if_splits)
  then show ?thesis using Conv2d by (simp add: length_conv_eval mult.assoc)
next
  case (BatchNorm2d c)
  then obtain b h w where sh: "sh = [b, c, h, w]" "sh' = sh"
    using assms(1) by (auto simp: numeral_eq_Suc length_Suc_conv split: if_splits)
  then show ?thesis using BatchNorm2d
    by (auto simp: bn_eval_def Let_def length_concat_map_const mult.assoc split: if_splits)
next
  case (BatchNorm1d c)
  then have "(\<exists>b. sh = [b, c]) \<or> (\<exists>b n. sh = [b, c, n])" and "sh' = sh"
    using assms(1) by (auto simp: numeral_eq_Suc length_Suc_conv split: if_splits)
  then show ?thesis using BatchNorm1d
    by (auto simp: bn_eval_def Let_def length_concat_map_const split: if_splits)
next
  case ReLU
  then show ?thesis using assms by simp
next
  case (AdaptiveAvgPool2d oh ow)
  then have "length sh = 3 \<or> length sh = 4" and "sh' = take (length sh - 2) sh @ [oh, ow]"
    using assms(1) by (auto split: if_splits)
  then show ?thesis using AdaptiveAvgPool2d by (simp add: length_pool_eval mult.assoc)
next
  case Flatten
  then have "sh \<noteq> []" and "sh' = [hd sh, prod_list (tl sh)]"
    using assms(1) by (auto split: if_splits)
  then show ?thesis using Flatten assms(2) by (cases sh) simp_all
next
  case (Linear ni no b)
  then have "sh \<noteq> []" and "sh' = butlast sh @ [no]"
    using assms(1) by (auto split: if_splits)
  then show ?thesis using Linear by (simp add: length_linear_eval)
qed


text \<open>The numerical layer refines the shape model: its result, read through its shape, is
  \<open>layer_shape_mode\<close>'s, error for error, and the tensor it returns is well formed.\<close>

lemma layer_eval_refines [eval_simps]:
  assumes "wf_nd x"
  shows "map_sum id (shape \<circ> fst) (layer_eval t l st x) = layer_shape_mode t l (shape x)
         \<and> (\<forall>y st'. layer_eval t l st x = Inr (y, st') \<longrightarrow> wf_nd y)"
proof (cases "layer_shape l (shape x)")
  case (Inl e)
  then show ?thesis by (simp add: layer_eval_def layer_shape_mode_def)
next
  case (Inr sh')
  have len: "length (vals x) = prod_list (shape x)" using assms by (simp add: wf_nd_def)
  show ?thesis
    using layer_values_shape [OF Inr len, of t st] Inr
    by (auto simp: layer_eval_def layer_shape_mode_def wf_nd_def split: sum.splits prod.splits)
qed

lemma seq_eval_refines [eval_simps]:
  assumes "wf_nd x" and "length sts = length ls"
  shows "map_sum id (shape \<circ> fst) (seq_eval t ls sts x) = seq_shape_mode t ls (shape x)
         \<and> (\<forall>y sts'. seq_eval t ls sts x = Inr (y, sts') \<longrightarrow> wf_nd y \<and> length sts' = length ls)"
  using assms
proof (induction ls arbitrary: sts x)
  case Nil
  then show ?case by simp
next
  case (Cons l ls)
  from Cons.prems(2) obtain st sts0 where sts: "sts = st # sts0" and len: "length sts0 = length ls"
    by (cases sts) auto
  have r: "map_sum id (shape \<circ> fst) (layer_eval t l st x) = layer_shape_mode t l (shape x)"
    and w: "\<forall>y st'. layer_eval t l st x = Inr (y, st') \<longrightarrow> wf_nd y"
    using layer_eval_refines [OF Cons.prems(1)] by blast+
  show ?case
  proof (cases "layer_eval t l st x")
    case (Inl e)
    then have "layer_shape_mode t l (shape x) = Inl e" using r by simp
    then show ?thesis using Inl sts by simp
  next
    case (Inr p)
    then obtain y st' where p: "layer_eval t l st x = Inr (y, st')" by (cases p) auto
    have m: "layer_shape_mode t l (shape x) = Inr (shape y)" using r p by simp
    have "wf_nd y" using w p by blast
    then have IH: "map_sum id (shape \<circ> fst) (seq_eval t ls sts0 y) = seq_shape_mode t ls (shape y)"
      "\<forall>z sts'. seq_eval t ls sts0 y = Inr (z, sts') \<longrightarrow> wf_nd z \<and> length sts' = length ls"
      using Cons.IH [of y sts0] len by blast+
    have e: "seq_eval t (l # ls) sts x =
        (case seq_eval t ls sts0 y of Inl e \<Rightarrow> Inl e | Inr (z, sts') \<Rightarrow> Inr (z, st' # sts'))"
      using p sts by simp
    have s: "seq_shape_mode t (l # ls) (shape x) = seq_shape_mode t ls (shape y)"
      using m by simp
    show ?thesis
    proof (cases "seq_eval t ls sts0 y")
      case (Inl e')
      then show ?thesis using e s IH(1) by simp
    next
      case (Inr q)
      then obtain z sts' where q: "seq_eval t ls sts0 y = Inr (z, sts')" by (cases q) auto
      then show ?thesis using e s IH by simp
    qed
  qed
qed


lemma cnn_eval_refines [eval_simps]:
  assumes "wf_nd x" and "cnn_state_ok self cs"
  shows "map_sum id (shape \<circ> fst) (cnn_eval t self cs x) = cnn_shape_mode t self (shape x)
         \<and> (\<forall>y cs'. cnn_eval t self cs x = Inr (y, cs') \<longrightarrow> wf_nd y \<and> cnn_state_ok self cs')"
proof -
  note R = seq_eval_refines [where t = t]
  have l: "length (st_layer1 cs) = length (layer1 self)" "length (st_layer2 cs) = length (layer2 self)"
    "length (st_layer3 cs) = length (layer3 self)" "length (st_head cs) = length (head self)"
    using assms(2) by (simp_all add: cnn_state_ok_def)
  show ?thesis
  proof (cases "seq_eval t (layer1 self) (st_layer1 cs) x")
    case (Inl e)
    have "seq_shape_mode t (layer1 self) (shape x) = Inl e" using R [OF assms(1) l(1)] Inl by simp
    then show ?thesis using Inl by (simp add: cnn_eval_def cnn_shape_mode_def)
  next
    case (Inr r1)
    then obtain x1 s1 where e1: "seq_eval t (layer1 self) (st_layer1 cs) x = Inr (x1, s1)" by (cases r1) auto
    have w1: "wf_nd x1" "length s1 = length (layer1 self)"
      and h1: "seq_shape_mode t (layer1 self) (shape x) = Inr (shape x1)"
      using R [OF assms(1) l(1)] e1 by auto
    show ?thesis
    proof (cases "seq_eval t (layer2 self) (st_layer2 cs) x1")
      case (Inl e)
      have "seq_shape_mode t (layer2 self) (shape x1) = Inl e" using R [OF w1(1) l(2)] Inl by simp
      then show ?thesis using Inl e1 h1 by (simp add: cnn_eval_def cnn_shape_mode_def)
    next
      case (Inr r2)
      then obtain x2 s2 where e2: "seq_eval t (layer2 self) (st_layer2 cs) x1 = Inr (x2, s2)" by (cases r2) auto
      have w2: "wf_nd x2" "length s2 = length (layer2 self)"
        and h2: "seq_shape_mode t (layer2 self) (shape x1) = Inr (shape x2)"
        using R [OF w1(1) l(2)] e2 by auto
      show ?thesis
      proof (cases "seq_eval t (layer3 self) (st_layer3 cs) x2")
        case (Inl e)
        have "seq_shape_mode t (layer3 self) (shape x2) = Inl e" using R [OF w2(1) l(3)] Inl by simp
        then show ?thesis using Inl e1 e2 h1 h2 by (simp add: cnn_eval_def cnn_shape_mode_def)
      next
        case (Inr r3)
        then obtain x3 s3 where e3: "seq_eval t (layer3 self) (st_layer3 cs) x2 = Inr (x3, s3)" by (cases r3) auto
        have w3: "wf_nd x3" "length s3 = length (layer3 self)"
          and h3: "seq_shape_mode t (layer3 self) (shape x2) = Inr (shape x3)"
          using R [OF w2(1) l(3)] e3 by auto
        have R4: "map_sum id (shape \<circ> fst) (seq_eval t (head self) (st_head cs) x3) = seq_shape_mode t (head self) (shape x3)"
          "\<forall>y sts'. seq_eval t (head self) (st_head cs) x3 = Inr (y, sts') \<longrightarrow> wf_nd y \<and> length sts' = length (head self)"
          using R [OF w3(1) l(4)] by blast+
        show ?thesis
        proof (cases "seq_eval t (head self) (st_head cs) x3")
          case (Inl e)
          have "seq_shape_mode t (head self) (shape x3) = Inl e" using R4(1) Inl by simp
          then show ?thesis using Inl e1 e2 e3 h1 h2 h3 by (simp add: cnn_eval_def cnn_shape_mode_def)
        next
          case (Inr r4)
          then obtain x4 s4 where e4: "seq_eval t (head self) (st_head cs) x3 = Inr (x4, s4)" by (cases r4) auto
          then show ?thesis using R4 e1 e2 e3 h1 h2 h3 w1 w2 w3
            by (simp add: cnn_eval_def cnn_shape_mode_def cnn_state_ok_def)
        qed
      qed
    qed
  qed
qed


lemma layer_shape_mode_eval [eval_simps]: "layer_shape_mode False l sh = layer_shape l sh"
  by (cases l) (auto simp: layer_shape_mode_def split: sum.split)

lemma seq_shape_mode_eval [eval_simps]: "seq_shape_mode False ls sh = seq_shape ls sh"
  by (induction ls arbitrary: sh) (auto simp: layer_shape_mode_eval split: sum.split)

lemma cnn_shape_mode_eval [eval_simps]: "cnn_shape_mode False self sh = cnn_forward self sh"
  by (simp add: cnn_shape_mode_def cnn_forward_def seq_shape_mode_eval split: sum.split)

lemma conv_sides [eval_simps]:
  assumes "9 \<le> (h :: nat)"
  shows "conv_out 3 2 (conv_out 3 2 (conv_out 3 1 h)) = 1 \<longleftrightarrow> h \<le> 12"
    and "3 \<le> conv_out 3 2 (conv_out 3 1 h)" and "7 \<le> conv_out 3 1 h"
  using assms by (simp_all add: conv_out_def) presburger+

lemma SimpleCNN_train_shape [eval_simps]:
  assumes "9 \<le> h" and "9 \<le> w"
  shows "cnn_shape_mode True SimpleCNN [n, 3, h, w] =
           (if n = 1 \<and> h \<le> 12 \<and> w \<le> 12 then Inl ValueError else Inr [n, 10])"
proof -
  let ?h1 = "conv_out 3 1 h" and ?w1 = "conv_out 3 1 w"
  let ?h2 = "conv_out 3 2 ?h1" and ?w2 = "conv_out 3 2 ?w1"
  let ?h3 = "conv_out 3 2 ?h2" and ?w3 = "conv_out 3 2 ?w2"
  have s: "7 \<le> ?h1" "7 \<le> ?w1" "3 \<le> ?h2" "3 \<le> ?w2"
    using conv_sides assms by blast+
  have b1: "n * (?h1 * ?w1) \<noteq> 1" and b2: "n * (?h2 * ?w2) \<noteq> 1"
    using s by (auto simp: mult_eq_1_iff)
  have b3: "n * (?h3 * ?w3) = 1 \<longleftrightarrow> n = 1 \<and> h \<le> 12 \<and> w \<le> 12"
    using conv_sides(1) [OF assms(1)] conv_sides(1) [OF assms(2)] by (auto simp: mult_eq_1_iff)
  have l1: "seq_shape_mode True (layer1 SimpleCNN) [n, 3, h, w] = Inr [n, 16, ?h1, ?w1]"
    using assms b1 by (simp add: SimpleCNN_def layer_shape_mode_def Let_def)
  have l2: "seq_shape_mode True (layer2 SimpleCNN) [n, 16, ?h1, ?w1] = Inr [n, 32, ?h2, ?w2]"
    using s b2 by (simp add: SimpleCNN_def layer_shape_mode_def Let_def)
  have l3: "seq_shape_mode True (layer3 SimpleCNN) [n, 32, ?h2, ?w2] =
      (if n * (?h3 * ?w3) = 1 then Inl ValueError else Inr [n, 64, ?h3, ?w3])"
    using s by (simp add: SimpleCNN_def layer_shape_mode_def Let_def)
  have l4: "seq_shape_mode True (head SimpleCNN) [n, 64, ?h3, ?w3] = Inr [n, 10]"
    by (simp add: SimpleCNN_def layer_shape_mode_def)
  show ?thesis using l1 l2 l3 l4 b3 by (simp add: cnn_shape_mode_def)
qed


lemma bn_single_value_eval: "\<not> bn_single_value False l sh"
  by (cases l) auto

lemma seq_shape_mode_train_Inr:
  "seq_shape_mode True ls sh = Inr out \<Longrightarrow> seq_shape_mode False ls sh = Inr out"
proof (induction ls arbitrary: sh)
  case Nil
  then show ?case by simp
next
  case (Cons l ls)
  then show ?case by (auto simp: layer_shape_mode_def bn_single_value_eval split: sum.splits if_splits)
qed

lemma cnn_shape_mode_train_Inr:
  "cnn_shape_mode True self sh = Inr out \<Longrightarrow> cnn_shape_mode False self sh = Inr out"
  by (auto simp: cnn_shape_mode_def split: sum.splits dest!: seq_shape_mode_train_Inr)

text \<open>C14: the type of \<^verbatim>\<open>SimpleCNN.forward\<close> in either mode. In evaluation mode it is
  defined on exactly the batched three-channel images of height and width at least 9,
  with one row of 10 logits per image; in training mode (\<^verbatim>\<open>train_epoch\<close>) on the same
  inputs except a single image with both sides at most 12. Every other input raises.\<close>

theorem SimpleCNN_forward_modes:
  "cnn_shape_mode t SimpleCNN sh = Inr out \<longleftrightarrow>
     (\<exists>n h w. sh = [n, 3, h, w] \<and> 9 \<le> h \<and> 9 \<le> w \<and> \<not> (t \<and> n = 1 \<and> h \<le> 12 \<and> w \<le> 12) \<and> out = [n, 10])"
proof (cases t)
  case False
  then show ?thesis by (simp add: cnn_shape_mode_eval SimpleCNN_forward_type)
next
  case True
  show ?thesis
  proof
    assume r: "cnn_shape_mode t SimpleCNN sh = Inr out"
    then obtain n h w where sh: "sh = [n, 3, h, w]" "9 \<le> h" "9 \<le> w" "out = [n, 10]"
      using cnn_shape_mode_train_Inr [of SimpleCNN sh out] True
      by (auto simp: cnn_shape_mode_eval SimpleCNN_forward_type)
    then show "\<exists>n h w. sh = [n, 3, h, w] \<and> 9 \<le> h \<and> 9 \<le> w \<and> \<not> (t \<and> n = 1 \<and> h \<le> 12 \<and> w \<le> 12) \<and> out = [n, 10]"
      using r True SimpleCNN_train_shape [OF sh(2,3), of n] by (auto split: if_splits)
  next
    assume "\<exists>n h w. sh = [n, 3, h, w] \<and> 9 \<le> h \<and> 9 \<le> w \<and> \<not> (t \<and> n = 1 \<and> h \<le> 12 \<and> w \<le> 12) \<and> out = [n, 10]"
    then show "cnn_shape_mode t SimpleCNN sh = Inr out" using True SimpleCNN_train_shape by auto
  qed
qed

text \<open>C10: the numerical \<^verbatim>\<open>SimpleCNN.forward\<close> refines the shape model. In evaluation
  mode (\<^verbatim>\<open>model.eval()\<close>, as \<^verbatim>\<open>test_epoch\<close> runs it) the shape of its result and its
  exceptions are exactly those of \<open>cnn_forward\<close>; in training mode (\<^verbatim>\<open>model.train()\<close>, as
  \<^verbatim>\<open>train_epoch\<close> runs it) a batched 3-channel input of sides at least 9 gives a
  \<open>(B, 10)\<close> tensor, except a single image with both sides at most 12, on which the
  last batch normalisation sees one value per channel and raises \<^verbatim>\<open>ValueError\<close>. Every
  result is a well-formed tensor, with one state per layer.\<close>

theorem SimpleCNN_eval_refines:
  assumes "wf_nd x" and "cnn_state_ok SimpleCNN cs"
  shows "map_sum id (shape \<circ> fst) (cnn_eval False SimpleCNN cs x) = cnn_forward SimpleCNN (shape x)
     \<and> (shape x = [n, 3, h, w] \<and> 9 \<le> h \<and> 9 \<le> w \<longrightarrow>
          map_sum id (shape \<circ> fst) (cnn_eval True SimpleCNN cs x) =
            (if n = 1 \<and> h \<le> 12 \<and> w \<le> 12 then Inl ValueError else Inr [n, 10]))
     \<and> (\<forall>t y cs'. cnn_eval t SimpleCNN cs x = Inr (y, cs') \<longrightarrow> wf_nd y \<and> cnn_state_ok SimpleCNN cs')"
  using cnn_eval_refines [OF assms, of False] cnn_eval_refines [OF assms, of True]
    cnn_eval_refines [OF assms] cnn_shape_mode_eval SimpleCNN_train_shape
  by auto

theorem SimpleCNN_eval_refines_witness:
  "wf_nd \<lparr>shape = [1, 3, 9, 9], vals = replicate 243 0\<rparr>
   \<and> cnn_state_ok SimpleCNN \<lparr>st_layer1 = replicate 3 \<lparr>lparams = [], run_mean = [], run_var = []\<rparr>,
        st_layer2 = replicate 3 \<lparr>lparams = [], run_mean = [], run_var = []\<rparr>,
        st_layer3 = replicate 3 \<lparr>lparams = [], run_mean = [], run_var = []\<rparr>,
        st_head = replicate 3 \<lparr>lparams = [], run_mean = [], run_var = []\<rparr>\<rparr>
   \<and> map_sum id (shape \<circ> fst) (cnn_eval True SimpleCNN
        \<lparr>st_layer1 = replicate 3 \<lparr>lparams = [], run_mean = [], run_var = []\<rparr>,
         st_layer2 = replicate 3 \<lparr>lparams = [], run_mean = [], run_var = []\<rparr>,
         st_layer3 = replicate 3 \<lparr>lparams = [], run_mean = [], run_var = []\<rparr>,
         st_head = replicate 3 \<lparr>lparams = [], run_mean = [], run_var = []\<rparr>\<rparr>
        \<lparr>shape = [1, 3, 9, 9], vals = replicate 243 0\<rparr>) = Inl ValueError"
proof -
  have w: "wf_nd \<lparr>shape = [1, 3, 9, 9], vals = replicate 243 (0 :: real)\<rparr>" by (simp add: wf_nd_def)
  have c: "cnn_state_ok SimpleCNN \<lparr>st_layer1 = replicate 3 \<lparr>lparams = [], run_mean = [], run_var = []\<rparr>,
        st_layer2 = replicate 3 \<lparr>lparams = [], run_mean = [], run_var = []\<rparr>,
        st_layer3 = replicate 3 \<lparr>lparams = [], run_mean = [], run_var = []\<rparr>,
        st_head = replicate 3 \<lparr>lparams = [], run_mean = [], run_var = []\<rparr>\<rparr>"
    by (simp add: cnn_state_ok_def SimpleCNN_def)
  show ?thesis using SimpleCNN_eval_refines [OF w c, of 1 9 9] w c by simp
qed

end
