(* ===== verification/Spec2Isabelle.thy ===== *)
theory Spec2Isabelle
  imports Detection_Notebook Finetune_Cells Saliency_Notebook Clip Basics Experiments Network_Eval
begin

text \<open>
  A verification library for the course notebooks of the repository. The program is five
  notebooks in four files under \<^verbatim>\<open>src/\<close>:
  \<^item> \<^verbatim>\<open>src/unnamed/part_000\<close>, object detection with YOLOS: softmax over the class logits,
    the objectness \<^verbatim>\<open>1 - p[-1]\<close>, the box-overlap evaluator \<^verbatim>\<open>batch_iou\<close> with its fixture
    \<^verbatim>\<open>check_batch_iou\<close>, the greedy suppressor \<^verbatim>\<open>non_maximum_suppression\<close> and the drawing
    loop \<^verbatim>\<open>draw_boxes\<close>;
  \<^item> \<^verbatim>\<open>src/02-images/02-saliency-maps.ipynb\<close>, saliency maps of ResNet34: \<^verbatim>\<open>show_map\<close>, the
    top classes, two simple-gradient cells and GradCAM;
  \<^item> \<^verbatim>\<open>src/05-foundation/01-finetuning.ipynb\<close>, ViT fine-tuning: \<^verbatim>\<open>clean_memory\<close>, the
    \<^verbatim>\<open>Data\<close> and \<^verbatim>\<open>Module\<close> classes, head fine-tuning, early stopping and LoRA;
  \<^item> \<^verbatim>\<open>src/05-foundation/02-clip.ipynb\<close>, three notebooks: zero-shot CLIP tiles, the
    PyTorch Lightning version of the CIFAR10 classifier, and the PyTorch introduction
    (tensor basics, gradients, \<^verbatim>\<open>SimpleCNN\<close>, \<^verbatim>\<open>get_cifar10_loader\<close>, \<^verbatim>\<open>train_epoch\<close>,
    \<^verbatim>\<open>test_epoch\<close>, \<^verbatim>\<open>train_cifar10\<close>).

  \<^bold>\<open>How the parts interact.\<close> In the detection notebook the model's logits go through
  \<open>softmax\<close> and \<open>objectness\<close>, the boxes through \<open>center_to_corners\<close>; NMS orders by
  objectness and compares boxes with \<open>iou\<close>; \<open>draw_boxes\<close> scales the kept boxes with
  \<open>scale_box\<close>. In the training notebooks a data module (\<open>Loader\<close>) yields batches,
  the loops (\<open>Training\<close>) run a network whose shapes \<open>Architecture\<close> computes, and the
  fine-tuning runs (\<open>Finetune\<close>) hand a module and a data module to the trainer; the
  main cell (\<open>Experiments\<close>) runs the loops on SimpleCNN and plots what they return. The
  saliency, CLIP and basics notebooks stand alone on the shared primitives.

  \<^bold>\<open>Theories.\<close> Each theory opens with a text saying what it models; in short:
  \<^item> \<open>Prelude\<close>: exceptions as values (\<open>py_error\<close>, \<open>'a result = py_error + 'a\<close>), tensors
    as \<open>real list\<close>, \<open>tensor_max\<close> (\<^verbatim>\<open>p.max(dim=-1)\<close>), \<open>argsort_desc\<close> (a stable
    descending argsort), \<open>softmax\<close> and probability vectors.
  \<^item> \<open>Torch\<close>: Python and PyTorch primitives with the semantics of their documentation
    (\<open>py_div\<close>, \<open>py_range\<close>, \<open>py_split\<close>/\<open>py_join\<close>, \<open>minmax_normalise\<close>, \<open>argmax_rows\<close>,
    \<open>eq_count\<close>, \<open>batch_accuracy\<close>, shaped tensors \<open>ndarray\<close> with \<open>permute_120\<close>, \<open>index0\<close>).
  \<^item> \<open>Boxes\<close>, \<open>NMS\<close>, \<open>Detection\<close>: the detection notebook. The two exercise bodies
    (\<^verbatim>\<open>batch_iou\<close>, \<^verbatim>\<open>non_maximum_suppression\<close>) are \<^verbatim>\<open>...\<close> in the source, so their
    definitions follow the assignment text and the spec; the shipped stubs are modelled too
    (\<open>batch_iou_stub\<close>, \<open>non_maximum_suppression_shipped\<close>), the stub's memory as
    floats that may be NaN. \<open>draw_boxes\<close> takes \<^verbatim>\<open>model.config.id2label\<close> as a dict and
    raises its \<^verbatim>\<open>KeyError\<close>.
  \<^item> \<open>Detection_Notebook\<close>: "Run All" of the detection notebook, each cell's outputs as
    events (\<open>nb_event\<close>) and the first exception ending the run (\<open>then_cell\<close>): the
    image cells, the model cell's prints and shape errors, the first drawing, the IoU
    fixture cell and the NMS cell, with the specified suppressor (\<open>run_all\<close>) or as
    shipped (\<open>run_all_shipped\<close>).
  \<^item> \<open>Loader\<close>: \<^verbatim>\<open>DataLoader\<close> as its batches (\<open>chunks\<close>), the three data modules,
    \<open>get_cifar10_loader\<close>, \<open>collate\<close>.
  \<^item> \<open>Architecture\<close>: layers as their constructor arguments, \<open>layer_shape\<close>/\<open>seq_shape\<close> and
    \<open>layer_params\<close>, \<open>SimpleCNN\<close>, the Lightning \<open>pl_Module\<close>, the ViT heads.
  \<^item> \<open>Network_Eval\<close>: the numerical forward pass of those layers (\<open>conv_eval\<close>,
    \<open>bn_eval\<close> with BatchNorm's running statistics in \<open>lstate\<close>, \<open>pool_eval\<close>,
    \<open>linear_eval\<close>), of a block (\<open>seq_eval\<close>) and of \<^verbatim>\<open>SimpleCNN.forward\<close>
    (\<open>cnn_eval\<close>, with the blocks' states in \<open>cnn_state\<close>), in training or evaluation
    mode; \<open>cnn_eval_refines\<close> shows that its shapes and exceptions are those of the
    shape model \<open>cnn_shape_mode\<close>, which in evaluation mode is \<open>cnn_forward\<close>.
  \<^item> \<open>Training\<close>: \<open>train_loop\<close>/\<open>train_epoch\<close>, \<open>test_loop\<close>/\<open>test_epoch\<close>,
    \<open>epochs_loop\<close>/\<open>train_cifar10\<close>, the Lightning steps with Lightning's epoch mean, the
    fine-tuning steps; state passing through \<open>epoch_state\<close>.
  \<^item> \<open>Finetune\<close>: \<open>clean_memory\<close> on the globals, frozen and trainable parameters, the three
    runs and their cells with the LoRA configuration; \<open>Finetune_Cells\<close> adds
    \<^verbatim>\<open>fetch_resources\<close> and \<^verbatim>\<open>Module.forward\<close>.
  \<^item> \<open>Saliency\<close>, \<open>Clip\<close>, \<open>Basics\<close>: the saliency, CLIP and PyTorch-basics cells; in
    \<open>Saliency\<close> the cells that touch \<^verbatim>\<open>x.grad\<close> are a step relation
    (\<open>notebook_step\<close>) and the invariant \<open>grad_inv\<close> holds in every state reachable by
    running the cells in any order, a gradient cell whose \<^verbatim>\<open>logits[cls]\<close> raises
    \<^verbatim>\<open>IndexError\<close> included. \<open>Saliency_Notebook\<close> adds the loading and prediction
    cells and the top-to-bottom run (\<open>run_saliency\<close>), one of those orders, and the
    GradCAM cell's prints and its two map cells (\<open>gradcam_nb_cell\<close>,
    \<open>gradcam_show_cell\<close>) for the whole notebook (\<open>run_saliency_full\<close>).
  \<^item> \<open>Experiments\<close>: the cells that run the training, \<^verbatim>\<open>train_cifar10(model, optimizer)\<close>
    with SimpleCNN's Adam configuration (\<open>cifar_main\<close>), the history figure
    (\<open>history_figure\<close>) and the two in sequence (\<open>cifar_experiment\<close>); the Lightning
    notebook's \<^verbatim>\<open>trainer.fit\<close> cell (\<open>lightning_main\<close>).

  \<^bold>\<open>What the lemmas show.\<close> The claims are numbered in the order of the manifest:
  C1 to C8 the suppressor, modelled from the spec because its body is an exercise (no two
  kept boxes overlap above the threshold, every dropped box is covered by a kept one, order
  with stable ties, equivalence of the one-pass scan, idempotence, clusters, the threshold
  boundary, bounds); C9 the IoU bounds; C10 the numerical \<^verbatim>\<open>SimpleCNN.forward\<close>, which
  refines the shape model and, in training mode, raises on a single image of side 9 to 12;
  C11 to C13 the training loops (the test accuracy is the global accuracy, the training run
  completes and prints its epochs in order, the returned loss is the last batch's); C14 the
  type of \<^verbatim>\<open>SimpleCNN.forward\<close> in either mode; C15, C16 and C18 the loaders (coverage of the
  data, the number of batches, the first batch's range); C17 the saliency notebook run from
  top to bottom, GradCAM cells included (no exception when the logits reach the ship's
  index, the maps in order, every shown value in \<open>[0, 1]\<close>, the cat's gradient left in
  \<^verbatim>\<open>x.grad\<close>); C19 and C20 fine-tuning (what is trained, \<open>clean_memory\<close>); C21 and C22
  saliency (\<open>show_map\<close> shows values in \<open>[0, 1]\<close>; in any order of the cells \<^verbatim>\<open>x.grad\<close>
  holds at most one logit's gradient); C23 the CLIP tiles; C24 to C27 the drawing loop
  (what it prints, objectness, patch geometry, its \<^verbatim>\<open>IndexError\<close> and \<^verbatim>\<open>KeyError\<close>); C28
  "Run All" of the detection notebook (every cell runs and the last draws exactly what NMS
  keeps; as shipped the notebook stops at the IoU cell or at the NMS cell).

  \<^bold>\<open>Loops, fuel and bounds.\<close> Every loop of the notebooks runs over a finite list (of
  detections, batches, images, prompts, epochs), so every definition is a total recursive
  function: structural recursion, or \<open>fun\<close> with a length measure where the loop consumes a
  filtered worklist (\<open>nms_loop\<close>) or a slice (\<open>chunks\<close>). No fuel is needed, and the
  theorems that a loop completes are stated as the existence of its result. The witnesses
  use small inputs (two to five boxes, one or two batches, four images); the main cell's
  ten epochs are \<^verbatim>\<open>train_cifar10\<close>'s default.

  \<^bold>\<open>Not modelled.\<close> The pretrained networks (YOLOS, ResNet34, ViT, CLIP) and their
  processors, autograd, the optimizers' arithmetic, \<^verbatim>\<open>peft.get_peft_model\<close> and
  \<^verbatim>\<open>pl.Trainer.fit\<close>'s training loop are library code the notebooks call: parameters.
  SimpleCNN's weights are the values in its state, not the result of an initialiser. The
  training loops take the forward pass as a parameter that returns logits and cannot raise;
  SimpleCNN's numerical forward (\<open>cnn_eval\<close>) can raise, so it is modelled and verified on
  its own in \<open>Network_Eval\<close> and not plugged into the loops. matplotlib
  draws nothing here (plotting calls are events), and the fixture's diagnostic prints on
  failure are left out; downloads, files, the label file and TensorBoard are input and
  output; the cells left are imports, \<^verbatim>\<open>pip\<close> and TensorBoard magics. Floats are real
  numbers, without rounding or overflow; NaN is modelled (\<open>fval\<close>) only where the code
  can meet it: a rescaling of a constant tensor and uninitialised memory.
\<close>

subsection \<open>Properties across notebooks\<close>

text \<open>The detection notebook's preprocessing cell and the saliency notebook's show the same
  view of an image: the first image of the batch, channels last, rescaled to \<open>[0, 1]\<close>.\<close>

lemma preprocessed_views_agree:
  "index0 pixel_values = Inr v \<Longrightarrow> yolos_preprocessed pixel_values = preprocessed_view v"
  by (simp add: yolos_preprocessed_def preprocessed_view_def)

end
